theory Spec2Isabelle
  imports Main "HOL-Library.Word"
begin

unbundle bit_operations_syntax

section \<open>The bootstrap of nghttpx (src/shrpx.cc)\<close>

text \<open>
  A shallow embedding of \<^verbatim>\<open>src/shrpx.cc\<close>: the command-line loop, the merge of the
  configuration sources, the construction of the TLS contexts, the address resolver, the
  two listeners, the PID file, the privilege drop and the hand-over to the event loop.

  The process talks to the operating system and to libraries all the time. Every answer
  the outside world gives (the return value of a system call, the content of the
  configuration file, the result of name resolution) is a field of the record
  \<open>sys_env\<close>; every action the process performs on the outside world is appended to a
  trace of events. A function of the source that can end the process returns an
  \<open>outcome\<close>: \<open>Returned x\<close> or \<open>Exited status\<close>.
\<close>

subsection \<open>Machine types and constants of the system headers\<close>

type_synonym uid_t = "32 word"
type_synonym gid_t = "32 word"
type_synonym mode_t = "32 word"
type_synonym size_t = "64 word"
type_synonym uint16_t = "16 word"
type_synonym sockaddr = "8 word list"

definition EXIT_SUCCESS :: nat where "EXIT_SUCCESS = 0"
definition EXIT_FAILURE :: nat where "EXIT_FAILURE = 1"

text \<open>Address families of \<^verbatim>\<open><sys/socket.h>\<close>; only their identity matters.\<close>

datatype family = AF_UNSPEC | AF_INET | AF_INET6

text \<open>
  The file type bits of \<^verbatim>\<open><sys/stat.h>\<close>, with the values every current Unix uses
  (octal 0170000, 0100000, 0120000, 0040000, 0020000, 0060000, 0010000, 0140000).
\<close>

definition S_IFMT :: mode_t where "S_IFMT = 0xF000"
definition S_IFREG :: mode_t where "S_IFREG = 0x8000"
definition S_IFLNK :: mode_t where "S_IFLNK = 0xA000"
definition S_IFDIR :: mode_t where "S_IFDIR = 0x4000"
definition S_IFCHR :: mode_t where "S_IFCHR = 0x2000"
definition S_IFBLK :: mode_t where "S_IFBLK = 0x6000"
definition S_IFIFO :: mode_t where "S_IFIFO = 0x1000"
definition S_IFSOCK :: mode_t where "S_IFSOCK = 0xC000"

definition S_ISREG :: "mode_t \<Rightarrow> bool" where
  "S_ISREG m = (m AND S_IFMT = S_IFREG)"

definition S_ISLNK :: "mode_t \<Rightarrow> bool" where
  "S_ISLNK m = (m AND S_IFMT = S_IFLNK)"

subsection \<open>Decimal text\<close>

text \<open>
  \<^verbatim>\<open>snprintf(service, sizeof(service), "%u", port)\<close> and \<^verbatim>\<open>out << getpid()\<close> print a
  number in decimal. A port has at most five digits, so the ten bytes of \<^verbatim>\<open>service\<close>
  never truncate it.
\<close>

definition digit_char :: "nat \<Rightarrow> char" where
  "digit_char d = ''0123456789'' ! d"

fun decimal :: "nat \<Rightarrow> string" where
  "decimal n = (if n < 10 then [digit_char n] else decimal (n div 10) @ [digit_char (n mod 10)])"

declare decimal.simps [simp del]

definition digit_value :: "char \<Rightarrow> nat" where
  "digit_value c = of_char c - 48"

definition decimal_value :: "string \<Rightarrow> nat" where
  "decimal_value s = foldl (\<lambda>acc c. 10 * acc + digit_value c) 0 s"

subsection \<open>The configuration store\<close>

text \<open>
  The keys \<^verbatim>\<open>SHRPX_OPT_*\<close> are macros of \<^verbatim>\<open>shrpx_config.h\<close>, which is not among the
  sources. The source uses them only as names of settings, so they are the constructors
  of a datatype here.
\<close>

datatype (plugins only: code) shrpx_opt =
    SHRPX_OPT_DAEMON | SHRPX_OPT_LOG_LEVEL | SHRPX_OPT_BACKEND
  | SHRPX_OPT_HTTP2_MAX_CONCURRENT_STREAMS | SHRPX_OPT_FRONTEND | SHRPX_OPT_INSECURE
  | SHRPX_OPT_WORKERS | SHRPX_OPT_CLIENT_PROXY | SHRPX_OPT_HTTP2_PROXY
  | SHRPX_OPT_ADD_X_FORWARDED_FOR | SHRPX_OPT_FRONTEND_HTTP2_READ_TIMEOUT
  | SHRPX_OPT_FRONTEND_READ_TIMEOUT | SHRPX_OPT_FRONTEND_WRITE_TIMEOUT
  | SHRPX_OPT_BACKEND_READ_TIMEOUT | SHRPX_OPT_BACKEND_WRITE_TIMEOUT | SHRPX_OPT_ACCESSLOG
  | SHRPX_OPT_BACKEND_KEEP_ALIVE_TIMEOUT | SHRPX_OPT_FRONTEND_HTTP2_WINDOW_BITS
  | SHRPX_OPT_PID_FILE | SHRPX_OPT_USER | SHRPX_OPT_SYSLOG | SHRPX_OPT_SYSLOG_FACILITY
  | SHRPX_OPT_BACKLOG | SHRPX_OPT_CIPHERS | SHRPX_OPT_CLIENT
  | SHRPX_OPT_BACKEND_HTTP2_WINDOW_BITS | SHRPX_OPT_CACERT | SHRPX_OPT_BACKEND_IPV4
  | SHRPX_OPT_BACKEND_IPV6 | SHRPX_OPT_PRIVATE_KEY_PASSWD_FILE | SHRPX_OPT_NO_VIA
  | SHRPX_OPT_SUBCERT | SHRPX_OPT_HTTP2_BRIDGE | SHRPX_OPT_BACKEND_HTTP_PROXY_URI
  | SHRPX_OPT_BACKEND_NO_TLS | SHRPX_OPT_FRONTEND_NO_TLS | SHRPX_OPT_BACKEND_TLS_SNI_FIELD
  | SHRPX_OPT_HONOR_CIPHER_ORDER | SHRPX_OPT_DH_PARAM_FILE | SHRPX_OPT_READ_RATE
  | SHRPX_OPT_READ_BURST | SHRPX_OPT_WRITE_RATE | SHRPX_OPT_WRITE_BURST | SHRPX_OPT_NPN_LIST
  | SHRPX_OPT_VERIFY_CLIENT | SHRPX_OPT_VERIFY_CLIENT_CACERT
  | SHRPX_OPT_CLIENT_PRIVATE_KEY_FILE | SHRPX_OPT_CLIENT_CERT_FILE
  | SHRPX_OPT_PRIVATE_KEY_FILE | SHRPX_OPT_CERTIFICATE_FILE

datatype shrpx_proto = PROTO_SPDY | PROTO_HTTP

text \<open>A TLS context is known by what it was built from.\<close>

datatype ssl_ctx = Server_ctx string string | Client_ctx

text \<open>
  The descriptor \<^verbatim>\<open>ev_token_bucket_cfg\<close> of libevent, as the four limits it was built
  from, in the order of the arguments of \<^verbatim>\<open>ev_token_bucket_cfg_new\<close>.
\<close>

record ev_token_bucket_cfg =
  cfg_read_rate :: size_t
  cfg_read_burst :: size_t
  cfg_write_rate :: size_t
  cfg_write_burst :: size_t

record timeval =
  tv_sec :: int
  tv_usec :: int

text \<open>
  The struct \<^verbatim>\<open>Config\<close> is declared in \<^verbatim>\<open>shrpx_config.h\<close>; its fields are taken from
  their uses in \<^verbatim>\<open>shrpx.cc\<close>. A pointer that may be null is an option. The lookup
  structure \<^verbatim>\<open>cert_tree\<close> is the list of the certificates inserted so far, each with
  its context.
\<close>

record Config =
  verbose :: bool
  daemon :: bool
  server_name :: string
  host :: string
  port :: uint16_t
  private_key_file :: "string option"
  private_key_passwd :: "string option"
  cert_file :: "string option"
  http2_upstream_read_timeout :: timeval
  upstream_read_timeout :: timeval
  upstream_write_timeout :: timeval
  downstream_read_timeout :: timeval
  downstream_write_timeout :: timeval
  downstream_idle_read_timeout :: timeval
  http2_upstream_window_bits :: nat
  http2_downstream_window_bits :: nat
  upstream_no_tls :: bool
  downstream_no_tls :: bool
  downstream_host :: string
  downstream_port :: uint16_t
  downstream_hostport :: "string option"
  downstream_addr :: sockaddr
  downstream_addrlen :: nat
  num_worker :: size_t
  http2_max_concurrent_streams :: nat
  add_x_forwarded_for :: bool
  no_via :: bool
  accesslog :: bool
  conf_path :: string
  syslog :: bool
  syslog_facility :: int
  use_syslog :: bool
  backlog :: int
  ciphers :: "string option"
  honor_cipher_order :: bool
  http2_proxy :: bool
  http2_bridge :: bool
  client_proxy :: bool
  client :: bool
  client_mode :: bool
  insecure :: bool
  cacert :: "string option"
  pid_file :: "string option"
  uid :: uid_t
  gid :: gid_t
  backend_ipv4 :: bool
  backend_ipv6 :: bool
  tty :: bool
  cert_tree :: "(ssl_ctx \<times> string) list option"
  downstream_http_proxy_userinfo :: "string option"
  downstream_http_proxy_host :: "string option"
  downstream_http_proxy_port :: uint16_t
  downstream_http_proxy_addr :: sockaddr
  downstream_http_proxy_addrlen :: nat
  rate_limit_cfg :: "ev_token_bucket_cfg option"
  read_rate :: size_t
  read_burst :: size_t
  write_rate :: size_t
  write_burst :: size_t
  npn_list :: "string option"
  verify_client :: bool
  verify_client_cacert :: "string option"
  client_private_key_file :: "string option"
  client_cert_file :: "string option"
  subcerts :: "(string \<times> string) list"
  default_ssl_ctx :: "ssl_ctx option"
  downstream_proto :: shrpx_proto


subsection \<open>The outside world\<close>

record addrinfo =
  ai_family :: family
  ai_socktype :: int
  ai_protocol :: int
  ai_addr :: sockaddr
  ai_addrlen :: nat

text \<open>
  The hints given to \<^verbatim>\<open>getaddrinfo\<close>: the family, the socket type (always
  \<^verbatim>\<open>SOCK_STREAM\<close> in this file), and the flags \<^verbatim>\<open>AI_PASSIVE\<close> and
  \<^verbatim>\<open>AI_ADDRCONFIG\<close>. The build is taken to define \<^verbatim>\<open>AI_ADDRCONFIG\<close> and
  \<^verbatim>\<open>IPV6_V6ONLY\<close>.
\<close>

datatype socktype = SOCK_STREAM | SOCK_DGRAM

record addrinfo_hints =
  hint_family :: family
  hint_socktype :: socktype
  hint_passive :: bool
  hint_addrconfig :: bool

text \<open>
  \<^verbatim>\<open>getaddrinfo\<close> returns an error code, or a list of results that has a first
  element.
\<close>

datatype gai_result = Gai_error int | Gai_ok addrinfo "addrinfo list"

text \<open>One return of \<^verbatim>\<open>getopt_long\<close>: its value, and what it left in \<^verbatim>\<open>flag\<close> and
  \<^verbatim>\<open>optarg\<close>.\<close>

record getopt_ret =
  ret :: int
  flag :: int
  optarg :: string

text \<open>
  The command line as \<^verbatim>\<open>getopt_long\<close> presents it: the successive returns, and the
  arguments \<^verbatim>\<open>argv[optind]\<close> \<dots> \<^verbatim>\<open>argv[argc - 1]\<close> that remain after the loop.
\<close>

record cmdline =
  getopt_results :: "getopt_ret list"
  positionals :: "string list"

datatype (plugins only: code) event =
    E_print_help
  | E_print_version
  | E_print_usage
  | E_ssl_library_init
  | E_setup_ssl_lock
  | E_teardown_ssl_lock
  | E_load_config string
  | E_cert_lookup_tree_new
  | E_create_ssl_context string string
  | E_cert_lookup_tree_add ssl_ctx string
  | E_create_ssl_client_context
  | E_getaddrinfo string string addrinfo_hints
  | E_getnameinfo sockaddr
  | E_socket addrinfo
  | E_setsockopt_reuseaddr int
  | E_make_socket_nonblocking int
  | E_setsockopt_v6only int
  | E_bind int sockaddr
  | E_close int
  | E_evconnlistener_new int int
  | E_evconnlistener_free int
  | E_openlog int
  | E_token_bucket_cfg_new size_t size_t size_t size_t
  | E_sigaction_ignore_sigpipe
  | E_event_base_new
  | E_new_ListenHandler "ssl_ctx option" "ssl_ctx option"
  | E_daemon
  | E_write_pid_file string string
  | E_setgid gid_t
  | E_setuid uid_t
  | E_create_worker_thread size_t
  | E_create_http2_session
  | E_event_base_loop

datatype 'a outcome = Returned 'a | Exited nat

text \<open>
  What the process changes: the configuration store, the trace of its actions, its
  process id (\<^verbatim>\<open>daemon\<close> forks) and the files it writes.
\<close>

record world =
  cfg :: Config
  trace :: "event list"
  pid :: nat
  files :: "string \<rightharpoonup> string"

definition emit :: "event \<Rightarrow> world \<Rightarrow> world" where
  "emit e w = w\<lparr>trace := trace w @ [e]\<rparr>"

text \<open>
  What the outside world answers. \<open>parse_config_res\<close> and \<open>conf_file\<close> stand for
  \<^verbatim>\<open>shrpx_config.cc\<close>, and the fields on TLS contexts for \<^verbatim>\<open>shrpx_ssl.cc\<close>; neither
  file is among the sources. \<open>NGHTTP2_VERSION\<close>, \<open>NGHTTP2_PROTO_VERSION_ID\<close>,
  \<open>HAVE_SPDYLAY\<close> and \<open>EV_RATE_LIMIT_MAX\<close> are macros of the build.
\<close>

record sys_env =
  NGHTTP2_VERSION :: string
  NGHTTP2_PROTO_VERSION_ID :: string
  HAVE_SPDYLAY :: bool
  EV_RATE_LIMIT_MAX :: size_t
  isatty_stderr :: bool
  stat_mode :: "string \<Rightarrow> mode_t option"
  conf_file :: "string \<Rightarrow> (shrpx_opt \<times> string) list option"
  parse_config_res :: "shrpx_opt \<Rightarrow> string \<Rightarrow> Config \<Rightarrow> Config option"
  create_ssl_context_ok :: "string \<Rightarrow> string \<Rightarrow> bool"
  cert_lookup_tree_add_res :: "ssl_ctx \<Rightarrow> string \<Rightarrow> int"
  inet_pton6_res :: "string \<Rightarrow> int"
  getaddrinfo_res :: "string \<Rightarrow> string \<Rightarrow> addrinfo_hints \<Rightarrow> gai_result"
  getnameinfo_res :: "sockaddr \<Rightarrow> int"
  socket_res :: "addrinfo \<Rightarrow> int"
  setsockopt_reuseaddr_res :: "int \<Rightarrow> int"
  setsockopt_v6only_res :: "int \<Rightarrow> int"
  bind_res :: "int \<Rightarrow> sockaddr \<Rightarrow> int"
  evconnlistener_new_ok :: "int \<Rightarrow> bool"
  event_base_new_ok :: bool
  daemon_res :: int
  daemon_pid :: nat
  pid_file_write_ok :: "string \<Rightarrow> bool"
  getuid_res :: uid_t
  setgid_res :: "gid_t \<Rightarrow> int"
  setuid_res :: "uid_t \<Rightarrow> int"


subsection \<open>conf_exists, fill_default_config, get_rate_limit\<close>

text \<open>
  \<^verbatim>\<open>conf_exists\<close> (lines 316--321): \<^verbatim>\<open>stat\<close> succeeded and
  \<^verbatim>\<open>buf.st_mode & (S_IFREG | S_IFLNK)\<close> is not zero.
\<close>

definition conf_exists :: "sys_env \<Rightarrow> string \<Rightarrow> bool" where
  "conf_exists env path =
     (case stat_mode env path of
        None \<Rightarrow> False
      | Some st_mode \<Rightarrow> st_mode AND (S_IFREG OR S_IFLNK) \<noteq> 0)"

definition LOG_DAEMON :: int where "LOG_DAEMON = 24"

definition zero_timeval :: timeval where
  "zero_timeval = \<lparr>tv_sec = 0, tv_usec = 0\<rparr>"

text \<open>
  \<^verbatim>\<open>fill_default_config\<close> (lines 333--423): \<^verbatim>\<open>memset\<close> to zero, then the assignments.
\<close>

definition fill_default_config :: "sys_env \<Rightarrow> Config" where
  "fill_default_config env =
     \<lparr> verbose = False,
       daemon = False,
       server_name = ''nghttpx nghttp2/'' @ NGHTTP2_VERSION env,
       host = ''0.0.0.0'',
       port = 3000,
       private_key_file = None,
       private_key_passwd = None,
       cert_file = None,
       http2_upstream_read_timeout = \<lparr>tv_sec = 180, tv_usec = 0\<rparr>,
       upstream_read_timeout = \<lparr>tv_sec = 180, tv_usec = 0\<rparr>,
       upstream_write_timeout = \<lparr>tv_sec = 60, tv_usec = 0\<rparr>,
       downstream_read_timeout = \<lparr>tv_sec = 900, tv_usec = 0\<rparr>,
       downstream_write_timeout = \<lparr>tv_sec = 60, tv_usec = 0\<rparr>,
       downstream_idle_read_timeout = \<lparr>tv_sec = 60, tv_usec = 0\<rparr>,
       http2_upstream_window_bits = 16,
       http2_downstream_window_bits = 16,
       upstream_no_tls = False,
       downstream_no_tls = False,
       downstream_host = ''127.0.0.1'',
       downstream_port = 80,
       downstream_hostport = None,
       downstream_addr = [],
       downstream_addrlen = 0,
       num_worker = 1,
       http2_max_concurrent_streams = 100,
       add_x_forwarded_for = False,
       no_via = False,
       accesslog = False,
       conf_path = ''/etc/nghttpx/nghttpx.conf'',
       syslog = False,
       syslog_facility = LOG_DAEMON,
       use_syslog = False,
       backlog = 256,
       ciphers = None,
       honor_cipher_order = False,
       http2_proxy = False,
       http2_bridge = False,
       client_proxy = False,
       client = False,
       client_mode = False,
       insecure = False,
       cacert = None,
       pid_file = None,
       uid = 0,
       gid = 0,
       backend_ipv4 = False,
       backend_ipv6 = False,
       tty = isatty_stderr env,
       cert_tree = None,
       downstream_http_proxy_userinfo = None,
       downstream_http_proxy_host = None,
       downstream_http_proxy_port = 0,
       downstream_http_proxy_addr = [],
       downstream_http_proxy_addrlen = 0,
       rate_limit_cfg = None,
       read_rate = 1024 * 1024,
       read_burst = 4 * 1024 * 1024,
       write_rate = 0,
       write_burst = 0,
       npn_list = None,
       verify_client = False,
       verify_client_cacert = None,
       client_private_key_file = None,
       client_cert_file = None,
       subcerts = [],
       default_ssl_ctx = None,
       downstream_proto = PROTO_SPDY \<rparr>"

text \<open>\<^verbatim>\<open>get_rate_limit\<close> (lines 427--434).\<close>

definition get_rate_limit :: "sys_env \<Rightarrow> size_t \<Rightarrow> size_t" where
  "get_rate_limit env rate_limit =
     (if rate_limit = 0 then EV_RATE_LIMIT_MAX env else rate_limit)"

subsection \<open>The command line (main, lines 698--982)\<close>

definition push_back :: "'a list \<Rightarrow> 'a \<Rightarrow> 'a list" where
  "push_back v x = v @ [x]"

definition chr_code :: "char \<Rightarrow> int" where
  "chr_code c = of_char c"

text \<open>
  The \<^verbatim>\<open>switch(flag)\<close> of the long options without a short name: the pair each
  case appends to \<^verbatim>\<open>cmdcfgs\<close>. \<^verbatim>\<open>--conf\<close> (12) writes \<^verbatim>\<open>conf_path\<close> at once and
  is handled in \<open>handle_option\<close>; a value without a case (28, 30, or any other) does
  nothing.
\<close>

definition long_flag_cfg :: "int \<Rightarrow> string \<Rightarrow> (shrpx_opt \<times> string) option" where
  "long_flag_cfg f arg =
     (if f = 1 then Some (SHRPX_OPT_ADD_X_FORWARDED_FOR, ''yes'')
      else if f = 2 then Some (SHRPX_OPT_FRONTEND_HTTP2_READ_TIMEOUT, arg)
      else if f = 3 then Some (SHRPX_OPT_FRONTEND_READ_TIMEOUT, arg)
      else if f = 4 then Some (SHRPX_OPT_FRONTEND_WRITE_TIMEOUT, arg)
      else if f = 5 then Some (SHRPX_OPT_BACKEND_READ_TIMEOUT, arg)
      else if f = 6 then Some (SHRPX_OPT_BACKEND_WRITE_TIMEOUT, arg)
      else if f = 7 then Some (SHRPX_OPT_ACCESSLOG, ''yes'')
      else if f = 8 then Some (SHRPX_OPT_BACKEND_KEEP_ALIVE_TIMEOUT, arg)
      else if f = 9 then Some (SHRPX_OPT_FRONTEND_HTTP2_WINDOW_BITS, arg)
      else if f = 10 then Some (SHRPX_OPT_PID_FILE, arg)
      else if f = 11 then Some (SHRPX_OPT_USER, arg)
      else if f = 13 then Some (SHRPX_OPT_SYSLOG, ''yes'')
      else if f = 14 then Some (SHRPX_OPT_SYSLOG_FACILITY, arg)
      else if f = 15 then Some (SHRPX_OPT_BACKLOG, arg)
      else if f = 16 then Some (SHRPX_OPT_CIPHERS, arg)
      else if f = 17 then Some (SHRPX_OPT_CLIENT, ''yes'')
      else if f = 18 then Some (SHRPX_OPT_BACKEND_HTTP2_WINDOW_BITS, arg)
      else if f = 19 then Some (SHRPX_OPT_CACERT, arg)
      else if f = 20 then Some (SHRPX_OPT_BACKEND_IPV4, ''yes'')
      else if f = 21 then Some (SHRPX_OPT_BACKEND_IPV6, ''yes'')
      else if f = 22 then Some (SHRPX_OPT_PRIVATE_KEY_PASSWD_FILE, arg)
      else if f = 23 then Some (SHRPX_OPT_NO_VIA, ''yes'')
      else if f = 24 then Some (SHRPX_OPT_SUBCERT, arg)
      else if f = 25 then Some (SHRPX_OPT_HTTP2_BRIDGE, ''yes'')
      else if f = 26 then Some (SHRPX_OPT_BACKEND_HTTP_PROXY_URI, arg)
      else if f = 27 then Some (SHRPX_OPT_BACKEND_NO_TLS, ''yes'')
      else if f = 29 then Some (SHRPX_OPT_FRONTEND_NO_TLS, ''yes'')
      else if f = 31 then Some (SHRPX_OPT_BACKEND_TLS_SNI_FIELD, arg)
      else if f = 32 then Some (SHRPX_OPT_HONOR_CIPHER_ORDER, ''yes'')
      else if f = 33 then Some (SHRPX_OPT_DH_PARAM_FILE, arg)
      else if f = 34 then Some (SHRPX_OPT_READ_RATE, arg)
      else if f = 35 then Some (SHRPX_OPT_READ_BURST, arg)
      else if f = 36 then Some (SHRPX_OPT_WRITE_RATE, arg)
      else if f = 37 then Some (SHRPX_OPT_WRITE_BURST, arg)
      else if f = 38 then Some (SHRPX_OPT_NPN_LIST, arg)
      else if f = 39 then Some (SHRPX_OPT_VERIFY_CLIENT, ''yes'')
      else if f = 40 then Some (SHRPX_OPT_VERIFY_CLIENT_CACERT, arg)
      else if f = 41 then Some (SHRPX_OPT_CLIENT_PRIVATE_KEY_FILE, arg)
      else if f = 42 then Some (SHRPX_OPT_CLIENT_CERT_FILE, arg)
      else None)"

text \<open>The short options that append to \<^verbatim>\<open>cmdcfgs\<close>.\<close>

definition short_opt_cfg :: "int \<Rightarrow> string \<Rightarrow> (shrpx_opt \<times> string) option" where
  "short_opt_cfg c arg =
     (if c = chr_code CHR ''D'' then Some (SHRPX_OPT_DAEMON, ''yes'')
      else if c = chr_code CHR ''L'' then Some (SHRPX_OPT_LOG_LEVEL, arg)
      else if c = chr_code CHR ''b'' then Some (SHRPX_OPT_BACKEND, arg)
      else if c = chr_code CHR ''c'' then Some (SHRPX_OPT_HTTP2_MAX_CONCURRENT_STREAMS, arg)
      else if c = chr_code CHR ''f'' then Some (SHRPX_OPT_FRONTEND, arg)
      else if c = chr_code CHR ''k'' then Some (SHRPX_OPT_INSECURE, ''yes'')
      else if c = chr_code CHR ''n'' then Some (SHRPX_OPT_WORKERS, arg)
      else if c = chr_code CHR ''p'' then Some (SHRPX_OPT_CLIENT_PROXY, ''yes'')
      else if c = chr_code CHR ''s'' then Some (SHRPX_OPT_HTTP2_PROXY, ''yes'')
      else None)"

text \<open>One pass through the body of the \<^verbatim>\<open>while(1)\<close> loop, after \<^verbatim>\<open>c != -1\<close>.\<close>

definition handle_option ::
  "getopt_ret \<Rightarrow> (shrpx_opt \<times> string) list \<Rightarrow> world
     \<Rightarrow> (shrpx_opt \<times> string) list outcome \<times> world" where
  "handle_option r cmdcfgs w =
     (if ret r = chr_code CHR ''h'' then (Exited EXIT_SUCCESS, emit E_print_help w)
      else if ret r = chr_code CHR ''v'' then (Exited EXIT_SUCCESS, emit E_print_version w)
      else if ret r = chr_code CHR ''?'' then (Exited EXIT_FAILURE, w)
      else if ret r = 0 then
        (if flag r = 12 then (Returned cmdcfgs, w\<lparr>cfg := (cfg w)\<lparr>conf_path := optarg r\<rparr>\<rparr>)
         else case long_flag_cfg (flag r) (optarg r) of
                Some kv \<Rightarrow> (Returned (push_back cmdcfgs kv), w)
              | None \<Rightarrow> (Returned cmdcfgs, w))
      else case short_opt_cfg (ret r) (optarg r) of
             Some kv \<Rightarrow> (Returned (push_back cmdcfgs kv), w)
           | None \<Rightarrow> (Returned cmdcfgs, w))"

text \<open>The loop ends when \<^verbatim>\<open>getopt_long\<close> returns -1.\<close>

fun getopt_loop ::
  "getopt_ret list \<Rightarrow> (shrpx_opt \<times> string) list \<Rightarrow> world
     \<Rightarrow> (shrpx_opt \<times> string) list outcome \<times> world" where
  "getopt_loop [] cmdcfgs w = (Returned cmdcfgs, w)"
| "getopt_loop (r # rs) cmdcfgs w =
     (if ret r = -1 then (Returned cmdcfgs, w)
      else case handle_option r cmdcfgs w of
             (Returned cmdcfgs', w') \<Rightarrow> getopt_loop rs cmdcfgs' w'
           | (Exited status, w') \<Rightarrow> (Exited status, w'))"


subsection \<open>The merge of the configuration sources (main, lines 694--1011)\<close>

text \<open>
  \<^verbatim>\<open>parse_config\<close> is defined in \<^verbatim>\<open>shrpx_config.cc\<close>, which is not among the sources;
  what it does to the store is the environment's \<open>parse_config_res\<close>, where \<open>None\<close>
  is the return value -1.
\<close>

definition parse_config :: "sys_env \<Rightarrow> shrpx_opt \<Rightarrow> string \<Rightarrow> world \<Rightarrow> int \<times> world" where
  "parse_config env opt arg w =
     (case parse_config_res env opt arg (cfg w) of
        None \<Rightarrow> (-1, w)
      | Some c \<Rightarrow> (0, w\<lparr>cfg := c\<rparr>))"

text \<open>
  Modelled from the spec: \<^verbatim>\<open>load_config\<close> is defined in \<^verbatim>\<open>shrpx_config.cc\<close>, which
  is not among the sources. The spec: the pipeline parses a config file into a sequence
  of (key, value) settings and applies them; unknown keys are a fatal parse error; an
  unreadable or malformed existing file is fatal. \<open>conf_file env path\<close> is the sequence
  of settings of the file, \<open>None\<close> when the file cannot be read or parsed.
\<close>

fun load_entries :: "sys_env \<Rightarrow> (shrpx_opt \<times> string) list \<Rightarrow> world \<Rightarrow> int \<times> world" where
  "load_entries env [] w = (0, w)"
| "load_entries env (kv # kvs) w =
     (case parse_config env (fst kv) (snd kv) w of
        (rv, w') \<Rightarrow> if rv = -1 then (-1, w') else load_entries env kvs w')"

definition load_config :: "sys_env \<Rightarrow> string \<Rightarrow> world \<Rightarrow> int \<times> world" where
  "load_config env path w =
     (case conf_file env path of
        None \<Rightarrow> (-1, emit (E_load_config path) w)
      | Some kvs \<Rightarrow> load_entries env kvs (emit (E_load_config path) w))"

text \<open>Lines 999--1004: the two positional arguments.\<close>

definition positional_cfgs ::
  "string list \<Rightarrow> (shrpx_opt \<times> string) list \<Rightarrow> (shrpx_opt \<times> string) list" where
  "positional_cfgs args cmdcfgs =
     (if int (length args) \<ge> 2 then
        push_back (push_back cmdcfgs (SHRPX_OPT_PRIVATE_KEY_FILE, args ! 0))
          (SHRPX_OPT_CERTIFICATE_FILE, args ! 1)
      else cmdcfgs)"

text \<open>Lines 1006--1011: the entries of \<^verbatim>\<open>cmdcfgs\<close>, in their order.\<close>

fun parse_cmdcfgs :: "sys_env \<Rightarrow> (shrpx_opt \<times> string) list \<Rightarrow> world \<Rightarrow> unit outcome \<times> world" where
  "parse_cmdcfgs env [] w = (Returned (), w)"
| "parse_cmdcfgs env (kv # kvs) w =
     (case parse_config env (fst kv) (snd kv) w of
        (rv, w') \<Rightarrow> if rv = -1 then (Exited EXIT_FAILURE, w') else parse_cmdcfgs env kvs w')"

text \<open>Lines 991--997: the configuration file.\<close>

definition load_conf_file :: "sys_env \<Rightarrow> world \<Rightarrow> unit outcome \<times> world" where
  "load_conf_file env w =
     (if conf_exists env (conf_path (cfg w)) then
        (case load_config env (conf_path (cfg w)) w of
           (rv, w') \<Rightarrow> if rv = -1 then (Exited EXIT_FAILURE, w') else (Returned (), w'))
      else (Returned (), w))"

definition and_then ::
  "'a outcome \<times> world \<Rightarrow> ('a \<Rightarrow> world \<Rightarrow> 'b outcome \<times> world) \<Rightarrow> 'b outcome \<times> world" where
  "and_then r f =
     (case r of
        (Returned x, w) \<Rightarrow> f x w
      | (Exited status, w) \<Rightarrow> (Exited status, w))"

definition main_merge :: "sys_env \<Rightarrow> cmdline \<Rightarrow> world \<Rightarrow> unit outcome \<times> world" where
  "main_merge env cl w =
     and_then (getopt_loop (getopt_results cl) [] (w\<lparr>cfg := fill_default_config env\<rparr>))
       (\<lambda>cmdcfgs w1.
          and_then (load_conf_file env (emit E_setup_ssl_lock (emit E_ssl_library_init w1)))
            (\<lambda>_ w2. parse_cmdcfgs env (positional_cfgs (positionals cl) cmdcfgs) w2))"


subsection \<open>The address resolver (resolve_hostname, lines 76--117)\<close>

definition memcpy :: "sockaddr \<Rightarrow> sockaddr \<Rightarrow> nat \<Rightarrow> sockaddr" where
  "memcpy dst src n = take n src @ drop n dst"

text \<open>
  The two out-parameters \<^verbatim>\<open>addr\<close> and \<^verbatim>\<open>addrlen\<close> are passed in with their old values
  and returned with the new ones, after the return value.
\<close>

definition resolve_hostname ::
  "sys_env \<Rightarrow> sockaddr \<Rightarrow> nat \<Rightarrow> string \<Rightarrow> uint16_t \<Rightarrow> family \<Rightarrow> world
     \<Rightarrow> (int \<times> sockaddr \<times> nat) \<times> world" where
  "resolve_hostname env addr addrlen hostname prt fam w =
     (let service = decimal (unat prt);
          hints = \<lparr>hint_family = fam, hint_socktype = SOCK_STREAM,
                   hint_passive = False, hint_addrconfig = True\<rparr>;
          w1 = emit (E_getaddrinfo hostname service hints) w
      in case getaddrinfo_res env hostname service hints of
           Gai_error rv \<Rightarrow> ((-1, addr, addrlen), w1)
         | Gai_ok res rest \<Rightarrow>
             (let w2 = emit (E_getnameinfo (ai_addr res)) w1
              in if getnameinfo_res env (ai_addr res) = 0
                 then ((0, memcpy addr (ai_addr res) (ai_addrlen res), ai_addrlen res), w2)
                 else ((-1, addr, addrlen), w2)))"

subsection \<open>The listeners (create_evlistener, lines 128--212)\<close>

text \<open>
  \<^verbatim>\<open>DIE\<close> is a macro of \<^verbatim>\<open>shrpx.h\<close>, which is not among the sources. Modelled from the
  spec: a fatal condition exits with a non-zero status.
\<close>

definition DIE :: "world \<Rightarrow> 'a outcome \<times> world" where
  "DIE w = (Exited EXIT_FAILURE, w)"

datatype evconnlistener = Evconnlistener int

text \<open>
  The loop over the candidates (lines 154--179). It returns the candidate \<^verbatim>\<open>rp\<close> on
  which it stopped, with the bound descriptor, or \<open>None\<close> when \<^verbatim>\<open>rp\<close> ran to the end
  of the list.
\<close>

fun bind_candidates ::
  "sys_env \<Rightarrow> family \<Rightarrow> addrinfo list \<Rightarrow> world \<Rightarrow> (addrinfo \<times> int) option \<times> world" where
  "bind_candidates env fam [] w = (None, w)"
| "bind_candidates env fam (rp # rest) w =
     (let fd = socket_res env rp;
          w1 = emit (E_socket rp) w
      in if fd = -1 then bind_candidates env fam rest w1
         else
           let w2 = emit (E_setsockopt_reuseaddr fd) w1
           in if setsockopt_reuseaddr_res env fd = -1
              then bind_candidates env fam rest (emit (E_close fd) w2)
              else
                let w3 = emit (E_make_socket_nonblocking fd) w2;
                    w4 = (if fam = AF_INET6 then emit (E_setsockopt_v6only fd) w3 else w3)
                in if fam = AF_INET6 \<and> setsockopt_v6only_res env fd = -1
                   then bind_candidates env fam rest (emit (E_close fd) w4)
                   else
                     let w5 = emit (E_bind fd (ai_addr rp)) w4
                     in if bind_res env fd (ai_addr rp) = 0 then (Some (rp, fd), w5)
                        else bind_candidates env fam rest (emit (E_close fd) w5))"

definition listener_hints :: "family \<Rightarrow> addrinfo_hints" where
  "listener_hints fam =
     \<lparr>hint_family = fam, hint_socktype = SOCK_STREAM,
      hint_passive = True, hint_addrconfig = True\<rparr>"

text \<open>
  \<^verbatim>\<open>evconnlistener_new\<close> belongs to libevent: it calls \<^verbatim>\<open>listen\<close> on the descriptor and
  returns the listener, or a null pointer when that fails (\<open>evconnlistener_new_ok\<close>).
  \<^verbatim>\<open>create_evlistener\<close> returns that pointer as it is; a null pointer is \<open>None\<close>.
  The call of \<^verbatim>\<open>evconnlistener_set_error_cb\<close> before the return registers a callback
  and is not an action here.
\<close>

definition create_evlistener ::
  "sys_env \<Rightarrow> family \<Rightarrow> world \<Rightarrow> evconnlistener option outcome \<times> world" where
  "create_evlistener env fam w =
     (let service = decimal (unat (port (cfg w)));
          w1 = emit (E_getaddrinfo (host (cfg w)) service (listener_hints fam)) w
      in case getaddrinfo_res env (host (cfg w)) service (listener_hints fam) of
           Gai_error r \<Rightarrow> (Returned None, w1)
         | Gai_ok res rest \<Rightarrow>
             (case bind_candidates env fam (res # rest) w1 of
                (None, w2) \<Rightarrow> (Returned None, w2)
              | (Some (rp, fd), w2) \<Rightarrow>
                  (let w3 = emit (E_getnameinfo (ai_addr rp)) w2
                   in if getnameinfo_res env (ai_addr rp) = 0
                      then (Returned (if evconnlistener_new_ok env fd
                                      then Some (Evconnlistener fd) else None),
                            emit (E_evconnlistener_new fd (backlog (cfg w))) w3)
                      else DIE w3)))"

subsection \<open>drop_privileges (lines 216--232) and save_pid (lines 236--245)\<close>

definition drop_privileges :: "sys_env \<Rightarrow> world \<Rightarrow> unit outcome \<times> world" where
  "drop_privileges env w =
     (if getuid_res env = 0 \<and> uid (cfg w) \<noteq> 0 then
        (let w1 = emit (E_setgid (gid (cfg w))) w
         in if setgid_res env (gid (cfg w)) \<noteq> 0 then (Exited EXIT_FAILURE, w1)
            else
              let w2 = emit (E_setuid (uid (cfg w))) w1
              in if setuid_res env (uid (cfg w)) \<noteq> 0 then (Exited EXIT_FAILURE, w2)
                 else
                   let w3 = emit (E_setuid 0) w2
                   in if setuid_res env 0 \<noteq> -1 then (Exited EXIT_FAILURE, w3)
                      else (Returned (), w3))
      else (Returned (), w))"

text \<open>
  \<^verbatim>\<open>save_pid\<close> is called with \<^verbatim>\<open>pid_file\<close> not null; \<open>path\<close> is that string. The
  stream is opened, \<^verbatim>\<open>getpid()\<close> and a newline are written, and the stream is
  closed; \<open>pid_file_write_ok\<close> says whether the stream is good after that. The file
  gets its content only then: what a failed write leaves behind is not modelled.
\<close>

definition save_pid :: "sys_env \<Rightarrow> string \<Rightarrow> world \<Rightarrow> unit outcome \<times> world" where
  "save_pid env path w =
     (let content = decimal (pid w) @ [CHR 0x0A];
          w1 = emit (E_write_pid_file path content) w
      in if pid_file_write_ok env path
         then (Returned (), w1\<lparr>files := (files w1)(path \<mapsto> content)\<rparr>)
         else (Exited EXIT_FAILURE, w1))"


subsection \<open>event_loop (lines 249--311)\<close>

text \<open>
  \<^verbatim>\<open>ssl::create_ssl_client_context\<close> belongs to \<^verbatim>\<open>shrpx_ssl.cc\<close>; here it is the
  action and the context it returns.
\<close>

definition create_ssl_client_context :: "world \<Rightarrow> ssl_ctx option \<times> world" where
  "create_ssl_client_context w = (Some Client_ctx, emit E_create_ssl_client_context w)"

text \<open>Lines 256--268: the server and the client context of the handler.\<close>

definition event_loop_contexts :: "world \<Rightarrow> (ssl_ctx option \<times> ssl_ctx option) \<times> world" where
  "event_loop_contexts w =
     (if client_mode (cfg w) then
        (if downstream_no_tls (cfg w) then ((None, None), w)
         else case create_ssl_client_context w of (cl_ssl_ctx, w') \<Rightarrow> ((None, cl_ssl_ctx), w'))
      else
        (let sv_ssl_ctx = (if upstream_no_tls (cfg w) then None else default_ssl_ctx (cfg w))
         in if http2_bridge (cfg w) \<and> \<not> downstream_no_tls (cfg w)
            then case create_ssl_client_context w of
                   (cl_ssl_ctx, w') \<Rightarrow> ((sv_ssl_ctx, cl_ssl_ctx), w')
            else ((sv_ssl_ctx, None), w)))"

text \<open>
  Lines 271--276. \<^verbatim>\<open>daemon(0, 0)\<close> forks: the process that goes on is the child, with
  the process id \<open>daemon_pid env\<close>.
\<close>

definition daemonize :: "sys_env \<Rightarrow> world \<Rightarrow> unit outcome \<times> world" where
  "daemonize env w =
     (if daemon (cfg w) then
        (if daemon_res env = -1 then (Exited EXIT_FAILURE, emit E_daemon w)
         else (Returned (), (emit E_daemon w)\<lparr>pid := daemon_pid env\<rparr>))
      else (Returned (), w))"

text \<open>Lines 278--280.\<close>

definition write_pid_file :: "sys_env \<Rightarrow> world \<Rightarrow> unit outcome \<times> world" where
  "write_pid_file env w =
     (case pid_file (cfg w) of
        Some path \<Rightarrow> save_pid env path w
      | None \<Rightarrow> (Returned (), w))"

text \<open>Lines 294--298.\<close>

definition start_workers :: "world \<Rightarrow> world" where
  "start_workers w =
     (if num_worker (cfg w) > 1 then emit (E_create_worker_thread (num_worker (cfg w))) w
      else if downstream_proto (cfg w) = PROTO_SPDY then emit E_create_http2_session w
      else w)"

definition evconnlistener_free :: "evconnlistener option \<Rightarrow> world \<Rightarrow> world" where
  "evconnlistener_free l w =
     (case l of
        Some (Evconnlistener fd) \<Rightarrow> emit (E_evconnlistener_free fd) w
      | None \<Rightarrow> w)"

text \<open>
  Lines 282--288: the two listeners, IPv6 first, and the check that one of them exists.
\<close>

definition create_listeners ::
  "sys_env \<Rightarrow> world \<Rightarrow> (evconnlistener option \<times> evconnlistener option) outcome \<times> world" where
  "create_listeners env w =
     and_then (create_evlistener env AF_INET6 w)
       (\<lambda>evlistener6 w1. and_then (create_evlistener env AF_INET w1)
       (\<lambda>evlistener4 w2.
          if evlistener6 = None \<and> evlistener4 = None then (Exited EXIT_FAILURE, w2)
          else (Returned (evlistener6, evlistener4), w2)))"

text \<open>
  Lines 294--309: the workers, the loop, and the release of the listeners. The event
  loop itself (\<^verbatim>\<open>event_base_loop\<close>) belongs to libevent: it is one action here.
\<close>

definition run_loop :: "evconnlistener option \<times> evconnlistener option \<Rightarrow> world \<Rightarrow> world" where
  "run_loop evlisteners w =
     evconnlistener_free (fst evlisteners)
       (evconnlistener_free (snd evlisteners)
          (emit E_event_base_loop (start_workers w)))"

text \<open>The pair \<open>evlisteners\<close> is (\<^verbatim>\<open>evlistener6\<close>, \<^verbatim>\<open>evlistener4\<close>).\<close>

definition event_loop :: "sys_env \<Rightarrow> world \<Rightarrow> int outcome \<times> world" where
  "event_loop env w =
     (if \<not> event_base_new_ok env then (Exited EXIT_FAILURE, emit E_event_base_new w)
      else
        case event_loop_contexts (emit E_event_base_new w) of
          ((sv_ssl_ctx, cl_ssl_ctx), w1) \<Rightarrow>
            and_then (daemonize env (emit (E_new_ListenHandler sv_ssl_ctx cl_ssl_ctx) w1))
              (\<lambda>_ w2. and_then (write_pid_file env w2)
              (\<lambda>_ w3. and_then (create_listeners env w3)
              (\<lambda>evlisteners w4. and_then (drop_privileges env w4)
              (\<lambda>_ w5. (Returned 0, run_loop evlisteners w5))))))"

subsection \<open>The TLS contexts (main, lines 1017--1044)\<close>

text \<open>
  Modelled from the spec: \<^verbatim>\<open>ssl::create_ssl_context\<close> is defined in \<^verbatim>\<open>shrpx_ssl.cc\<close>,
  which is not among the sources. The spec: a TLS server context is built per pair; any
  failure to build a context is fatal.
\<close>

definition create_ssl_context :: "sys_env \<Rightarrow> string \<Rightarrow> string \<Rightarrow> world \<Rightarrow> ssl_ctx outcome \<times> world" where
  "create_ssl_context env private_key cert w =
     (if create_ssl_context_ok env private_key cert
      then (Returned (Server_ctx private_key cert), emit (E_create_ssl_context private_key cert) w)
      else (Exited EXIT_FAILURE, emit (E_create_ssl_context private_key cert) w))"

text \<open>
  Modelled from the spec: \<^verbatim>\<open>ssl::cert_lookup_tree_new\<close> and
  \<^verbatim>\<open>ssl::cert_lookup_tree_add_cert_from_file\<close> are defined in \<^verbatim>\<open>shrpx_ssl.cc\<close>, which
  is not among the sources. The spec: build a lookup structure; insert a certificate
  keyed by the hostnames parsed from a certificate file. The structure starts empty; an
  insertion returns the environment's answer and, unless that is -1, the structure holds
  the context under its certificate file afterwards.
\<close>

definition cert_lookup_tree_new :: "world \<Rightarrow> world" where
  "cert_lookup_tree_new w = (emit E_cert_lookup_tree_new w)\<lparr>cfg := (cfg w)\<lparr>cert_tree := Some []\<rparr>\<rparr>"

definition cert_lookup_tree_add_cert_from_file ::
  "sys_env \<Rightarrow> ssl_ctx \<Rightarrow> string \<Rightarrow> world \<Rightarrow> int \<times> world" where
  "cert_lookup_tree_add_cert_from_file env ssl_ctx cert w =
     (if cert_lookup_tree_add_res env ssl_ctx cert = -1
      then (-1, emit (E_cert_lookup_tree_add ssl_ctx cert) w)
      else (cert_lookup_tree_add_res env ssl_ctx cert,
            (emit (E_cert_lookup_tree_add ssl_ctx cert) w)
              \<lparr>cfg := (cfg w)\<lparr>cert_tree :=
                   map_option (\<lambda>t. t @ [(ssl_ctx, cert)]) (cert_tree (cfg w))\<rparr>\<rparr>))"

text \<open>Lines 1021--1029: one context per pair of \<^verbatim>\<open>subcerts\<close>.\<close>

fun add_subcerts :: "sys_env \<Rightarrow> (string \<times> string) list \<Rightarrow> world \<Rightarrow> unit outcome \<times> world" where
  "add_subcerts env [] w = (Returned (), w)"
| "add_subcerts env (keycert # rest) w =
     (case create_ssl_context env (fst keycert) (snd keycert) w of
        (Exited status, w1) \<Rightarrow> (Exited status, w1)
      | (Returned ssl_ctx, w1) \<Rightarrow>
          (case cert_lookup_tree_add_cert_from_file env ssl_ctx (snd keycert) w1 of
             (rv, w2) \<Rightarrow>
               if rv = -1 then (Exited EXIT_FAILURE, w2) else add_subcerts env rest w2))"

text \<open>Lines 1031--1044: the primary pair.\<close>

definition add_default_cert :: "sys_env \<Rightarrow> world \<Rightarrow> unit outcome \<times> world" where
  "add_default_cert env w =
     (case (cert_file (cfg w), private_key_file (cfg w)) of
        (Some cert, Some private_key) \<Rightarrow>
          (case create_ssl_context env private_key cert w of
             (Exited status, w1) \<Rightarrow> (Exited status, w1)
           | (Returned ssl_ctx, w1) \<Rightarrow>
               (let w2 = w1\<lparr>cfg := (cfg w1)\<lparr>default_ssl_ctx := Some ssl_ctx\<rparr>\<rparr>
                in if cert_tree (cfg w2) \<noteq> None then
                     (case cert_lookup_tree_add_cert_from_file env ssl_ctx cert w2 of
                        (rv, w3) \<Rightarrow>
                          if rv = -1 then (Exited EXIT_FAILURE, w3) else (Returned (), w3))
                   else (Returned (), w2)))
      | _ \<Rightarrow> (Returned (), w))"

text \<open>Lines 1017--1019: the lookup structure, when there are pairs in \<^verbatim>\<open>subcerts\<close>.\<close>

definition new_cert_tree :: "world \<Rightarrow> world" where
  "new_cert_tree w = (if subcerts (cfg w) \<noteq> [] then cert_lookup_tree_new w else w)"

text \<open>Lines 1017--1044 together.\<close>

definition setup_tls_contexts :: "sys_env \<Rightarrow> world \<Rightarrow> unit outcome \<times> world" where
  "setup_tls_contexts env w =
     and_then (add_subcerts env (subcerts (cfg w)) (new_cert_tree w))
       (\<lambda>_ w1. add_default_cert env w1)"

text \<open>
  What the lookup structure is to hold: for a pair of \<^verbatim>\<open>subcerts\<close>, its context under
  its certificate file; for the primary pair, when both of its files are configured, the
  same.
\<close>

definition subcert_entry :: "string \<times> string \<Rightarrow> ssl_ctx \<times> string" where
  "subcert_entry keycert = (Server_ctx (fst keycert) (snd keycert), snd keycert)"

definition primary_entries :: "Config \<Rightarrow> (ssl_ctx \<times> string) list" where
  "primary_entries c =
     (case (cert_file c, private_key_file c) of
        (Some cert, Some private_key) \<Rightarrow> [(Server_ctx private_key cert, cert)]
      | _ \<Rightarrow> [])"

subsection \<open>The rest of main (lines 1013--1135)\<close>

definition DEFAULT_NPN_LIST :: "sys_env \<Rightarrow> string" where
  "DEFAULT_NPN_LIST env =
     NGHTTP2_PROTO_VERSION_ID env @ '','' @
     (if HAVE_SPDYLAY env then ''spdy/3,spdy/2,'' else []) @ ''http/1.1''"

text \<open>Lines 1013--1015; \<^verbatim>\<open>parse_config_npn_list\<close> stores the list.\<close>

definition default_npn_list :: "sys_env \<Rightarrow> world \<Rightarrow> world" where
  "default_npn_list env w =
     (if npn_list (cfg w) = None
      then w\<lparr>cfg := (cfg w)\<lparr>npn_list := Some (DEFAULT_NPN_LIST env)\<rparr>\<rparr>
      else w)"

text \<open>The sum of the four mode flags in line 1052, each \<^verbatim>\<open>bool\<close> promoted to \<^verbatim>\<open>int\<close>.\<close>

definition mode_flag_sum :: "Config \<Rightarrow> int" where
  "mode_flag_sum c =
     of_bool (http2_proxy c) + of_bool (http2_bridge c) +
     of_bool (client_proxy c) + of_bool (client c)"

text \<open>Lines 1046--1075: the checks across fields, and the two derived fields.\<close>

definition validate_config :: "world \<Rightarrow> unit outcome \<times> world" where
  "validate_config w =
     (if backend_ipv4 (cfg w) \<and> backend_ipv6 (cfg w) then (Exited EXIT_FAILURE, w)
      else if mode_flag_sum (cfg w) > 1 then (Exited EXIT_FAILURE, w)
      else
        let c1 = (if client (cfg w) \<or> client_proxy (cfg w)
                  then (cfg w)\<lparr>client_mode := True\<rparr> else cfg w);
            c2 = (if client_mode c1 \<or> http2_bridge c1
                  then c1\<lparr>downstream_proto := PROTO_SPDY\<rparr>
                  else c1\<lparr>downstream_proto := PROTO_HTTP\<rparr>);
            w2 = w\<lparr>cfg := c2\<rparr>
        in if \<not> client_mode c2 \<and> \<not> upstream_no_tls c2 \<and>
              (private_key_file c2 = None \<or> cert_file c2 = None)
           then (Exited EXIT_FAILURE, emit E_print_usage w2)
           else (Returned (), w2))"

definition is_ipv6_numeric_addr :: "sys_env \<Rightarrow> string \<Rightarrow> bool" where
  "is_ipv6_numeric_addr env h = (inet_pton6_res env h = 1)"

definition NI_MAXHOST :: nat where "NI_MAXHOST = 1025"

text \<open>Lines 1077--1085; \<^verbatim>\<open>snprintf\<close> keeps at most \<^verbatim>\<open>sizeof(hostport) - 1\<close> characters.\<close>

definition set_downstream_hostport :: "sys_env \<Rightarrow> world \<Rightarrow> world" where
  "set_downstream_hostport env w =
     (let downstream_ipv6_addr = is_ipv6_numeric_addr env (downstream_host (cfg w));
          hostport = take (NI_MAXHOST + 16 - 1)
            ((if downstream_ipv6_addr then ''['' else []) @ downstream_host (cfg w) @
             (if downstream_ipv6_addr then '']'' else []) @ '':'' @
             decimal (unat (downstream_port (cfg w))))
      in w\<lparr>cfg := (cfg w)\<lparr>downstream_hostport := Some hostport\<rparr>\<rparr>)"

definition backend_family :: "Config \<Rightarrow> family" where
  "backend_family c =
     (if backend_ipv4 c then AF_INET else if backend_ipv6 c then AF_INET6 else AF_UNSPEC)"

text \<open>Lines 1090--1098.\<close>

definition resolve_backend :: "sys_env \<Rightarrow> world \<Rightarrow> unit outcome \<times> world" where
  "resolve_backend env w =
     (case resolve_hostname env (downstream_addr (cfg w)) (downstream_addrlen (cfg w))
             (downstream_host (cfg w)) (downstream_port (cfg w)) (backend_family (cfg w)) w of
        ((rv, addr, addrlen), w1) \<Rightarrow>
          (let w2 = w1\<lparr>cfg := (cfg w1)\<lparr>downstream_addr := addr, downstream_addrlen := addrlen\<rparr>\<rparr>
           in if rv = -1 then (Exited EXIT_FAILURE, w2) else (Returned (), w2)))"

text \<open>Lines 1100--1111.\<close>

definition resolve_backend_http_proxy :: "sys_env \<Rightarrow> world \<Rightarrow> unit outcome \<times> world" where
  "resolve_backend_http_proxy env w =
     (case downstream_http_proxy_host (cfg w) of
        None \<Rightarrow> (Returned (), w)
      | Some proxy_host \<Rightarrow>
          (case resolve_hostname env (downstream_http_proxy_addr (cfg w))
                  (downstream_http_proxy_addrlen (cfg w)) proxy_host
                  (downstream_http_proxy_port (cfg w)) AF_UNSPEC w of
             ((rv, addr, addrlen), w1) \<Rightarrow>
               (let w2 = w1\<lparr>cfg := (cfg w1)\<lparr>downstream_http_proxy_addr := addr,
                                               downstream_http_proxy_addrlen := addrlen\<rparr>\<rparr>
                in if rv = -1 then (Exited EXIT_FAILURE, w2) else (Returned (), w2))))"

text \<open>Lines 1113--1117.\<close>

definition init_syslog :: "world \<Rightarrow> world" where
  "init_syslog w =
     (if syslog (cfg w)
      then (emit (E_openlog (syslog_facility (cfg w))) w)\<lparr>cfg := (cfg w)\<lparr>use_syslog := True\<rparr>\<rparr>
      else w)"

text \<open>
  \<^verbatim>\<open>ev_token_bucket_cfg_new\<close> belongs to libevent; the descriptor is the four limits it
  is called with.
\<close>

definition ev_token_bucket_cfg_new :: "size_t \<Rightarrow> size_t \<Rightarrow> size_t \<Rightarrow> size_t \<Rightarrow> ev_token_bucket_cfg" where
  "ev_token_bucket_cfg_new rr rb wr wb =
     \<lparr>cfg_read_rate = rr, cfg_read_burst = rb, cfg_write_rate = wr, cfg_write_burst = wb\<rparr>"

text \<open>Lines 1119--1124.\<close>

definition build_rate_limit_cfg :: "sys_env \<Rightarrow> world \<Rightarrow> world" where
  "build_rate_limit_cfg env w =
     (let rr = get_rate_limit env (read_rate (cfg w));
          rb = get_rate_limit env (read_burst (cfg w));
          wr = get_rate_limit env (write_rate (cfg w));
          wb = get_rate_limit env (write_burst (cfg w))
      in (emit (E_token_bucket_cfg_new rr rb wr wb) w)
           \<lparr>cfg := (cfg w)\<lparr>rate_limit_cfg := Some (ev_token_bucket_cfg_new rr rb wr wb)\<rparr>\<rparr>)"

text \<open>Lines 1113--1129: syslog, the rate-limit descriptor, and \<^verbatim>\<open>SIGPIPE\<close> ignored.\<close>

definition before_loop :: "sys_env \<Rightarrow> world \<Rightarrow> world" where
  "before_loop env w =
     emit E_sigaction_ignore_sigpipe (build_rate_limit_cfg env (init_syslog w))"

definition main_bootstrap :: "sys_env \<Rightarrow> world \<Rightarrow> int outcome \<times> world" where
  "main_bootstrap env w =
     and_then (setup_tls_contexts env (default_npn_list env w))
       (\<lambda>_ w1. and_then (validate_config w1)
       (\<lambda>_ w2. and_then (resolve_backend env (set_downstream_hostport env w2))
       (\<lambda>_ w3. and_then (resolve_backend_http_proxy env w3)
       (\<lambda>_ w4. and_then (event_loop env (before_loop env w4))
       (\<lambda>_ w5. (Returned 0, emit E_teardown_ssl_lock w5))))))"

definition main :: "sys_env \<Rightarrow> cmdline \<Rightarrow> world \<Rightarrow> int outcome \<times> world" where
  "main env cl w = and_then (main_merge env cl w) (\<lambda>_ w1. main_bootstrap env w1)"

subsection \<open>Traces\<close>

text \<open>The actions a run adds to the trace it starts with.\<close>

definition new_events :: "world \<Rightarrow> world \<Rightarrow> event list" where
  "new_events w w' = drop (length (trace w)) (trace w')"

text \<open>
  Network actions: address resolution, socket creation and configuration, binding,
  listening.
\<close>

fun is_network :: "event \<Rightarrow> bool" where
  "is_network (E_getaddrinfo h s hints) = True"
| "is_network (E_getnameinfo a) = True"
| "is_network (E_socket rp) = True"
| "is_network (E_setsockopt_reuseaddr fd) = True"
| "is_network (E_make_socket_nonblocking fd) = True"
| "is_network (E_setsockopt_v6only fd) = True"
| "is_network (E_bind fd a) = True"
| "is_network (E_close fd) = True"
| "is_network (E_evconnlistener_new fd b) = True"
| "is_network (E_evconnlistener_free fd) = True"
| "is_network e = False"

text \<open>Privilege and process-lifecycle actions.\<close>

fun is_lifecycle :: "event \<Rightarrow> bool" where
  "is_lifecycle E_daemon = True"
| "is_lifecycle (E_write_pid_file p c) = True"
| "is_lifecycle (E_setgid g) = True"
| "is_lifecycle (E_setuid u) = True"
| "is_lifecycle e = False"

fun is_privilege_drop :: "event \<Rightarrow> bool" where
  "is_privilege_drop (E_setgid g) = True"
| "is_privilege_drop (E_setuid u) = True"
| "is_privilege_drop e = False"

text \<open>What \<^verbatim>\<open>create_evlistener\<close> does.\<close>

fun is_listener_event :: "event \<Rightarrow> bool" where
  "is_listener_event (E_getaddrinfo h s hints) = True"
| "is_listener_event (E_getnameinfo a) = True"
| "is_listener_event (E_socket rp) = True"
| "is_listener_event (E_setsockopt_reuseaddr fd) = True"
| "is_listener_event (E_make_socket_nonblocking fd) = True"
| "is_listener_event (E_setsockopt_v6only fd) = True"
| "is_listener_event (E_bind fd a) = True"
| "is_listener_event (E_close fd) = True"
| "is_listener_event (E_evconnlistener_new fd b) = True"
| "is_listener_event e = False"

fun is_worker_event :: "event \<Rightarrow> bool" where
  "is_worker_event (E_create_worker_thread n) = True"
| "is_worker_event E_create_http2_session = True"
| "is_worker_event e = False"

fun is_write_pid_file :: "event \<Rightarrow> bool" where
  "is_write_pid_file (E_write_pid_file p c) = True"
| "is_write_pid_file e = False"

fun is_token_bucket_cfg_new :: "event \<Rightarrow> bool" where
  "is_token_bucket_cfg_new (E_token_bucket_cfg_new rr rb wr wb) = True"
| "is_token_bucket_cfg_new e = False"

text \<open>The start of a listener attempt for a family: its call of \<^verbatim>\<open>getaddrinfo\<close>.\<close>

fun is_listener_attempt :: "family \<Rightarrow> event \<Rightarrow> bool" where
  "is_listener_attempt fam (E_getaddrinfo h s hints) =
     (hint_passive hints \<and> hint_family hints = fam)"
| "is_listener_attempt fam e = False"

text \<open>\<open>never_after P Q tr\<close>: in \<open>tr\<close>, no \<open>P\<close> action comes after a \<open>Q\<close> action.\<close>

fun never_after :: "('e \<Rightarrow> bool) \<Rightarrow> ('e \<Rightarrow> bool) \<Rightarrow> 'e list \<Rightarrow> bool" where
  "never_after P Q [] = True"
| "never_after P Q (e # es) = ((\<not> Q e \<or> list_all (\<lambda>x. \<not> P x) es) \<and> never_after P Q es)"

text \<open>
  \<open>all_before P Q tr\<close>: in \<open>tr\<close>, every \<open>Q\<close> action has a \<open>P\<close> action somewhere
  before it.
\<close>

fun all_before :: "('e \<Rightarrow> bool) \<Rightarrow> ('e \<Rightarrow> bool) \<Rightarrow> 'e list \<Rightarrow> bool" where
  "all_before P Q [] = True"
| "all_before P Q (e # es) =
     (if P e then True else \<not> Q e \<and> all_before P Q es)"

subsection \<open>An environment and command lines for the examples\<close>

text \<open>
  Modelled from the spec: a \<^verbatim>\<open>parse_config\<close> for the examples, since the real one is
  not among the sources. Each setting is identified by its key, and a value applied
  twice simply overwrites; a key it does not know is an error.
\<close>

definition example_parse_config :: "shrpx_opt \<Rightarrow> string \<Rightarrow> Config \<Rightarrow> Config option" where
  "example_parse_config opt arg c =
     (if opt = SHRPX_OPT_PRIVATE_KEY_FILE then Some (c\<lparr>private_key_file := Some arg\<rparr>)
      else if opt = SHRPX_OPT_CERTIFICATE_FILE then Some (c\<lparr>cert_file := Some arg\<rparr>)
      else if opt = SHRPX_OPT_DAEMON then Some (c\<lparr>daemon := (arg = ''yes'')\<rparr>)
      else if opt = SHRPX_OPT_PID_FILE then Some (c\<lparr>pid_file := Some arg\<rparr>)
      else if opt = SHRPX_OPT_HTTP2_PROXY then Some (c\<lparr>http2_proxy := (arg = ''yes'')\<rparr>)
      else if opt = SHRPX_OPT_CLIENT then Some (c\<lparr>client := (arg = ''yes'')\<rparr>)
      else None)"

definition example_addr4 :: addrinfo where
  "example_addr4 =
     \<lparr>ai_family = AF_INET, ai_socktype = 1, ai_protocol = 6,
      ai_addr = [2, 0, 11, 184] @ replicate 12 0, ai_addrlen = 16\<rparr>"

definition example_addr6 :: addrinfo where
  "example_addr6 =
     \<lparr>ai_family = AF_INET6, ai_socktype = 1, ai_protocol = 6,
      ai_addr = [10, 0, 11, 184] @ replicate 24 0, ai_addrlen = 28\<rparr>"

definition example_getaddrinfo :: "string \<Rightarrow> string \<Rightarrow> addrinfo_hints \<Rightarrow> gai_result" where
  "example_getaddrinfo h service hints =
     (if hint_family hints = AF_INET6 then Gai_ok example_addr6 []
      else Gai_ok example_addr4 [])"

text \<open>
  An environment in which every call succeeds: the process runs as root, the default
  configuration file names a key and a certificate, and \<^verbatim>\<open>/dev/null\<close> is the character
  device it is on every system (mode 020666).
\<close>

definition example_env :: sys_env where
  "example_env =
     \<lparr> NGHTTP2_VERSION = ''0.1.0'',
       NGHTTP2_PROTO_VERSION_ID = ''HTTP-draft-09/2.0'',
       HAVE_SPDYLAY = False,
       EV_RATE_LIMIT_MAX = 0x7FFFFFFFFFFFFFFF,
       isatty_stderr = True,
       stat_mode = (\<lambda>p. if p = ''/etc/nghttpx/nghttpx.conf'' then Some (S_IFREG OR 0x1A4)
                         else if p = ''/dev/null'' then Some (S_IFCHR OR 0x1B6)
                         else None),
       conf_file = (\<lambda>p. if p = ''/etc/nghttpx/nghttpx.conf''
                         then Some [(SHRPX_OPT_PRIVATE_KEY_FILE, ''file.key''),
                                    (SHRPX_OPT_CERTIFICATE_FILE, ''file.crt'')]
                         else if p = ''/dev/null'' then Some []
                         else None),
       parse_config_res = example_parse_config,
       create_ssl_context_ok = (\<lambda>k c. True),
       cert_lookup_tree_add_res = (\<lambda>ctx c. 0),
       inet_pton6_res = (\<lambda>h. 0),
       getaddrinfo_res = example_getaddrinfo,
       getnameinfo_res = (\<lambda>a. 0),
       socket_res = (\<lambda>rp. if ai_family rp = AF_INET6 then 6 else 4),
       setsockopt_reuseaddr_res = (\<lambda>fd. 0),
       setsockopt_v6only_res = (\<lambda>fd. 0),
       bind_res = (\<lambda>fd a. 0),
       evconnlistener_new_ok = (\<lambda>fd. True),
       event_base_new_ok = True,
       daemon_res = 0,
       daemon_pid = 4243,
       pid_file_write_ok = (\<lambda>p. True),
       getuid_res = 0,
       setgid_res = (\<lambda>g. 0),
       setuid_res = (\<lambda>u. if u = 0 then -1 else 0) \<rparr>"

definition example_world :: world where
  "example_world =
     \<lparr>cfg = fill_default_config example_env, trace = [], pid = 4242, files = Map.empty\<rparr>"

text \<open>The command line \<^verbatim>\<open>nghttpx --conf=/dev/null\<close>.\<close>

definition conf_dev_null :: cmdline where
  "conf_dev_null =
     \<lparr>getopt_results = [\<lparr>ret = 0, flag = 12, optarg = ''/dev/null''\<rparr>], positionals = []\<rparr>"

text \<open>\<open>extends w w'\<close>: the trace of \<open>w'\<close> continues the trace of \<open>w\<close>.\<close>

definition extends :: "world \<Rightarrow> world \<Rightarrow> bool" where
  "extends w w' = (take (length (trace w)) (trace w') = trace w)"

text \<open>What the loop over the candidates does to one candidate.\<close>

fun is_bind_step :: "event \<Rightarrow> bool" where
  "is_bind_step (E_socket rp) = True"
| "is_bind_step (E_setsockopt_reuseaddr fd) = True"
| "is_bind_step (E_make_socket_nonblocking fd) = True"
| "is_bind_step (E_setsockopt_v6only fd) = True"
| "is_bind_step (E_bind fd a) = True"
| "is_bind_step (E_close fd) = True"
| "is_bind_step e = False"

text \<open>What \<^verbatim>\<open>create_evlistener\<close> does after its call of \<^verbatim>\<open>getaddrinfo\<close>.\<close>

fun is_listener_body :: "event \<Rightarrow> bool" where
  "is_listener_body (E_getnameinfo a) = True"
| "is_listener_body (E_evconnlistener_new fd b) = True"
| "is_listener_body e = is_bind_step e"

text \<open>What \<^verbatim>\<open>event_loop\<close> does before the listeners, and after the privilege drop.\<close>

fun is_startup_event :: "event \<Rightarrow> bool" where
  "is_startup_event E_event_base_new = True"
| "is_startup_event E_create_ssl_client_context = True"
| "is_startup_event (E_new_ListenHandler sv cl) = True"
| "is_startup_event E_daemon = True"
| "is_startup_event (E_write_pid_file p c) = True"
| "is_startup_event e = False"

fun is_final_event :: "event \<Rightarrow> bool" where
  "is_final_event (E_create_worker_thread n) = True"
| "is_final_event E_create_http2_session = True"
| "is_final_event E_event_base_loop = True"
| "is_final_event (E_evconnlistener_free fd) = True"
| "is_final_event e = False"

text \<open>What the construction of the TLS contexts does.\<close>

fun is_tls_setup :: "event \<Rightarrow> bool" where
  "is_tls_setup E_cert_lookup_tree_new = True"
| "is_tls_setup (E_create_ssl_context k c) = True"
| "is_tls_setup (E_cert_lookup_tree_add ctx c) = True"
| "is_tls_setup e = False"

text \<open>What the command-line loop and the merge do.\<close>

fun is_merge_event :: "event \<Rightarrow> bool" where
  "is_merge_event E_print_help = True"
| "is_merge_event E_print_version = True"
| "is_merge_event E_ssl_library_init = True"
| "is_merge_event E_setup_ssl_lock = True"
| "is_merge_event (E_load_config p) = True"
| "is_merge_event e = False"



text \<open>
  A candidate on which the loop of \<^verbatim>\<open>create_evlistener\<close> stops: the socket, the two
  options (the second for IPv6 only) and the bind all succeed.
\<close>

definition bindable :: "sys_env \<Rightarrow> family \<Rightarrow> addrinfo \<Rightarrow> bool" where
  "bindable env fam rp =
     (socket_res env rp \<noteq> -1 \<and>
      setsockopt_reuseaddr_res env (socket_res env rp) \<noteq> -1 \<and>
      \<not> (fam = AF_INET6 \<and> setsockopt_v6only_res env (socket_res env rp) = -1) \<and>
      bind_res env (socket_res env rp) (ai_addr rp) = 0)"

text \<open>The call of \<^verbatim>\<open>getaddrinfo\<close> that starts the listener of a family.\<close>

definition listener_attempt :: "Config \<Rightarrow> family \<Rightarrow> event" where
  "listener_attempt c fam =
     E_getaddrinfo (host c) (decimal (unat (port c))) (listener_hints fam)"

text \<open>The calls \<^verbatim>\<open>drop_privileges\<close> makes, up to the first that fails.\<close>

definition drop_events :: "sys_env \<Rightarrow> Config \<Rightarrow> event list" where
  "drop_events env c =
     (if getuid_res env = 0 \<and> uid c \<noteq> 0 then
        E_setgid (gid c) #
        (if setgid_res env (gid c) \<noteq> 0 then []
         else E_setuid (uid c) # (if setuid_res env (uid c) \<noteq> 0 then [] else [E_setuid 0]))
      else [])"


text \<open>
  The example world with a daemon, a PID file and an unprivileged user to become.
\<close>

definition daemon_world :: world where
  "daemon_world =
     example_world\<lparr>cfg := (cfg example_world)
       \<lparr>daemon := True, pid_file := Some ''/var/run/nghttpx.pid'', uid := 1000, gid := 1000\<rparr>\<rparr>"

text \<open>The example world with two \<^verbatim>\<open>--subcert\<close> pairs and a primary pair.\<close>

definition subcert_world :: world where
  "subcert_world =
     example_world\<lparr>cfg := (cfg example_world)
       \<lparr>subcerts := [(''a.key'', ''a.crt''), (''b.key'', ''b.crt'')],
        private_key_file := Some ''server.key'', cert_file := Some ''server.crt''\<rparr>\<rparr>"













text \<open>
  The command lines \<^verbatim>\<open>nghttpx\<close>, \<^verbatim>\<open>nghttpx -s --client\<close>,
  \<^verbatim>\<open>nghttpx --pid-file=/run/a.pid --pid-file=/run/b.pid cli.key cli.crt extra\<close> and
  \<^verbatim>\<open>nghttpx cli.key\<close>.
\<close>

definition no_arguments :: cmdline where
  "no_arguments = \<lparr>getopt_results = [], positionals = []\<rparr>"

definition two_modes_cmdline :: cmdline where
  "two_modes_cmdline =
     \<lparr>getopt_results = [\<lparr>ret = chr_code CHR ''s'', flag = 0, optarg = []\<rparr>,
                        \<lparr>ret = 0, flag = 17, optarg = []\<rparr>],
      positionals = []\<rparr>"

definition override_cmdline :: cmdline where
  "override_cmdline =
     \<lparr>getopt_results = [\<lparr>ret = 0, flag = 10, optarg = ''/run/a.pid''\<rparr>,
                        \<lparr>ret = 0, flag = 10, optarg = ''/run/b.pid''\<rparr>],
      positionals = [''cli.key'', ''cli.crt'', ''extra'']\<rparr>"

definition one_positional_cmdline :: cmdline where
  "one_positional_cmdline = \<lparr>getopt_results = [], positionals = [''cli.key'']\<rparr>"

section \<open>Properties\<close>

subsection \<open>Basic facts\<close>

lemma and_then_Returned [simp]: "and_then (Returned x, w) f = f x w"
  by (simp add: and_then_def)

lemma and_then_Exited [simp]: "and_then (Exited st, w) f = (Exited st, w)"
  by (simp add: and_then_def)

lemma trace_emit [simp]: "trace (emit e w) = trace w @ [e]"
  and cfg_emit [simp]: "cfg (emit e w) = cfg w"
  and pid_emit [simp]: "pid (emit e w) = pid w"
  and files_emit [simp]: "files (emit e w) = files w"
  by (simp_all add: emit_def)

subsection \<open>The configuration file test\<close>

text \<open>
  C7. The claim: the configuration file is loaded if and only if its path names a
  regular file or a symbolic link. The comment above \<^verbatim>\<open>conf_exists\<close> says the same, but
  the test \<^verbatim>\<open>st_mode & (S_IFREG | S_IFLNK)\<close> looks at two bits of the file type, and
  the types are not bit flags. The character device \<^verbatim>\<open>/dev/null\<close> (mode 020666) is
  neither a regular file nor a symbolic link; \<^verbatim>\<open>conf_exists\<close> accepts it, and with
  \<^verbatim>\<open>--conf=/dev/null\<close> the merge calls \<^verbatim>\<open>load_config\<close> on it.
\<close>

theorem conf_exists_character_device:
  "stat_mode example_env ''/dev/null'' = Some (S_IFCHR OR 0x1B6) \<and>
   \<not> S_ISREG (S_IFCHR OR 0x1B6) \<and> \<not> S_ISLNK (S_IFCHR OR 0x1B6) \<and>
   conf_exists example_env ''/dev/null'' \<and>
   E_load_config ''/dev/null'' \<in>
     set (trace (snd (main_merge example_env conf_dev_null example_world)))"
proof -
  have 1: "stat_mode example_env ''/dev/null'' = Some (S_IFCHR OR 0x1B6)"
    by (simp add: example_env_def)
  have 2: "\<not> S_ISREG (S_IFCHR OR 0x1B6)"
    by (simp add: S_IFCHR_def S_IFREG_def S_IFMT_def S_ISREG_def)
  have 3: "\<not> S_ISLNK (S_IFCHR OR 0x1B6)"
    by (simp add: S_IFCHR_def S_IFLNK_def S_IFMT_def S_ISLNK_def)
  have 4: "conf_exists example_env ''/dev/null''"
    by (simp add: conf_exists_def 1 S_IFCHR_def S_IFREG_def S_IFLNK_def)
  have 5: "getopt_loop (getopt_results conf_dev_null) []
             (example_world\<lparr>cfg := fill_default_config example_env\<rparr>) =
           (Returned [],
            example_world\<lparr>cfg := (fill_default_config example_env)\<lparr>conf_path := ''/dev/null''\<rparr>\<rparr>)"
    by (simp add: conf_dev_null_def handle_option_def chr_code_def)
  have 6: "conf_file example_env ''/dev/null'' = Some []"
    by (simp add: example_env_def)
  have 7: "positional_cfgs (positionals conf_dev_null) [] = []"
    by (simp add: conf_dev_null_def positional_cfgs_def)
  have "E_load_config ''/dev/null'' \<in>
          set (trace (snd (main_merge example_env conf_dev_null example_world)))"
    by (simp add: main_merge_def 5 load_conf_file_def 4 load_config_def 6 7)
  with 1 2 3 4 show ?thesis by simp
qed

subsection \<open>Traces that grow\<close>

lemma extendsI: "trace w' = trace w @ evs \<Longrightarrow> extends w w'"
  by (simp add: extends_def)

lemma extends_trace: "extends w w' \<Longrightarrow> trace w' = trace w @ new_events w w'"
  unfolding extends_def new_events_def
  by (metis append_take_drop_id)

lemma extends_refl [simp]: "extends w w"
  by (simp add: extends_def)

lemma new_events_refl [simp]: "new_events w w = []"
  by (simp add: new_events_def)

lemma extends_trans: "extends w w1 \<Longrightarrow> extends w1 w2 \<Longrightarrow> extends w w2"
proof -
  assume a: "extends w w1" and b: "extends w1 w2"
  have "trace w2 = trace w @ (new_events w w1 @ new_events w1 w2)"
    using extends_trace [OF a] extends_trace [OF b] by simp
  then show ?thesis by (rule extendsI)
qed

lemma new_events_trans:
  "extends w w1 \<Longrightarrow> extends w1 w2 \<Longrightarrow> new_events w w2 = new_events w w1 @ new_events w1 w2"
proof -
  assume a: "extends w w1" and b: "extends w1 w2"
  have "trace w2 = trace w @ (new_events w w1 @ new_events w1 w2)"
    using extends_trace [OF a] extends_trace [OF b] by simp
  then have "drop (length (trace w)) (trace w2) = new_events w w1 @ new_events w1 w2"
    by (metis append_eq_conv_conj)
  then show ?thesis by (simp add: new_events_def)
qed

lemma extends_emit [simp]: "extends w (emit e w)"
  by (simp add: extends_def)

lemma new_events_emit [simp]: "new_events w (emit e w) = [e]"
  by (simp add: new_events_def)

lemma extends_emit_left: "extends (emit e w) w' \<Longrightarrow> extends w w'"
  by (rule extends_trans [OF extends_emit])

lemma new_events_emit_left:
  "extends (emit e w) w' \<Longrightarrow> new_events w w' = e # new_events (emit e w) w'"
  using new_events_trans [OF extends_emit, of e w w'] by simp

lemma extends_emit_right: "extends w w' \<Longrightarrow> extends w (emit e w')"
  by (rule extends_trans [OF _ extends_emit])

lemma new_events_emit_right:
  "extends w w' \<Longrightarrow> new_events w (emit e w') = new_events w w' @ [e]"
  using new_events_trans [OF _ extends_emit, of w w' e] by simp

lemma extends_update [simp]:
  "extends w (w'\<lparr>cfg := c\<rparr>) = extends w w'"
  "extends w (w'\<lparr>pid := p\<rparr>) = extends w w'"
  "extends w (w'\<lparr>files := f\<rparr>) = extends w w'"
  "extends (w\<lparr>cfg := c\<rparr>) w' = extends w w'"
  "extends (w\<lparr>pid := p\<rparr>) w' = extends w w'"
  "extends (w\<lparr>files := f\<rparr>) w' = extends w w'"
  by (simp_all add: extends_def)

lemma new_events_update [simp]:
  "new_events w (w'\<lparr>cfg := c\<rparr>) = new_events w w'"
  "new_events w (w'\<lparr>pid := p\<rparr>) = new_events w w'"
  "new_events w (w'\<lparr>files := f\<rparr>) = new_events w w'"
  "new_events (w\<lparr>cfg := c\<rparr>) w' = new_events w w'"
  "new_events (w\<lparr>pid := p\<rparr>) w' = new_events w w'"
  "new_events (w\<lparr>files := f\<rparr>) w' = new_events w w'"
  by (simp_all add: new_events_def)

subsection \<open>Order in a trace\<close>

lemma never_after_append:
  "never_after P Q (xs @ ys) \<longleftrightarrow>
     never_after P Q xs \<and> never_after P Q ys \<and>
     ((\<exists>x\<in>set xs. Q x) \<longrightarrow> (\<forall>y\<in>set ys. \<not> P y))"
  by (induction xs) (auto simp: list_all_iff)

lemma never_after_no_Q: "\<forall>x\<in>set xs. \<not> Q x \<Longrightarrow> never_after P Q xs"
  by (induction xs) auto

lemma never_after_no_P: "\<forall>x\<in>set xs. \<not> P x \<Longrightarrow> never_after P Q xs"
  by (induction xs) (auto simp: list_all_iff)

lemma all_before_append:
  "all_before P Q (xs @ ys) \<longleftrightarrow>
     all_before P Q xs \<and> ((\<exists>x\<in>set xs. P x) \<or> all_before P Q ys)"
  by (induction xs) auto

lemma all_before_no_Q: "\<forall>x\<in>set xs. \<not> Q x \<Longrightarrow> all_before P Q xs"
  by (induction xs) auto

subsection \<open>The stages of event_loop, one by one\<close>

lemma event_loop_contexts_run:
  "extends w (snd (event_loop_contexts w))"
  "new_events w (snd (event_loop_contexts w)) = [] \<or>
   new_events w (snd (event_loop_contexts w)) = [E_create_ssl_client_context]"
  "cfg (snd (event_loop_contexts w)) = cfg w"
  "pid (snd (event_loop_contexts w)) = pid w"
  "files (snd (event_loop_contexts w)) = files w"
  by (simp_all add: event_loop_contexts_def create_ssl_client_context_def Let_def)

lemma daemonize_run:
  "extends w (snd (daemonize env w))"
  "new_events w (snd (daemonize env w)) = (if daemon (cfg w) then [E_daemon] else [])"
  "cfg (snd (daemonize env w)) = cfg w"
  "files (snd (daemonize env w)) = files w"
  by (simp_all add: daemonize_def)

lemma daemonize_Returned:
  "daemonize env w = (Returned u, w') \<Longrightarrow>
     pid w' = (if daemon (cfg w) then daemon_pid env else pid w)"
  by (auto simp: daemonize_def split: if_splits)

lemma write_pid_file_run:
  "extends w (snd (write_pid_file env w))"
  "new_events w (snd (write_pid_file env w)) =
     (case pid_file (cfg w) of
        Some path \<Rightarrow> [E_write_pid_file path (decimal (pid w) @ [CHR 0x0A])]
      | None \<Rightarrow> [])"
  "cfg (snd (write_pid_file env w)) = cfg w"
  "pid (snd (write_pid_file env w)) = pid w"
  by (simp_all add: write_pid_file_def save_pid_def Let_def split: option.splits)

lemma extends_emit_right' [simp]: "extends w0 w \<Longrightarrow> extends w0 (emit e w)"
  by (rule extends_emit_right)

lemma new_events_emit_right' [simp]:
  "extends w0 w \<Longrightarrow> new_events w0 (emit e w) = new_events w0 w @ [e]"
  by (rule new_events_emit_right)

lemma bind_candidates_extends_from:
  "extends w0 w \<Longrightarrow> extends w0 (snd (bind_candidates env fam cands w))"
  by (induction cands arbitrary: w) (auto simp: Let_def)

lemma bind_candidates_events_from:
  "extends w0 w \<Longrightarrow> list_all is_bind_step (new_events w0 w) \<Longrightarrow>
     list_all is_bind_step (new_events w0 (snd (bind_candidates env fam cands w)))"
  by (induction cands arbitrary: w) (auto simp: Let_def)

lemma bind_candidates_state:
  "cfg (snd (bind_candidates env fam cands w)) = cfg w"
  "pid (snd (bind_candidates env fam cands w)) = pid w"
  "files (snd (bind_candidates env fam cands w)) = files w"
  by (induction cands arbitrary: w) (auto simp: Let_def)

subsection \<open>The listeners\<close>

lemma bind_candidates_result:
  "fst (bind_candidates env fam cands w) =
     map_option (\<lambda>rp. (rp, socket_res env rp)) (find (bindable env fam) cands)"
  by (induction cands arbitrary: w) (auto simp: Let_def bindable_def)

lemma is_bind_step_body: "is_bind_step e \<Longrightarrow> is_listener_body e"
  by (cases e) simp_all

lemma list_all_bind_step_body: "list_all is_bind_step es \<Longrightarrow> list_all is_listener_body es"
  by (induction es) (simp_all add: is_bind_step_body)

lemma create_evlistener_cases:
  fixes env fam w
  defines "w1 \<equiv> emit (E_getaddrinfo (host (cfg w)) (decimal (unat (port (cfg w)))) (listener_hints fam)) w"
  obtains
    (gai_error) r where
      "getaddrinfo_res env (host (cfg w)) (decimal (unat (port (cfg w)))) (listener_hints fam) = Gai_error r"
      "create_evlistener env fam w = (Returned None, w1)"
  | (no_bind) res rest w2 where
      "getaddrinfo_res env (host (cfg w)) (decimal (unat (port (cfg w)))) (listener_hints fam) = Gai_ok res rest"
      "bind_candidates env fam (res # rest) w1 = (None, w2)"
      "create_evlistener env fam w = (Returned None, w2)"
  | (bound) res rest rp fd w2 where
      "getaddrinfo_res env (host (cfg w)) (decimal (unat (port (cfg w)))) (listener_hints fam) = Gai_ok res rest"
      "bind_candidates env fam (res # rest) w1 = (Some (rp, fd), w2)"
      "getnameinfo_res env (ai_addr rp) = 0"
      "create_evlistener env fam w =
         (Returned (if evconnlistener_new_ok env fd then Some (Evconnlistener fd) else None),
          emit (E_evconnlistener_new fd (backlog (cfg w))) (emit (E_getnameinfo (ai_addr rp)) w2))"
  | (die) res rest rp fd w2 where
      "getaddrinfo_res env (host (cfg w)) (decimal (unat (port (cfg w)))) (listener_hints fam) = Gai_ok res rest"
      "bind_candidates env fam (res # rest) w1 = (Some (rp, fd), w2)"
      "getnameinfo_res env (ai_addr rp) \<noteq> 0"
      "create_evlistener env fam w = (Exited EXIT_FAILURE, emit (E_getnameinfo (ai_addr rp)) w2)"
proof (cases "getaddrinfo_res env (host (cfg w)) (decimal (unat (port (cfg w)))) (listener_hints fam)")
  case (Gai_error r)
  then have "create_evlistener env fam w = (Returned None, w1)"
    by (simp add: create_evlistener_def Let_def w1_def)
  with Gai_error show ?thesis by (rule gai_error)
next
  case (Gai_ok res rest)
  obtain r w2 where bc: "bind_candidates env fam (res # rest) w1 = (r, w2)"
    by (cases "bind_candidates env fam (res # rest) w1") blast
  show ?thesis
  proof (cases r)
    case None
    have "create_evlistener env fam w = (Returned None, w2)"
      using Gai_ok bc None unfolding w1_def create_evlistener_def Let_def by simp
    with Gai_ok bc None show ?thesis using no_bind by blast
  next
    case (Some p)
    obtain rp fd where p: "p = (rp, fd)" by (cases p)
    show ?thesis
    proof (cases "getnameinfo_res env (ai_addr rp) = 0")
      case True
      have "create_evlistener env fam w =
         (Returned (if evconnlistener_new_ok env fd then Some (Evconnlistener fd) else None),
          emit (E_evconnlistener_new fd (backlog (cfg w))) (emit (E_getnameinfo (ai_addr rp)) w2))"
        using Gai_ok bc Some p True unfolding w1_def create_evlistener_def Let_def by simp
      with Gai_ok bc Some p True show ?thesis using bound by blast
    next
      case False
      have "create_evlistener env fam w = (Exited EXIT_FAILURE, emit (E_getnameinfo (ai_addr rp)) w2)"
        using Gai_ok bc Some p False unfolding w1_def create_evlistener_def Let_def DIE_def by simp
      with Gai_ok bc Some p False show ?thesis using die by blast
    qed
  qed
qed

lemma bind_candidates_from_emit:
  assumes "bind_candidates env fam cands (emit g w) = (r, w2)"
  shows "extends w w2"
    and "\<exists>body. new_events w w2 = g # body \<and> list_all is_listener_body body"
    and "cfg w2 = cfg w" and "pid w2 = pid w" and "files w2 = files w"
proof -
  have w2: "w2 = snd (bind_candidates env fam cands (emit g w))" using assms by simp
  have e: "extends (emit g w) w2"
    unfolding w2 by (rule bind_candidates_extends_from) simp
  from e show "extends w w2" by (rule extends_emit_left)
  have "list_all is_bind_step (new_events (emit g w) w2)"
    unfolding w2 by (rule bind_candidates_events_from) simp_all
  then have "list_all is_listener_body (new_events (emit g w) w2)"
    by (rule list_all_bind_step_body)
  moreover have "new_events w w2 = g # new_events (emit g w) w2"
    using e by (rule new_events_emit_left)
  ultimately show "\<exists>body. new_events w w2 = g # body \<and> list_all is_listener_body body"
    by blast
  show "cfg w2 = cfg w" "pid w2 = pid w" "files w2 = files w"
    unfolding w2 by (simp_all add: bind_candidates_state)
qed

lemma create_evlistener_extends: "extends w (snd (create_evlistener env fam w))"
proof (cases env fam w rule: create_evlistener_cases)
  case (gai_error r)
  then show ?thesis by simp
next
  case (no_bind res rest w2)
  then show ?thesis using bind_candidates_from_emit(1) by fastforce
next
  case (bound res rest rp fd w2)
  then show ?thesis using bind_candidates_from_emit(1) by fastforce
next
  case (die res rest rp fd w2)
  then show ?thesis using bind_candidates_from_emit(1) by fastforce
qed

lemma create_evlistener_events:
  "\<exists>body. new_events w (snd (create_evlistener env fam w)) =
      E_getaddrinfo (host (cfg w)) (decimal (unat (port (cfg w)))) (listener_hints fam) # body \<and>
      list_all is_listener_body body"
proof (cases env fam w rule: create_evlistener_cases)
  case (gai_error r)
  then show ?thesis by simp
next
  case (no_bind res rest w2)
  then show ?thesis using bind_candidates_from_emit(2) by fastforce
next
  case (bound res rest rp fd w2)
  from bind_candidates_from_emit(1,2) [OF bound(2)]
  show ?thesis unfolding bound(4) by auto
next
  case (die res rest rp fd w2)
  from bind_candidates_from_emit(1,2) [OF die(2)]
  show ?thesis unfolding die(4) by auto
qed

lemma create_evlistener_state:
  "cfg (snd (create_evlistener env fam w)) = cfg w"
  "pid (snd (create_evlistener env fam w)) = pid w"
  "files (snd (create_evlistener env fam w)) = files w"
proof -
  have "cfg (snd (create_evlistener env fam w)) = cfg w \<and>
        pid (snd (create_evlistener env fam w)) = pid w \<and>
        files (snd (create_evlistener env fam w)) = files w"
  proof (cases env fam w rule: create_evlistener_cases)
    case (gai_error r)
    then show ?thesis by simp
  next
    case (no_bind res rest w2)
    from bind_candidates_from_emit(3-5) [OF no_bind(2)] show ?thesis unfolding no_bind(3) by simp
  next
    case (bound res rest rp fd w2)
    from bind_candidates_from_emit(3-5) [OF bound(2)] show ?thesis unfolding bound(4) by simp
  next
    case (die res rest rp fd w2)
    from bind_candidates_from_emit(3-5) [OF die(2)] show ?thesis unfolding die(4) by simp
  qed
  then show "cfg (snd (create_evlistener env fam w)) = cfg w"
    "pid (snd (create_evlistener env fam w)) = pid w"
    "files (snd (create_evlistener env fam w)) = files w" by simp_all
qed

lemma create_evlistener_result:
  "fst (create_evlistener env fam w) =
     (case getaddrinfo_res env (host (cfg w)) (decimal (unat (port (cfg w)))) (listener_hints fam) of
        Gai_error r \<Rightarrow> Returned None
      | Gai_ok res rest \<Rightarrow>
          (case find (bindable env fam) (res # rest) of
             None \<Rightarrow> Returned None
           | Some rp \<Rightarrow>
               if getnameinfo_res env (ai_addr rp) = 0
               then Returned (if evconnlistener_new_ok env (socket_res env rp)
                              then Some (Evconnlistener (socket_res env rp)) else None)
               else Exited EXIT_FAILURE))"
proof (cases env fam w rule: create_evlistener_cases)
  case (gai_error r)
  then show ?thesis by simp
next
  case (no_bind res rest w2)
  from arg_cong [OF no_bind(2), of fst] have "find (bindable env fam) (res # rest) = None"
    unfolding bind_candidates_result by simp
  then show ?thesis unfolding no_bind(1,3) by simp
next
  case (bound res rest rp fd w2)
  from arg_cong [OF bound(2), of fst]
  have "find (bindable env fam) (res # rest) = Some rp \<and> fd = socket_res env rp"
    unfolding bind_candidates_result by auto
  then show ?thesis unfolding bound(1,4) using bound(3) by simp
next
  case (die res rest rp fd w2)
  from arg_cong [OF die(2), of fst]
  have "find (bindable env fam) (res # rest) = Some rp \<and> fd = socket_res env rp"
    unfolding bind_candidates_result by auto
  then show ?thesis unfolding die(1,4) using die(3) by simp
qed

lemma drop_privileges_run:
  "extends w (snd (drop_privileges env w))"
  "cfg (snd (drop_privileges env w)) = cfg w"
  "pid (snd (drop_privileges env w)) = pid w"
  "files (snd (drop_privileges env w)) = files w"
  by (simp_all add: drop_privileges_def Let_def)

lemma drop_privileges_events:
  "new_events w (snd (drop_privileges env w)) =
     (if getuid_res env = 0 \<and> uid (cfg w) \<noteq> 0 then
        E_setgid (gid (cfg w)) #
        (if setgid_res env (gid (cfg w)) \<noteq> 0 then []
         else E_setuid (uid (cfg w)) #
              (if setuid_res env (uid (cfg w)) \<noteq> 0 then [] else [E_setuid 0]))
      else [])"
  by (simp add: drop_privileges_def Let_def new_events_def)

lemma drop_privileges_result:
  "fst (drop_privileges env w) =
     (if getuid_res env = 0 \<and> uid (cfg w) \<noteq> 0 \<and>
         (setgid_res env (gid (cfg w)) \<noteq> 0 \<or> setuid_res env (uid (cfg w)) \<noteq> 0 \<or>
          setuid_res env 0 \<noteq> -1)
      then Exited EXIT_FAILURE else Returned ())"
  by (simp add: drop_privileges_def Let_def)

lemma create_evlistener_fst_cfg:
  "cfg w' = cfg w \<Longrightarrow> fst (create_evlistener env fam w') = fst (create_evlistener env fam w)"
  by (simp add: create_evlistener_result)

lemma create_evlistener_Exited:
  "create_evlistener env fam w = (Exited st, w') \<Longrightarrow> st = EXIT_FAILURE"
  using create_evlistener_result [of env fam w]
  by (auto split: gai_result.splits option.splits if_splits)

lemma create_listeners_result:
  "fst (create_listeners env w) =
     (case fst (create_evlistener env AF_INET6 w) of
        Exited st \<Rightarrow> Exited st
      | Returned evlistener6 \<Rightarrow>
          (case fst (create_evlistener env AF_INET w) of
             Exited st \<Rightarrow> Exited st
           | Returned evlistener4 \<Rightarrow>
               if evlistener6 = None \<and> evlistener4 = None then Exited EXIT_FAILURE
               else Returned (evlistener6, evlistener4)))"
proof -
  obtain r6 w1 where c6: "create_evlistener env AF_INET6 w = (r6, w1)"
    by (cases "create_evlistener env AF_INET6 w") blast
  have cfg1: "cfg w1 = cfg w"
    using create_evlistener_state(1) [of env AF_INET6 w] c6 by simp
  obtain r4 w2 where c4: "create_evlistener env AF_INET w1 = (r4, w2)"
    by (cases "create_evlistener env AF_INET w1") blast
  have r4: "fst (create_evlistener env AF_INET w) = r4"
    using create_evlistener_fst_cfg [OF cfg1, of env AF_INET] c4 by simp
  show ?thesis
    by (cases r6; cases r4) (simp_all add: create_listeners_def c6 c4 r4)
qed

lemma create_listeners_extends: "extends w (snd (create_listeners env w))"
proof -
  obtain r6 w1 where c6: "create_evlistener env AF_INET6 w = (r6, w1)"
    by (cases "create_evlistener env AF_INET6 w") blast
  obtain r4 w2 where c4: "create_evlistener env AF_INET w1 = (r4, w2)"
    by (cases "create_evlistener env AF_INET w1") blast
  have e1: "extends w w1" using create_evlistener_extends [of w env AF_INET6] c6 by simp
  have e2: "extends w1 w2" using create_evlistener_extends [of w1 env AF_INET] c4 by simp
  have e12: "extends w w2" using e1 e2 by (rule extends_trans)
  show ?thesis
    by (cases r6; cases r4) (simp_all add: create_listeners_def c6 c4 e1 e12)
qed

lemma create_listeners_state:
  "cfg (snd (create_listeners env w)) = cfg w"
  "pid (snd (create_listeners env w)) = pid w"
  "files (snd (create_listeners env w)) = files w"
proof -
  obtain r6 w1 where c6: "create_evlistener env AF_INET6 w = (r6, w1)"
    by (cases "create_evlistener env AF_INET6 w") blast
  obtain r4 w2 where c4: "create_evlistener env AF_INET w1 = (r4, w2)"
    by (cases "create_evlistener env AF_INET w1") blast
  have s1: "cfg w1 = cfg w" "pid w1 = pid w" "files w1 = files w"
    using create_evlistener_state [of env AF_INET6 w] c6 by simp_all
  have s2: "cfg w2 = cfg w" "pid w2 = pid w" "files w2 = files w"
    using create_evlistener_state [of env AF_INET w1] c4 s1 by simp_all
  show "cfg (snd (create_listeners env w)) = cfg w"
    by (cases r6; cases r4) (simp_all add: create_listeners_def c6 c4 s1 s2)
  show "pid (snd (create_listeners env w)) = pid w"
    by (cases r6; cases r4) (simp_all add: create_listeners_def c6 c4 s1 s2)
  show "files (snd (create_listeners env w)) = files w"
    by (cases r6; cases r4) (simp_all add: create_listeners_def c6 c4 s1 s2)
qed

lemma create_listeners_shape:
  obtains body6 L4 where
    "new_events w (snd (create_listeners env w)) = listener_attempt (cfg w) AF_INET6 # body6 @ L4"
    "list_all is_listener_body body6"
    "L4 = [] \<or> (\<exists>body4. L4 = listener_attempt (cfg w) AF_INET # body4 \<and> list_all is_listener_body body4)"
    "(\<exists>l. fst (create_evlistener env AF_INET6 w) = Returned l) \<Longrightarrow> L4 \<noteq> []"
proof -
  obtain r6 w1 where c6: "create_evlistener env AF_INET6 w = (r6, w1)"
    by (cases "create_evlistener env AF_INET6 w") blast
  obtain r4 w2 where c4: "create_evlistener env AF_INET w1 = (r4, w2)"
    by (cases "create_evlistener env AF_INET w1") blast
  have e1: "extends w w1" using create_evlistener_extends [of w env AF_INET6] c6 by simp
  have e2: "extends w1 w2" using create_evlistener_extends [of w1 env AF_INET] c4 by simp
  have cfg1: "cfg w1 = cfg w"
    using create_evlistener_state(1) [of env AF_INET6 w] c6 by simp
  obtain body6 where b6: "new_events w w1 = listener_attempt (cfg w) AF_INET6 # body6"
      "list_all is_listener_body body6"
    using create_evlistener_events [of w env AF_INET6] c6 by (auto simp: listener_attempt_def)
  obtain body4 where b4: "new_events w1 w2 = listener_attempt (cfg w) AF_INET # body4"
      "list_all is_listener_body body4"
    using create_evlistener_events [of w1 env AF_INET] c4 cfg1 by (auto simp: listener_attempt_def)
  have n12: "new_events w w2 = new_events w w1 @ new_events w1 w2"
    using e1 e2 by (rule new_events_trans)
  show ?thesis
  proof (cases r6)
    case (Exited st)
    then have "snd (create_listeners env w) = w1"
      by (simp add: create_listeners_def c6)
    then have "new_events w (snd (create_listeners env w)) = listener_attempt (cfg w) AF_INET6 # body6 @ []"
      using b6 by simp
    moreover have "\<not> (\<exists>l. fst (create_evlistener env AF_INET6 w) = Returned l)"
      using c6 Exited by simp
    ultimately show ?thesis using that [of body6 "[]"] b6(2) by blast
  next
    case (Returned l6)
    have "snd (create_listeners env w) = w2"
      by (cases r4) (simp_all add: create_listeners_def c6 c4 Returned)
    then have "new_events w (snd (create_listeners env w)) =
        listener_attempt (cfg w) AF_INET6 # body6 @ (listener_attempt (cfg w) AF_INET # body4)"
      using n12 b6 b4 by simp
    then show ?thesis using that [of body6 "listener_attempt (cfg w) AF_INET # body4"] b6(2) b4(2)
      by blast
  qed
qed

lemma create_listeners_Returned_shape:
  assumes "create_listeners env w = (Returned ls, w')"
  obtains body6 body4 where
    "new_events w w' =
       listener_attempt (cfg w) AF_INET6 # body6 @ listener_attempt (cfg w) AF_INET # body4"
    "list_all is_listener_body body6" "list_all is_listener_body body4"
proof -
  have "\<exists>l. fst (create_evlistener env AF_INET6 w) = Returned l"
    using create_listeners_result [of env w] assms by (auto split: outcome.splits)
  then show ?thesis
    using create_listeners_shape [of w env] assms that
    by (metis snd_conv)
qed

subsection \<open>The paths through event_loop\<close>

lemma drop_privileges_events': "new_events w (snd (drop_privileges env w)) = drop_events env (cfg w)"
  by (simp add: drop_privileges_events drop_events_def)

lemma start_workers_run:
  "extends w (start_workers w)"
  "list_all is_final_event (new_events w (start_workers w))"
  "cfg (start_workers w) = cfg w" "pid (start_workers w) = pid w" "files (start_workers w) = files w"
  by (simp_all add: start_workers_def)

lemma evconnlistener_free_run:
  "extends w0 w \<Longrightarrow> extends w0 (evconnlistener_free l w)"
  "extends w0 w \<Longrightarrow> list_all is_final_event (new_events w0 w) \<Longrightarrow>
     list_all is_final_event (new_events w0 (evconnlistener_free l w))"
  "cfg (evconnlistener_free l w) = cfg w" "pid (evconnlistener_free l w) = pid w"
  "files (evconnlistener_free l w) = files w"
  by (simp_all add: evconnlistener_free_def split: option.splits evconnlistener.splits)

lemma run_loop_run:
  "extends w (run_loop ls w)"
  "list_all is_final_event (new_events w (run_loop ls w))"
  "new_events w (run_loop ls w) \<noteq> []"
  "cfg (run_loop ls w) = cfg w" "pid (run_loop ls w) = pid w" "files (run_loop ls w) = files w"
proof -
  let ?w1 = "emit E_event_base_loop (start_workers w)"
  have e1: "extends w ?w1" by (simp add: start_workers_run)
  have l1: "list_all is_final_event (new_events w ?w1)" by (simp add: start_workers_run)
  show e: "extends w (run_loop ls w)" unfolding run_loop_def
    by (intro evconnlistener_free_run e1)
  show "list_all is_final_event (new_events w (run_loop ls w))" unfolding run_loop_def
    by (intro evconnlistener_free_run e1 l1)
  have "new_events w ?w1 \<noteq> []" by (simp add: start_workers_run)
  moreover have "extends ?w1 (run_loop ls w)" unfolding run_loop_def
    by (intro evconnlistener_free_run) simp
  ultimately show "new_events w (run_loop ls w) \<noteq> []"
    using new_events_trans [OF e1, of "run_loop ls w"] by simp
  show "cfg (run_loop ls w) = cfg w" "pid (run_loop ls w) = pid w" "files (run_loop ls w) = files w"
    by (simp_all add: run_loop_def evconnlistener_free_run start_workers_run)
qed

lemma event_loop_cases:
  obtains
    (base_failed) "\<not> event_base_new_ok env"
      "event_loop env w = (Exited EXIT_FAILURE, emit E_event_base_new w)"
  | (daemon_failed) wS st w2 where
      "extends w wS" "list_all is_startup_event (new_events w wS)"
      "list_all (\<lambda>e. e \<noteq> E_daemon \<and> \<not> is_write_pid_file e) (new_events w wS)"
      "cfg wS = cfg w" "pid wS = pid w" "files wS = files w"
      "daemonize env wS = (Exited st, w2)" "event_loop env w = (Exited st, w2)"
  | (pid_failed) wS w2 st w3 where
      "extends w wS" "list_all is_startup_event (new_events w wS)"
      "list_all (\<lambda>e. e \<noteq> E_daemon \<and> \<not> is_write_pid_file e) (new_events w wS)"
      "cfg wS = cfg w" "pid wS = pid w" "files wS = files w"
      "daemonize env wS = (Returned (), w2)"
      "write_pid_file env w2 = (Exited st, w3)" "event_loop env w = (Exited st, w3)"
  | (listen_failed) wS w2 w3 st w4 where
      "extends w wS" "list_all is_startup_event (new_events w wS)"
      "list_all (\<lambda>e. e \<noteq> E_daemon \<and> \<not> is_write_pid_file e) (new_events w wS)"
      "cfg wS = cfg w" "pid wS = pid w" "files wS = files w"
      "daemonize env wS = (Returned (), w2)"
      "write_pid_file env w2 = (Returned (), w3)"
      "create_listeners env w3 = (Exited st, w4)" "event_loop env w = (Exited st, w4)"
  | (drop_failed) wS w2 w3 ls w4 st w5 where
      "extends w wS" "list_all is_startup_event (new_events w wS)"
      "list_all (\<lambda>e. e \<noteq> E_daemon \<and> \<not> is_write_pid_file e) (new_events w wS)"
      "cfg wS = cfg w" "pid wS = pid w" "files wS = files w"
      "daemonize env wS = (Returned (), w2)"
      "write_pid_file env w2 = (Returned (), w3)"
      "create_listeners env w3 = (Returned ls, w4)"
      "drop_privileges env w4 = (Exited st, w5)" "event_loop env w = (Exited st, w5)"
  | (running) wS w2 w3 ls w4 w5 where
      "extends w wS" "list_all is_startup_event (new_events w wS)"
      "list_all (\<lambda>e. e \<noteq> E_daemon \<and> \<not> is_write_pid_file e) (new_events w wS)"
      "cfg wS = cfg w" "pid wS = pid w" "files wS = files w"
      "daemonize env wS = (Returned (), w2)"
      "write_pid_file env w2 = (Returned (), w3)"
      "create_listeners env w3 = (Returned ls, w4)"
      "drop_privileges env w4 = (Returned (), w5)"
      "event_loop env w = (Returned 0, run_loop ls w5)"
proof (cases "event_base_new_ok env")
  case False
  then show ?thesis using base_failed by (simp add: event_loop_def)
next
  case True
  obtain sv cl w1 where ctx: "event_loop_contexts (emit E_event_base_new w) = ((sv, cl), w1)"
    by (cases "event_loop_contexts (emit E_event_base_new w)") auto
  define wS where "wS = emit (E_new_ListenHandler sv cl) w1"
  have w1: "w1 = snd (event_loop_contexts (emit E_event_base_new w))" using ctx by simp
  have e1: "extends (emit E_event_base_new w) w1"
    unfolding w1 by (rule event_loop_contexts_run)
  have n1: "new_events (emit E_event_base_new w) w1 = [] \<or>
            new_events (emit E_event_base_new w) w1 = [E_create_ssl_client_context]"
    unfolding w1 by (rule event_loop_contexts_run)
  have e1': "extends w w1" using e1 by (rule extends_emit_left)
  have n1': "new_events w w1 = E_event_base_new # new_events (emit E_event_base_new w) w1"
    using e1 by (rule new_events_emit_left)
  have S: "extends w wS" "list_all is_startup_event (new_events w wS)"
      "list_all (\<lambda>e. e \<noteq> E_daemon \<and> \<not> is_write_pid_file e) (new_events w wS)"
      "cfg wS = cfg w" "pid wS = pid w" "files wS = files w"
  proof -
    have st: "cfg w1 = cfg w" "pid w1 = pid w" "files w1 = files w"
      unfolding w1 by (simp_all add: event_loop_contexts_run)
    show "extends w wS" unfolding wS_def using e1' by simp
    show "list_all is_startup_event (new_events w wS)"
      unfolding wS_def using e1' n1 n1' by auto
    show "list_all (\<lambda>e. e \<noteq> E_daemon \<and> \<not> is_write_pid_file e) (new_events w wS)"
      unfolding wS_def using e1' n1 n1' by auto
    show "cfg wS = cfg w" "pid wS = pid w" "files wS = files w"
      unfolding wS_def using st by simp_all
  qed
  have el: "event_loop env w =
      and_then (daemonize env wS)
        (\<lambda>_ w2. and_then (write_pid_file env w2)
        (\<lambda>_ w3. and_then (create_listeners env w3)
        (\<lambda>evlisteners w4. and_then (drop_privileges env w4)
        (\<lambda>_ w5. (Returned 0, run_loop evlisteners w5)))))"
    by (simp add: event_loop_def True ctx wS_def run_loop_def)
  obtain r2 w2 where d: "daemonize env wS = (r2, w2)" by (cases "daemonize env wS") blast
  show ?thesis
  proof (cases r2)
    case (Exited st)
    then show ?thesis using daemon_failed [OF S] d el by simp
  next
    case (Returned u2)
    with d have d': "daemonize env wS = (Returned (), w2)" by simp
    obtain r3 w3 where p: "write_pid_file env w2 = (r3, w3)" by (cases "write_pid_file env w2") blast
    show ?thesis
    proof (cases r3)
      case (Exited st)
      then show ?thesis using pid_failed [OF S d'] p el d' by simp
    next
      case (Returned u3)
      with p have p': "write_pid_file env w2 = (Returned (), w3)" by simp
      obtain r4 w4 where l: "create_listeners env w3 = (r4, w4)"
        by (cases "create_listeners env w3") blast
      show ?thesis
      proof (cases r4)
        case (Exited st)
        then show ?thesis using listen_failed [OF S d' p'] l el d' p' by simp
      next
        case (Returned ls)
        with l have l': "create_listeners env w3 = (Returned ls, w4)" by simp
        obtain r5 w5 where dp: "drop_privileges env w4 = (r5, w5)"
          by (cases "drop_privileges env w4") blast
        show ?thesis
        proof (cases r5)
          case (Exited st)
          then show ?thesis using drop_failed [OF S d' p' l'] dp el d' p' l' by simp
        next
          case (Returned u5)
          then show ?thesis using running [OF S d' p' l'] dp el d' p' l' by simp
        qed
      qed
    qed
  qed
qed

lemma daemonize_facts:
  assumes "daemonize env w = (r, w')"
  shows "extends w w'" "new_events w w' = (if daemon (cfg w) then [E_daemon] else [])"
    "cfg w' = cfg w" "files w' = files w"
  using daemonize_run [where w=w and env=env] assms by simp_all

lemma write_pid_file_facts:
  assumes "write_pid_file env w = (r, w')"
  shows "extends w w'"
    "new_events w w' =
       (case pid_file (cfg w) of
          Some path \<Rightarrow> [E_write_pid_file path (decimal (pid w) @ [CHR 0x0A])]
        | None \<Rightarrow> [])"
    "cfg w' = cfg w" "pid w' = pid w"
  using write_pid_file_run [where w=w and env=env] assms by simp_all

lemma create_listeners_facts:
  assumes "create_listeners env w = (r, w')"
  shows "extends w w'" "cfg w' = cfg w" "pid w' = pid w" "files w' = files w"
  using create_listeners_extends [where w=w and env=env] create_listeners_state [where w=w and env=env] assms by simp_all

lemma drop_privileges_facts:
  assumes "drop_privileges env w = (r, w')"
  shows "extends w w'" "new_events w w' = drop_events env (cfg w)"
    "cfg w' = cfg w" "pid w' = pid w" "files w' = files w"
  using drop_privileges_run [where w=w and env=env] drop_privileges_events' [where w=w and env=env] assms by simp_all

lemma startup_order:
  assumes "list_all is_startup_event S"
    and "list_all (\<lambda>e. e \<noteq> E_daemon \<and> \<not> is_write_pid_file e) S"
    and "Dm = (if dmn then [E_daemon] else [])"
    and "P = (case pf of Some path \<Rightarrow> [E_write_pid_file path c] | None \<Rightarrow> [])"
  shows "list_all is_startup_event (S @ Dm @ P)"
    and "never_after (\<lambda>e. e = E_daemon) is_write_pid_file (S @ Dm @ P)"
    and "dmn \<Longrightarrow> all_before (\<lambda>e. e = E_daemon) is_write_pid_file (S @ Dm @ P)"
    and "list_all is_startup_event (S @ Dm)"
    and "never_after (\<lambda>e. e = E_daemon) is_write_pid_file (S @ Dm)"
    and "dmn \<Longrightarrow> all_before (\<lambda>e. e = E_daemon) is_write_pid_file (S @ Dm)"
    and "\<forall>p c'. E_write_pid_file p c' \<in> set (S @ Dm @ P) \<longrightarrow> pf = Some p \<and> c' = c"
    and "\<forall>p c'. E_write_pid_file p c' \<notin> set (S @ Dm)"
  using assms
  by (auto simp: never_after_append all_before_append list_all_iff
      intro!: never_after_no_Q all_before_no_Q split: option.splits)

lemma drop_events_privilege: "list_all is_privilege_drop (drop_events env c)"
  by (simp add: drop_events_def)

lemma drop_privileges_fst_cfg:
  "cfg w' = cfg w \<Longrightarrow> fst (drop_privileges env w') = fst (drop_privileges env w)"
  by (simp add: drop_privileges_result)

lemma event_loop_shape:
  obtains A L D W where
    "new_events w (snd (event_loop env w)) = A @ L @ D @ W"
    "list_all is_startup_event A"
    "never_after (\<lambda>e. e = E_daemon) is_write_pid_file A"
    "daemon (cfg w) \<Longrightarrow> all_before (\<lambda>e. e = E_daemon) is_write_pid_file A"
    "\<forall>p c. E_write_pid_file p c \<in> set A \<longrightarrow>
       pid_file (cfg w) = Some p \<and>
       c = decimal (if daemon (cfg w) then daemon_pid env else pid w) @ [CHR 0x0A]"
    "(\<exists>r. fst (event_loop env w) = Returned r) \<Longrightarrow> W \<noteq> []"
    "L = [] \<or>
     (\<exists>body6 L4. L = listener_attempt (cfg w) AF_INET6 # body6 @ L4 \<and>
        list_all is_listener_body body6 \<and>
        (L4 = [] \<or> (\<exists>body4. L4 = listener_attempt (cfg w) AF_INET # body4 \<and>
                              list_all is_listener_body body4)))"
    "D \<noteq> [] \<or> W \<noteq> [] \<Longrightarrow>
       \<exists>body6 body4. L = listener_attempt (cfg w) AF_INET6 # body6 @
                          listener_attempt (cfg w) AF_INET # body4 \<and>
         list_all is_listener_body body6 \<and> list_all is_listener_body body4"
    "D = [] \<or> D = drop_events env (cfg w)"
    "list_all is_final_event W"
    "W \<noteq> [] \<Longrightarrow> D = drop_events env (cfg w) \<and> fst (drop_privileges env w) = Returned ()"
proof (cases env w rule: event_loop_cases)
  case base_failed
  show ?thesis
    by (rule that [of "[E_event_base_new]" "[]" "[]" "[]"]) (simp_all add: base_failed)
next
  case (daemon_failed wS st w2)
  note d = daemonize_facts [OF daemon_failed(7)]
  have T: "new_events w w2 = new_events w wS @ (if daemon (cfg w) then [E_daemon] else [])"
    using new_events_trans [OF daemon_failed(1) d(1)] d(2) daemon_failed(4) by simp
  note so = startup_order [where dmn="daemon (cfg w)" and pf=None and P="[]", OF daemon_failed(2,3) refl]
  show ?thesis
    by (rule that [of "new_events w wS @ (if daemon (cfg w) then [E_daemon] else [])" "[]" "[]" "[]"])
       (use so T daemon_failed(8) in simp_all)
next
  case (pid_failed wS w2 st w3)
  note d = daemonize_facts [OF pid_failed(7)]
  have pw2: "pid w2 = (if daemon (cfg w) then daemon_pid env else pid w)"
    using daemonize_Returned [OF pid_failed(7)] pid_failed(4,5) by simp
  note p = write_pid_file_facts [OF pid_failed(8)]
  let ?Dm = "if daemon (cfg w) then [E_daemon] else []"
  let ?P = "case pid_file (cfg w) of
              Some path \<Rightarrow> [E_write_pid_file path (decimal (pid w2) @ [CHR 0x0A])] | None \<Rightarrow> []"
  have e2: "extends w w2" using pid_failed(1) d(1) by (rule extends_trans)
  have T: "new_events w w3 = new_events w wS @ ?Dm @ ?P"
    using new_events_trans [OF e2 p(1)] new_events_trans [OF pid_failed(1) d(1)]
      d(2,3) p(2) pid_failed(4) by simp
  note so = startup_order [where dmn="daemon (cfg w)" and pf="pid_file (cfg w)"
      and c="decimal (pid w2) @ [CHR 0x0A]", OF pid_failed(2,3) refl refl]
  show ?thesis
    by (rule that [of "new_events w wS @ ?Dm @ ?P" "[]" "[]" "[]"])
       (use so T pid_failed(9) pw2 in simp_all)
next
  case (listen_failed wS w2 w3 st w4)
  note d = daemonize_facts [OF listen_failed(7)]
  have pw2: "pid w2 = (if daemon (cfg w) then daemon_pid env else pid w)"
    using daemonize_Returned [OF listen_failed(7)] listen_failed(4,5) by simp
  note p = write_pid_file_facts [OF listen_failed(8)]
  note l = create_listeners_facts [OF listen_failed(9)]
  let ?Dm = "if daemon (cfg w) then [E_daemon] else []"
  let ?P = "case pid_file (cfg w) of
              Some path \<Rightarrow> [E_write_pid_file path (decimal (pid w2) @ [CHR 0x0A])] | None \<Rightarrow> []"
  have e2: "extends w w2" using listen_failed(1) d(1) by (rule extends_trans)
  have e3: "extends w w3" using e2 p(1) by (rule extends_trans)
  have c3: "cfg w3 = cfg w" using d(3) p(3) listen_failed(4) by simp
  have A: "new_events w w3 = new_events w wS @ ?Dm @ ?P"
    using new_events_trans [OF e2 p(1)] new_events_trans [OF listen_failed(1) d(1)]
      d(2,3) p(2) listen_failed(4) by simp
  have T: "new_events w w4 = (new_events w wS @ ?Dm @ ?P) @ new_events w3 w4"
    using new_events_trans [OF e3 l(1)] A by simp
  note so = startup_order [where dmn="daemon (cfg w)" and pf="pid_file (cfg w)"
      and c="decimal (pid w2) @ [CHR 0x0A]", OF listen_failed(2,3) refl refl]
  have L: "\<exists>body6 L4. new_events w3 w4 = listener_attempt (cfg w) AF_INET6 # body6 @ L4 \<and>
        list_all is_listener_body body6 \<and>
        (L4 = [] \<or> (\<exists>body4. L4 = listener_attempt (cfg w) AF_INET # body4 \<and>
                              list_all is_listener_body body4))"
    using create_listeners_shape [where w=w3 and env=env] listen_failed(9) c3
    by (metis snd_conv)
  show ?thesis
    by (rule that [of "new_events w wS @ ?Dm @ ?P" "new_events w3 w4" "[]" "[]"])
       (use so T L listen_failed(10) pw2 in simp_all)
next
  case (drop_failed wS w2 w3 ls w4 st w5)
  note d = daemonize_facts [OF drop_failed(7)]
  have pw2: "pid w2 = (if daemon (cfg w) then daemon_pid env else pid w)"
    using daemonize_Returned [OF drop_failed(7)] drop_failed(4,5) by simp
  note p = write_pid_file_facts [OF drop_failed(8)]
  note l = create_listeners_facts [OF drop_failed(9)]
  note dp = drop_privileges_facts [OF drop_failed(10)]
  let ?Dm = "if daemon (cfg w) then [E_daemon] else []"
  let ?P = "case pid_file (cfg w) of
              Some path \<Rightarrow> [E_write_pid_file path (decimal (pid w2) @ [CHR 0x0A])] | None \<Rightarrow> []"
  have e2: "extends w w2" using drop_failed(1) d(1) by (rule extends_trans)
  have e3: "extends w w3" using e2 p(1) by (rule extends_trans)
  have e4: "extends w w4" using e3 l(1) by (rule extends_trans)
  have c3: "cfg w3 = cfg w" using d(3) p(3) drop_failed(4) by simp
  have c4: "cfg w4 = cfg w" using c3 l(2) by simp
  have A: "new_events w w3 = new_events w wS @ ?Dm @ ?P"
    using new_events_trans [OF e2 p(1)] new_events_trans [OF drop_failed(1) d(1)]
      d(2,3) p(2) drop_failed(4) by simp
  have T: "new_events w w5 =
      (new_events w wS @ ?Dm @ ?P) @ new_events w3 w4 @ drop_events env (cfg w) @ []"
    using new_events_trans [OF e4 dp(1)] new_events_trans [OF e3 l(1)] A dp(2) c4 by simp
  note so = startup_order [where dmn="daemon (cfg w)" and pf="pid_file (cfg w)"
      and c="decimal (pid w2) @ [CHR 0x0A]", OF drop_failed(2,3) refl refl]
  obtain body6 body4 where L: "new_events w3 w4 =
       listener_attempt (cfg w) AF_INET6 # body6 @ listener_attempt (cfg w) AF_INET # body4"
    "list_all is_listener_body body6" "list_all is_listener_body body4"
    using create_listeners_Returned_shape [OF drop_failed(9)] c3 by metis
  show ?thesis
  proof (rule that [of "new_events w wS @ ?Dm @ ?P" "new_events w3 w4" "drop_events env (cfg w)" "[]"])
    show "new_events w (snd (event_loop env w)) =
      (new_events w wS @ ?Dm @ ?P) @ new_events w3 w4 @ drop_events env (cfg w) @ []"
      using T drop_failed(11) by simp
    show "new_events w3 w4 = [] \<or>
     (\<exists>body6 L4. new_events w3 w4 = listener_attempt (cfg w) AF_INET6 # body6 @ L4 \<and>
        list_all is_listener_body body6 \<and>
        (L4 = [] \<or> (\<exists>body4. L4 = listener_attempt (cfg w) AF_INET # body4 \<and>
                              list_all is_listener_body body4)))"
      using L by blast
    show "\<exists>body6 body4. new_events w3 w4 = listener_attempt (cfg w) AF_INET6 # body6 @
                          listener_attempt (cfg w) AF_INET # body4 \<and>
         list_all is_listener_body body6 \<and> list_all is_listener_body body4"
      using L by blast
  qed (use so pw2 drop_failed(11) in simp_all)
next
  case (running wS w2 w3 ls w4 w5)
  note d = daemonize_facts [OF running(7)]
  have pw2: "pid w2 = (if daemon (cfg w) then daemon_pid env else pid w)"
    using daemonize_Returned [OF running(7)] running(4,5) by simp
  note p = write_pid_file_facts [OF running(8)]
  note l = create_listeners_facts [OF running(9)]
  note dp = drop_privileges_facts [OF running(10)]
  note f = run_loop_run [where w=w5 and ls=ls]
  let ?Dm = "if daemon (cfg w) then [E_daemon] else []"
  let ?P = "case pid_file (cfg w) of
              Some path \<Rightarrow> [E_write_pid_file path (decimal (pid w2) @ [CHR 0x0A])] | None \<Rightarrow> []"
  have e2: "extends w w2" using running(1) d(1) by (rule extends_trans)
  have e3: "extends w w3" using e2 p(1) by (rule extends_trans)
  have e4: "extends w w4" using e3 l(1) by (rule extends_trans)
  have e5: "extends w w5" using e4 dp(1) by (rule extends_trans)
  have c3: "cfg w3 = cfg w" using d(3) p(3) running(4) by simp
  have c4: "cfg w4 = cfg w" using c3 l(2) by simp
  have A: "new_events w w3 = new_events w wS @ ?Dm @ ?P"
    using new_events_trans [OF e2 p(1)] new_events_trans [OF running(1) d(1)]
      d(2,3) p(2) running(4) by simp
  have T: "new_events w (run_loop ls w5) =
      (new_events w wS @ ?Dm @ ?P) @ new_events w3 w4 @ drop_events env (cfg w) @
      new_events w5 (run_loop ls w5)"
    using new_events_trans [OF e5 f(1)] new_events_trans [OF e4 dp(1)]
      new_events_trans [OF e3 l(1)] A dp(2) c4 by simp
  note so = startup_order [where dmn="daemon (cfg w)" and pf="pid_file (cfg w)"
      and c="decimal (pid w2) @ [CHR 0x0A]", OF running(2,3) refl refl]
  obtain body6 body4 where L: "new_events w3 w4 =
       listener_attempt (cfg w) AF_INET6 # body6 @ listener_attempt (cfg w) AF_INET # body4"
    "list_all is_listener_body body6" "list_all is_listener_body body4"
    using create_listeners_Returned_shape [OF running(9)] c3 by metis
  have r: "fst (drop_privileges env w) = Returned ()"
    using drop_privileges_fst_cfg [OF c4, where env=env] running(10) by simp
  show ?thesis
  proof (rule that [of "new_events w wS @ ?Dm @ ?P" "new_events w3 w4" "drop_events env (cfg w)"
        "new_events w5 (run_loop ls w5)"])
    show "new_events w (snd (event_loop env w)) =
      (new_events w wS @ ?Dm @ ?P) @ new_events w3 w4 @ drop_events env (cfg w) @
      new_events w5 (run_loop ls w5)"
      using T running(11) by simp
    show "new_events w3 w4 = [] \<or>
     (\<exists>body6 L4. new_events w3 w4 = listener_attempt (cfg w) AF_INET6 # body6 @ L4 \<and>
        list_all is_listener_body body6 \<and>
        (L4 = [] \<or> (\<exists>body4. L4 = listener_attempt (cfg w) AF_INET # body4 \<and>
                              list_all is_listener_body body4)))"
      using L by blast
    show "\<exists>body6 body4. new_events w3 w4 = listener_attempt (cfg w) AF_INET6 # body6 @
                          listener_attempt (cfg w) AF_INET # body4 \<and>
         list_all is_listener_body body6 \<and> list_all is_listener_body body4"
      using L by blast
    show "list_all is_final_event (new_events w5 (run_loop ls w5))" by (rule f)
    show "new_events w5 (run_loop ls w5) \<noteq> []" by (rule f)
    show "drop_events env (cfg w) = drop_events env (cfg w) \<and>
          fst (drop_privileges env w) = Returned ()" using r by simp
  qed (use so pw2 in simp_all)
qed

subsection \<open>Classes of actions, and the order of event_loop\<close>

lemma startup_event_class:
  "is_startup_event e \<Longrightarrow>
     \<not> is_listener_event e \<and> \<not> is_privilege_drop e \<and> \<not> is_worker_event e \<and>
     \<not> is_listener_attempt fam e \<and> \<not> is_final_event e \<and> \<not> is_token_bucket_cfg_new e"
  by (cases e) simp_all

lemma listener_body_class:
  "is_listener_body e \<Longrightarrow>
     is_listener_event e \<and> \<not> is_privilege_drop e \<and> \<not> is_worker_event e \<and>
     \<not> is_listener_attempt fam e \<and> e \<noteq> E_daemon \<and> \<not> is_write_pid_file e \<and>
     \<not> is_token_bucket_cfg_new e \<and> is_network e"
  by (cases e) simp_all

lemma listener_attempt_class:
  "is_listener_event (listener_attempt c fam)"
  "\<not> is_privilege_drop (listener_attempt c fam)"
  "\<not> is_worker_event (listener_attempt c fam)"
  "is_listener_attempt fam' (listener_attempt c fam) \<longleftrightarrow> fam' = fam"
  "listener_attempt c fam \<noteq> E_daemon"
  "E_daemon \<noteq> listener_attempt c fam"
  "\<not> is_write_pid_file (listener_attempt c fam)"
  "\<not> is_token_bucket_cfg_new (listener_attempt c fam)"
  "is_network (listener_attempt c fam)"
  by (auto simp: listener_attempt_def listener_hints_def)

lemma privilege_drop_class:
  "is_privilege_drop e \<Longrightarrow>
     \<not> is_listener_event e \<and> \<not> is_worker_event e \<and> \<not> is_listener_attempt fam e \<and>
     e \<noteq> E_daemon \<and> \<not> is_write_pid_file e \<and> \<not> is_token_bucket_cfg_new e \<and> is_lifecycle e"
  by (cases e) simp_all

lemma final_event_class:
  "is_final_event e \<Longrightarrow>
     \<not> is_listener_event e \<and> \<not> is_privilege_drop e \<and> \<not> is_listener_attempt fam e \<and>
     e \<noteq> E_daemon \<and> \<not> is_write_pid_file e \<and> \<not> is_token_bucket_cfg_new e"
  by (cases e) simp_all

lemma worker_event_final: "is_worker_event e \<Longrightarrow> is_final_event e"
  by (cases e) simp_all

lemma drop_events_cases:
  "drop_events env c = [] \<or> drop_events env c = [E_setgid (gid c)] \<or>
   drop_events env c = [E_setgid (gid c), E_setuid (uid c)] \<or>
   drop_events env c = [E_setgid (gid c), E_setuid (uid c), E_setuid 0]"
  by (simp add: drop_events_def)

lemma never_after_segments:
  "\<forall>e\<in>set X. \<not> Q e \<Longrightarrow> \<forall>e\<in>set Y. \<not> P e \<Longrightarrow> never_after P Q (X @ Y)"
  by (simp add: never_after_append never_after_no_Q never_after_no_P)

lemma never_after_then_clean:
  "never_after P Q X \<Longrightarrow> \<forall>e\<in>set Y. \<not> P e \<and> \<not> Q e \<Longrightarrow> never_after P Q (X @ Y)"
  by (simp add: never_after_append never_after_no_Q)

lemma all_before_segments:
  "\<forall>e\<in>set X. \<not> Q e \<Longrightarrow> (\<exists>e\<in>set X. P e) \<or> (\<forall>e\<in>set Y. \<not> Q e) \<Longrightarrow>
     all_before P Q (X @ Y)"
  by (auto simp: all_before_append all_before_no_Q)

lemma all_before_then_clean:
  "all_before P Q X \<Longrightarrow> \<forall>e\<in>set Y. \<not> Q e \<Longrightarrow> all_before P Q (X @ Y)"
  by (simp add: all_before_append all_before_no_Q)

lemma event_loop_order:
  fixes env w
  defines "T \<equiv> new_events w (snd (event_loop env w))"
  shows "never_after (\<lambda>e. e = E_daemon) is_write_pid_file T"
    and "daemon (cfg w) \<Longrightarrow> all_before (\<lambda>e. e = E_daemon) is_write_pid_file T"
    and "\<forall>p c. E_write_pid_file p c \<in> set T \<longrightarrow>
       pid_file (cfg w) = Some p \<and>
       c = decimal (if daemon (cfg w) then daemon_pid env else pid w) @ [CHR 0x0A]"
    and "never_after is_listener_event is_privilege_drop T"
    and "all_before (is_listener_attempt AF_INET6) is_privilege_drop T"
    and "all_before (is_listener_attempt AF_INET) is_privilege_drop T"
    and "never_after is_privilege_drop is_worker_event T"
    and "getuid_res env = 0 \<and> uid (cfg w) \<noteq> 0 \<Longrightarrow>
           all_before (\<lambda>e. e = E_setuid 0) is_worker_event T"
    and "all_before (is_listener_attempt AF_INET6) is_worker_event T"
    and "all_before (is_listener_attempt AF_INET) is_worker_event T"
    and "(\<exists>r. fst (event_loop env w) = Returned r) \<Longrightarrow>
           fst (drop_privileges env w) = Returned ()"
proof -
  obtain A L D W where sh:
    "T = A @ L @ D @ W"
    "list_all is_startup_event A"
    "never_after (\<lambda>e. e = E_daemon) is_write_pid_file A"
    "daemon (cfg w) \<Longrightarrow> all_before (\<lambda>e. e = E_daemon) is_write_pid_file A"
    "\<forall>p c. E_write_pid_file p c \<in> set A \<longrightarrow>
       pid_file (cfg w) = Some p \<and>
       c = decimal (if daemon (cfg w) then daemon_pid env else pid w) @ [CHR 0x0A]"
    "(\<exists>r. fst (event_loop env w) = Returned r) \<Longrightarrow> W \<noteq> []"
    "L = [] \<or>
     (\<exists>body6 L4. L = listener_attempt (cfg w) AF_INET6 # body6 @ L4 \<and>
        list_all is_listener_body body6 \<and>
        (L4 = [] \<or> (\<exists>body4. L4 = listener_attempt (cfg w) AF_INET # body4 \<and>
                              list_all is_listener_body body4)))"
    "D \<noteq> [] \<or> W \<noteq> [] \<Longrightarrow>
       \<exists>body6 body4. L = listener_attempt (cfg w) AF_INET6 # body6 @
                          listener_attempt (cfg w) AF_INET # body4 \<and>
         list_all is_listener_body body6 \<and> list_all is_listener_body body4"
    "D = [] \<or> D = drop_events env (cfg w)"
    "list_all is_final_event W"
    "W \<noteq> [] \<Longrightarrow> D = drop_events env (cfg w) \<and> fst (drop_privileges env w) = Returned ()"
    unfolding T_def by (rule event_loop_shape [of w env]) blast
  have A: "\<forall>e\<in>set A. is_startup_event e" using sh(2) by (simp add: list_all_iff)
  have W: "\<forall>e\<in>set W. is_final_event e" using sh(10) by (simp add: list_all_iff)
  have D: "\<forall>e\<in>set D. is_privilege_drop e"
    using sh(9) drop_events_privilege [of env "cfg w"] by (auto simp: list_all_iff)
  have Lm: "\<forall>e\<in>set L. is_listener_body e \<or> e = listener_attempt (cfg w) AF_INET6 \<or>
      e = listener_attempt (cfg w) AF_INET"
    using sh(7) by (auto simp: list_all_iff)
  have L: "\<forall>e\<in>set L. is_listener_event e \<and> \<not> is_privilege_drop e \<and> \<not> is_worker_event e \<and>
      e \<noteq> E_daemon \<and> \<not> is_write_pid_file e"
  proof
    fix e assume "e \<in> set L"
    with Lm have "is_listener_body e \<or> e = listener_attempt (cfg w) AF_INET6 \<or>
      e = listener_attempt (cfg w) AF_INET" by blast
    then show "is_listener_event e \<and> \<not> is_privilege_drop e \<and> \<not> is_worker_event e \<and>
      e \<noteq> E_daemon \<and> \<not> is_write_pid_file e"
      using listener_body_class [of e] listener_attempt_class by auto
  qed
  have clean_LDW: "\<forall>e\<in>set (L @ D @ W). e \<noteq> E_daemon \<and> \<not> is_write_pid_file e"
    using L D W privilege_drop_class final_event_class by auto
  have nopriv_AL: "\<forall>e\<in>set (A @ L). \<not> is_privilege_drop e"
    using A L startup_event_class by auto
  have nolisten_DW: "\<forall>e\<in>set (D @ W). \<not> is_listener_event e"
    using D W privilege_drop_class final_event_class by auto
  have noworker_ALD: "\<forall>e\<in>set (A @ L @ D). \<not> is_worker_event e"
    using A L D startup_event_class privilege_drop_class by auto
  have nopriv_W: "\<forall>e\<in>set W. \<not> is_privilege_drop e"
    using W final_event_class by auto
  have noworker_DW_empty: "D = [] \<and> W = [] \<Longrightarrow> \<forall>e\<in>set (D @ W). \<not> is_privilege_drop e"
    by simp
  have att: "D \<noteq> [] \<or> W \<noteq> [] \<Longrightarrow>
      (\<exists>e\<in>set (A @ L). is_listener_attempt AF_INET6 e) \<and>
      (\<exists>e\<in>set (A @ L). is_listener_attempt AF_INET e)"
    using sh(8) by (auto simp: listener_attempt_class)
  have T1: "T = A @ (L @ D @ W)" and T2: "T = (A @ L) @ (D @ W)" and T3: "T = (A @ L @ D) @ W"
    using sh(1) by simp_all
  show "(\<exists>r. fst (event_loop env w) = Returned r) \<Longrightarrow>
           fst (drop_privileges env w) = Returned ()"
    using sh(6) sh(11) by blast
  show "never_after (\<lambda>e. e = E_daemon) is_write_pid_file T"
    unfolding T1 using sh(3) clean_LDW by (intro never_after_then_clean) auto
  show "daemon (cfg w) \<Longrightarrow> all_before (\<lambda>e. e = E_daemon) is_write_pid_file T"
    unfolding T1 using sh(4) clean_LDW by (intro all_before_then_clean) auto
  show "\<forall>p c. E_write_pid_file p c \<in> set T \<longrightarrow>
       pid_file (cfg w) = Some p \<and>
       c = decimal (if daemon (cfg w) then daemon_pid env else pid w) @ [CHR 0x0A]"
  proof (intro allI impI)
    fix p c assume "E_write_pid_file p c \<in> set T"
    then have "E_write_pid_file p c \<in> set A \<or> E_write_pid_file p c \<in> set (L @ D @ W)"
      unfolding T1 by auto
    moreover have "E_write_pid_file p c \<notin> set (L @ D @ W)"
      using clean_LDW is_write_pid_file.simps(1) by blast
    ultimately show "pid_file (cfg w) = Some p \<and>
       c = decimal (if daemon (cfg w) then daemon_pid env else pid w) @ [CHR 0x0A]"
      using sh(5) by blast
  qed
  show "never_after is_listener_event is_privilege_drop T"
    unfolding T2 using nopriv_AL nolisten_DW by (rule never_after_segments)
  show "all_before (is_listener_attempt AF_INET6) is_privilege_drop T"
    unfolding T2 using nopriv_AL
  proof (rule all_before_segments)
    show "(\<exists>e\<in>set (A @ L). is_listener_attempt AF_INET6 e) \<or>
          (\<forall>e\<in>set (D @ W). \<not> is_privilege_drop e)"
      using att by (cases "D \<noteq> [] \<or> W \<noteq> []") auto
  qed
  show "all_before (is_listener_attempt AF_INET) is_privilege_drop T"
    unfolding T2 using nopriv_AL
  proof (rule all_before_segments)
    show "(\<exists>e\<in>set (A @ L). is_listener_attempt AF_INET e) \<or>
          (\<forall>e\<in>set (D @ W). \<not> is_privilege_drop e)"
      using att by (cases "D \<noteq> [] \<or> W \<noteq> []") auto
  qed
  show "never_after is_privilege_drop is_worker_event T"
    unfolding T3 using noworker_ALD nopriv_W by (rule never_after_segments)
  show "all_before (is_listener_attempt AF_INET6) is_worker_event T"
    unfolding T3 using noworker_ALD
  proof (rule all_before_segments)
    show "(\<exists>e\<in>set (A @ L @ D). is_listener_attempt AF_INET6 e) \<or>
          (\<forall>e\<in>set W. \<not> is_worker_event e)"
      using att by (cases "W = []") auto
  qed
  show "all_before (is_listener_attempt AF_INET) is_worker_event T"
    unfolding T3 using noworker_ALD
  proof (rule all_before_segments)
    show "(\<exists>e\<in>set (A @ L @ D). is_listener_attempt AF_INET e) \<or>
          (\<forall>e\<in>set W. \<not> is_worker_event e)"
      using att by (cases "W = []") auto
  qed
  show "all_before (\<lambda>e. e = E_setuid 0) is_worker_event T"
    if c: "getuid_res env = 0 \<and> uid (cfg w) \<noteq> 0"
    unfolding T3 using noworker_ALD
  proof (rule all_before_segments)
    show "(\<exists>e\<in>set (A @ L @ D). e = E_setuid 0) \<or> (\<forall>e\<in>set W. \<not> is_worker_event e)"
    proof (cases "W = []")
      case True
      then show ?thesis by simp
    next
      case False
      then have "D = drop_events env (cfg w)" "fst (drop_privileges env w) = Returned ()"
        using sh(11) by simp_all
      then have "E_setuid 0 \<in> set D"
        using c by (auto simp: drop_events_def drop_privileges_result split: if_splits)
      then show ?thesis by auto
    qed
  qed
qed


lemma write_pid_file_result:
  assumes "write_pid_file env w = (r, w')" and "pid_file (cfg w) = Some path"
  shows "(r = Returned () \<and> pid_file_write_ok env path \<and>
          files w' = (files w)(path \<mapsto> decimal (pid w) @ [CHR 0x0A])) \<or>
         (r = Exited EXIT_FAILURE \<and> \<not> pid_file_write_ok env path)"
  using assms by (auto simp: write_pid_file_def save_pid_def Let_def split: if_splits)

lemma daemonize_Exited:
  "daemonize env w = (Exited st, w') \<Longrightarrow> daemon (cfg w) \<and> daemon_res env = -1"
  by (auto simp: daemonize_def split: if_splits)

lemma event_loop_pid_file:
  assumes ok: "event_base_new_ok env" "daemon (cfg w) \<longrightarrow> daemon_res env \<noteq> -1"
    and pf: "pid_file (cfg w) = Some path"
  shows "if pid_file_write_ok env path
         then files (snd (event_loop env w)) =
                (files w)(path \<mapsto> decimal (if daemon (cfg w) then daemon_pid env else pid w) @ [CHR 0x0A])
         else fst (event_loop env w) = Exited EXIT_FAILURE"
proof (cases env w rule: event_loop_cases)
  case base_failed
  then show ?thesis using ok by simp
next
  case (daemon_failed wS st w2)
  then show ?thesis using ok daemonize_Exited [OF daemon_failed(7)] by simp
next
  case (pid_failed wS w2 st w3)
  note d = daemonize_facts [OF pid_failed(7)]
  have "pid_file (cfg w2) = Some path" using pf d(3) pid_failed(4) by simp
  from write_pid_file_result [OF pid_failed(8) this]
  show ?thesis using pid_failed(9) by simp
next
  case (listen_failed wS w2 w3 st w4)
  note d = daemonize_facts [OF listen_failed(7)]
  have pw2: "pid w2 = (if daemon (cfg w) then daemon_pid env else pid w)"
    using daemonize_Returned [OF listen_failed(7)] listen_failed(4,5) by simp
  have "pid_file (cfg w2) = Some path" using pf d(3) listen_failed(4) by simp
  from write_pid_file_result [OF listen_failed(8) this]
  have "pid_file_write_ok env path" "files w3 = (files w2)(path \<mapsto> decimal (pid w2) @ [CHR 0x0A])"
    by simp_all
  moreover have "files w4 = files w3" using create_listeners_facts [OF listen_failed(9)] by simp
  ultimately show ?thesis using listen_failed(10) listen_failed(6) d(4) pw2 by simp
next
  case (drop_failed wS w2 w3 ls w4 st w5)
  note d = daemonize_facts [OF drop_failed(7)]
  have pw2: "pid w2 = (if daemon (cfg w) then daemon_pid env else pid w)"
    using daemonize_Returned [OF drop_failed(7)] drop_failed(4,5) by simp
  have "pid_file (cfg w2) = Some path" using pf d(3) drop_failed(4) by simp
  from write_pid_file_result [OF drop_failed(8) this]
  have "pid_file_write_ok env path" "files w3 = (files w2)(path \<mapsto> decimal (pid w2) @ [CHR 0x0A])"
    by simp_all
  moreover have "files w4 = files w3" using create_listeners_facts [OF drop_failed(9)] by simp
  moreover have "files w5 = files w4" using drop_privileges_facts [OF drop_failed(10)] by simp
  ultimately show ?thesis using drop_failed(11) drop_failed(6) d(4) pw2 by simp
next
  case (running wS w2 w3 ls w4 w5)
  note d = daemonize_facts [OF running(7)]
  have pw2: "pid w2 = (if daemon (cfg w) then daemon_pid env else pid w)"
    using daemonize_Returned [OF running(7)] running(4,5) by simp
  have "pid_file (cfg w2) = Some path" using pf d(3) running(4) by simp
  from write_pid_file_result [OF running(8) this]
  have "pid_file_write_ok env path" "files w3 = (files w2)(path \<mapsto> decimal (pid w2) @ [CHR 0x0A])"
    by simp_all
  moreover have "files w4 = files w3" using create_listeners_facts [OF running(9)] by simp
  moreover have "files w5 = files w4" using drop_privileges_facts [OF running(10)] by simp
  ultimately show ?thesis using running(11) running(6) d(4) pw2 run_loop_run(6) by simp
qed

lemma digit_value_digit_char: "d < 10 \<Longrightarrow> digit_value (digit_char d) = d"
proof -
  assume "d < 10"
  then have "d \<in> {0, 1, 2, 3, 4, 5, 6, 7, 8, 9}" by auto
  then show ?thesis
    by (auto simp: digit_value_def digit_char_def)
qed

lemma decimal_value_snoc: "decimal_value (s @ [c]) = 10 * decimal_value s + digit_value c"
  by (simp add: decimal_value_def)

lemma decimal_value_decimal: "decimal_value (decimal n) = n"
proof (induction n rule: decimal.induct)
  case (1 n)
  show ?case
  proof (cases "n < 10")
    case True
    then show ?thesis
      by (simp add: decimal.simps [of n] decimal_value_def digit_value_digit_char)
  next
    case False
    then have "decimal_value (decimal (n div 10)) = n div 10" using 1 by simp
    with False show ?thesis
      by (simp add: decimal.simps [of n] decimal_value_snoc digit_value_digit_char)
  qed
qed

subsection \<open>The examples, evaluated\<close>

lemma example_env_fields:
  "NGHTTP2_VERSION example_env = ''0.1.0''"
  "NGHTTP2_PROTO_VERSION_ID example_env = ''HTTP-draft-09/2.0''"
  "HAVE_SPDYLAY example_env = False"
  "EV_RATE_LIMIT_MAX example_env = 0x7FFFFFFFFFFFFFFF"
  "isatty_stderr example_env = True"
  "parse_config_res example_env = example_parse_config"
  "create_ssl_context_ok example_env = (\<lambda>k c. True)"
  "cert_lookup_tree_add_res example_env = (\<lambda>ctx c. 0)"
  "inet_pton6_res example_env = (\<lambda>h. 0)"
  "getaddrinfo_res example_env = example_getaddrinfo"
  "getnameinfo_res example_env = (\<lambda>a. 0)"
  "socket_res example_env = (\<lambda>rp. if ai_family rp = AF_INET6 then 6 else 4)"
  "setsockopt_reuseaddr_res example_env = (\<lambda>fd. 0)"
  "setsockopt_v6only_res example_env = (\<lambda>fd. 0)"
  "bind_res example_env = (\<lambda>fd a. 0)"
  "evconnlistener_new_ok example_env = (\<lambda>fd. True)"
  "event_base_new_ok example_env = True"
  "daemon_res example_env = 0"
  "daemon_pid example_env = 4243"
  "pid_file_write_ok example_env = (\<lambda>p. True)"
  "getuid_res example_env = 0"
  "setgid_res example_env = (\<lambda>g. 0)"
  "setuid_res example_env = (\<lambda>u. if u = 0 then -1 else 0)"
  by (simp_all add: example_env_def)

lemma default_config_fields:
  "daemon (fill_default_config env) = False"
  "host (fill_default_config env) = ''0.0.0.0''"
  "port (fill_default_config env) = 3000"
  "private_key_file (fill_default_config env) = None"
  "cert_file (fill_default_config env) = None"
  "upstream_no_tls (fill_default_config env) = False"
  "downstream_no_tls (fill_default_config env) = False"
  "downstream_host (fill_default_config env) = ''127.0.0.1''"
  "downstream_port (fill_default_config env) = 80"
  "downstream_addr (fill_default_config env) = []"
  "downstream_addrlen (fill_default_config env) = 0"
  "num_worker (fill_default_config env) = 1"
  "conf_path (fill_default_config env) = ''/etc/nghttpx/nghttpx.conf''"
  "syslog (fill_default_config env) = False"
  "backlog (fill_default_config env) = 256"
  "http2_proxy (fill_default_config env) = False"
  "http2_bridge (fill_default_config env) = False"
  "client_proxy (fill_default_config env) = False"
  "client (fill_default_config env) = False"
  "client_mode (fill_default_config env) = False"
  "pid_file (fill_default_config env) = None"
  "uid (fill_default_config env) = 0"
  "gid (fill_default_config env) = 0"
  "backend_ipv4 (fill_default_config env) = False"
  "backend_ipv6 (fill_default_config env) = False"
  "cert_tree (fill_default_config env) = None"
  "downstream_http_proxy_host (fill_default_config env) = None"
  "rate_limit_cfg (fill_default_config env) = None"
  "read_rate (fill_default_config env) = 1024 * 1024"
  "read_burst (fill_default_config env) = 4 * 1024 * 1024"
  "write_rate (fill_default_config env) = 0"
  "write_burst (fill_default_config env) = 0"
  "npn_list (fill_default_config env) = None"
  "subcerts (fill_default_config env) = []"
  "default_ssl_ctx (fill_default_config env) = None"
  "downstream_proto (fill_default_config env) = PROTO_SPDY"
  by (simp_all add: fill_default_config_def)

lemma example_world_fields:
  "cfg example_world = fill_default_config example_env"
  "trace example_world = []"
  "pid example_world = 4242"
  "files example_world = Map.empty"
  by (simp_all add: example_world_def)

lemma daemon_world_fields:
  "cfg daemon_world = (fill_default_config example_env)
       \<lparr>daemon := True, pid_file := Some ''/var/run/nghttpx.pid'', uid := 1000, gid := 1000\<rparr>"
  "trace daemon_world = []"
  "pid daemon_world = 4242"
  "files daemon_world = Map.empty"
  by (simp_all add: daemon_world_def example_world_fields)

lemmas run_example_defs =
  event_loop_def event_loop_contexts_def daemonize_def write_pid_file_def save_pid_def
  create_listeners_def create_evlistener_def drop_privileges_def run_loop_def start_workers_def
  evconnlistener_free_def listener_hints_def DIE_def
  example_env_fields default_config_fields example_world_fields
  example_getaddrinfo_def example_addr4_def example_addr6_def Let_def

lemma decimal_examples:
  "decimal 3000 = ''3000''" "decimal 4243 = ''4243''" "decimal 4242 = ''4242''" "decimal 80 = ''80''"
  by (simp_all add: decimal.simps digit_char_def)

lemma daemon_world_run:
  "event_loop example_env daemon_world =
     (Returned 0,
      daemon_world
        \<lparr>trace :=
           [E_event_base_new, E_new_ListenHandler None None, E_daemon,
            E_write_pid_file ''/var/run/nghttpx.pid'' (''4243'' @ [CHR 0x0A]),
            E_getaddrinfo ''0.0.0.0'' ''3000'' (listener_hints AF_INET6),
            E_socket example_addr6, E_setsockopt_reuseaddr 6, E_make_socket_nonblocking 6,
            E_setsockopt_v6only 6, E_bind 6 (ai_addr example_addr6),
            E_getnameinfo (ai_addr example_addr6), E_evconnlistener_new 6 256,
            E_getaddrinfo ''0.0.0.0'' ''3000'' (listener_hints AF_INET),
            E_socket example_addr4, E_setsockopt_reuseaddr 4, E_make_socket_nonblocking 4,
            E_bind 4 (ai_addr example_addr4),
            E_getnameinfo (ai_addr example_addr4), E_evconnlistener_new 4 256,
            E_setgid 1000, E_setuid 1000, E_setuid 0,
            E_create_http2_session, E_event_base_loop,
            E_evconnlistener_free 4, E_evconnlistener_free 6],
         pid := 4243,
         files := [''/var/run/nghttpx.pid'' \<mapsto> ''4243'' @ [CHR 0x0A]]\<rparr>)"
  by (simp add: run_example_defs daemon_world_fields decimal_examples emit_def)

subsection \<open>The privilege drop\<close>

text \<open>
  C1. \<^verbatim>\<open>drop_privileges\<close> calls \<^verbatim>\<open>setgid\<close> if and only if \<^verbatim>\<open>getuid()\<close> is 0 and the
  configured uid is not 0. Its calls are, in this order, \<^verbatim>\<open>setgid(gid)\<close>,
  \<^verbatim>\<open>setuid(uid)\<close>, \<^verbatim>\<open>setuid(0)\<close>, up to the first that fails. When \<^verbatim>\<open>setuid(0)\<close> is
  reached and does not return -1, the process exits with a failure; when the function
  returns after an attempt, all three calls were made and \<^verbatim>\<open>setuid(0)\<close> returned -1.
  In every run of \<^verbatim>\<open>event_loop\<close>: no action of a listener comes after a call of the
  drop, a call of the drop has both listener attempts (IPv6 and IPv4) before it, no call
  of the drop comes after the creation of workers, and when a drop is due the creation
  of workers has \<^verbatim>\<open>setuid(0)\<close> before it; the loop is entered only if \<^verbatim>\<open>setuid(0)\<close>
  failed.
\<close>

theorem privilege_drop_after_listeners:
  "(new_events w (snd (drop_privileges env w)) \<noteq> [] \<longleftrightarrow>
      getuid_res env = 0 \<and> uid (cfg w) \<noteq> 0) \<and>
   new_events w (snd (drop_privileges env w)) =
     take (length (new_events w (snd (drop_privileges env w))))
       [E_setgid (gid (cfg w)), E_setuid (uid (cfg w)), E_setuid 0] \<and>
   (E_setuid 0 \<in> set (new_events w (snd (drop_privileges env w))) \<and> setuid_res env 0 \<noteq> -1 \<longrightarrow>
      fst (drop_privileges env w) = Exited EXIT_FAILURE) \<and>
   (fst (drop_privileges env w) = Returned () \<and> getuid_res env = 0 \<and> uid (cfg w) \<noteq> 0 \<longrightarrow>
      new_events w (snd (drop_privileges env w)) =
        [E_setgid (gid (cfg w)), E_setuid (uid (cfg w)), E_setuid 0] \<and>
      setuid_res env 0 = -1) \<and>
   never_after is_listener_event is_privilege_drop (new_events w (snd (event_loop env w))) \<and>
   all_before (is_listener_attempt AF_INET6) is_privilege_drop
     (new_events w (snd (event_loop env w))) \<and>
   all_before (is_listener_attempt AF_INET) is_privilege_drop
     (new_events w (snd (event_loop env w))) \<and>
   never_after is_privilege_drop is_worker_event (new_events w (snd (event_loop env w))) \<and>
   (getuid_res env = 0 \<and> uid (cfg w) \<noteq> 0 \<longrightarrow>
      all_before (\<lambda>e. e = E_setuid 0) is_worker_event (new_events w (snd (event_loop env w)))) \<and>
   ((\<exists>r. fst (event_loop env w) = Returned r) \<and> getuid_res env = 0 \<and> uid (cfg w) \<noteq> 0 \<longrightarrow>
      setuid_res env 0 = -1)"
proof -
  have 1: "new_events w (snd (drop_privileges env w)) \<noteq> [] \<longleftrightarrow>
      getuid_res env = 0 \<and> uid (cfg w) \<noteq> 0"
    by (simp add: drop_privileges_events)
  have 2: "new_events w (snd (drop_privileges env w)) =
     take (length (new_events w (snd (drop_privileges env w))))
       [E_setgid (gid (cfg w)), E_setuid (uid (cfg w)), E_setuid 0]"
    by (simp add: drop_privileges_events)
  have 3: "E_setuid 0 \<in> set (new_events w (snd (drop_privileges env w))) \<and> setuid_res env 0 \<noteq> -1 \<longrightarrow>
      fst (drop_privileges env w) = Exited EXIT_FAILURE"
    by (simp add: drop_privileges_events drop_privileges_result)
  have 4: "fst (drop_privileges env w) = Returned () \<and> getuid_res env = 0 \<and> uid (cfg w) \<noteq> 0 \<longrightarrow>
      new_events w (snd (drop_privileges env w)) =
        [E_setgid (gid (cfg w)), E_setuid (uid (cfg w)), E_setuid 0] \<and>
      setuid_res env 0 = -1"
    by (auto simp: drop_privileges_events drop_privileges_result split: if_splits)
  have 5: "(\<exists>r. fst (event_loop env w) = Returned r) \<and> getuid_res env = 0 \<and> uid (cfg w) \<noteq> 0 \<longrightarrow>
      setuid_res env 0 = -1"
    using event_loop_order(11) [where env=env and w=w] 4 by blast
  have 6: "getuid_res env = 0 \<and> uid (cfg w) \<noteq> 0 \<longrightarrow>
      all_before (\<lambda>e. e = E_setuid 0) is_worker_event (new_events w (snd (event_loop env w)))"
    using event_loop_order(8) [where env=env and w=w] by (rule impI)
  show ?thesis
    using 1 2 3 4 5 6 event_loop_order(4-7) [where env=env and w=w]
    by (intro conjI) assumption+
qed

theorem privilege_drop_after_listeners_witness:
  "getuid_res example_env = 0 \<and> uid (cfg daemon_world) \<noteq> 0 \<and>
   fst (event_loop example_env daemon_world) = Returned 0 \<and>
   setuid_res example_env 0 = -1 \<and>
   new_events daemon_world (snd (drop_privileges example_env daemon_world)) =
     [E_setgid 1000, E_setuid 1000, E_setuid 0] \<and>
   all_before (\<lambda>e. e = E_setuid 0) is_worker_event
     (new_events daemon_world (snd (event_loop example_env daemon_world))) \<and>
   E_create_http2_session \<in> set (new_events daemon_world (snd (event_loop example_env daemon_world)))"
proof -
  have a: "getuid_res example_env = 0 \<and> uid (cfg daemon_world) \<noteq> 0"
    by (simp add: example_env_fields daemon_world_fields)
  have b: "fst (event_loop example_env daemon_world) = Returned 0"
    by (simp add: daemon_world_run)
  have c: "new_events daemon_world (snd (drop_privileges example_env daemon_world)) =
     [E_setgid 1000, E_setuid 1000, E_setuid 0]"
    by (simp add: drop_privileges_events example_env_fields daemon_world_fields)
  have d: "E_create_http2_session \<in>
      set (new_events daemon_world (snd (event_loop example_env daemon_world)))"
    by (simp add: daemon_world_run new_events_def daemon_world_fields)
  show ?thesis
    using privilege_drop_after_listeners [where w=daemon_world and env=example_env] a b c d by simp
qed

subsection \<open>The daemon and the PID file\<close>

text \<open>
  C4. In every run of \<^verbatim>\<open>event_loop\<close>, \<^verbatim>\<open>daemon\<close> is never called after the PID file
  is written, and when daemonization is requested the writing has the call of
  \<^verbatim>\<open>daemon\<close> before it. What is written to the configured path is the decimal text of
  the process id after \<^verbatim>\<open>daemon\<close> (the child's id when daemonization is requested),
  followed by one newline. When the steps before succeed, a good write leaves exactly
  that content in the file, and a failed write ends the process with a failure. The
  decimal text reads back as the process id.
\<close>

theorem pid_file_written_after_daemon:
  "never_after (\<lambda>e. e = E_daemon) is_write_pid_file (new_events w (snd (event_loop env w))) \<and>
   (daemon (cfg w) \<longrightarrow>
      all_before (\<lambda>e. e = E_daemon) is_write_pid_file (new_events w (snd (event_loop env w)))) \<and>
   (\<forall>path c. E_write_pid_file path c \<in> set (new_events w (snd (event_loop env w))) \<longrightarrow>
      pid_file (cfg w) = Some path \<and>
      c = decimal (if daemon (cfg w) then daemon_pid env else pid w) @ [CHR 0x0A]) \<and>
   (\<forall>path. event_base_new_ok env \<and> (daemon (cfg w) \<longrightarrow> daemon_res env \<noteq> -1) \<and>
        pid_file (cfg w) = Some path \<longrightarrow>
      (if pid_file_write_ok env path
       then files (snd (event_loop env w)) path =
              Some (decimal (if daemon (cfg w) then daemon_pid env else pid w) @ [CHR 0x0A])
       else fst (event_loop env w) = Exited EXIT_FAILURE)) \<and>
   decimal_value (decimal (if daemon (cfg w) then daemon_pid env else pid w)) =
     (if daemon (cfg w) then daemon_pid env else pid w)"
proof -
  have "\<forall>path. event_base_new_ok env \<and> (daemon (cfg w) \<longrightarrow> daemon_res env \<noteq> -1) \<and>
        pid_file (cfg w) = Some path \<longrightarrow>
      (if pid_file_write_ok env path
       then files (snd (event_loop env w)) path =
              Some (decimal (if daemon (cfg w) then daemon_pid env else pid w) @ [CHR 0x0A])
       else fst (event_loop env w) = Exited EXIT_FAILURE)"
  proof (intro allI impI)
    fix path
    assume a: "event_base_new_ok env \<and> (daemon (cfg w) \<longrightarrow> daemon_res env \<noteq> -1) \<and>
        pid_file (cfg w) = Some path"
    from a have "if pid_file_write_ok env path
         then files (snd (event_loop env w)) =
                (files w)(path \<mapsto> decimal (if daemon (cfg w) then daemon_pid env else pid w) @ [CHR 0x0A])
         else fst (event_loop env w) = Exited EXIT_FAILURE"
      by (intro event_loop_pid_file) simp_all
    then show "if pid_file_write_ok env path
       then files (snd (event_loop env w)) path =
              Some (decimal (if daemon (cfg w) then daemon_pid env else pid w) @ [CHR 0x0A])
       else fst (event_loop env w) = Exited EXIT_FAILURE"
      by (simp split: if_splits)
  qed
  moreover have "daemon (cfg w) \<longrightarrow>
      all_before (\<lambda>e. e = E_daemon) is_write_pid_file (new_events w (snd (event_loop env w)))"
    using event_loop_order(2) [where env=env and w=w] by (rule impI)
  moreover note event_loop_order(1,3) [where env=env and w=w]
    decimal_value_decimal [of "if daemon (cfg w) then daemon_pid env else pid w"]
  ultimately show ?thesis
    by (intro conjI) assumption+
qed

theorem pid_file_written_after_daemon_witness:
  "daemon (cfg daemon_world) \<and> event_base_new_ok example_env \<and> daemon_res example_env \<noteq> -1 \<and>
   pid_file (cfg daemon_world) = Some ''/var/run/nghttpx.pid'' \<and>
   pid_file_write_ok example_env ''/var/run/nghttpx.pid'' \<and>
   pid daemon_world = 4242 \<and> daemon_pid example_env = 4243 \<and>
   files (snd (event_loop example_env daemon_world)) ''/var/run/nghttpx.pid'' =
     Some (''4243'' @ [CHR 0x0A]) \<and>
   all_before (\<lambda>e. e = E_daemon) is_write_pid_file
     (new_events daemon_world (snd (event_loop example_env daemon_world)))"
proof -
  have a: "daemon (cfg daemon_world) \<and> event_base_new_ok example_env \<and>
      daemon_res example_env \<noteq> -1 \<and>
      pid_file (cfg daemon_world) = Some ''/var/run/nghttpx.pid'' \<and>
      pid_file_write_ok example_env ''/var/run/nghttpx.pid'' \<and>
      pid daemon_world = 4242 \<and> daemon_pid example_env = 4243"
    by (simp add: example_env_fields daemon_world_fields)
  have b: "decimal 4243 = ''4243''" by (rule decimal_examples)
  show ?thesis
    using pid_file_written_after_daemon [where w=daemon_world and env=example_env] a b by simp
qed

subsection \<open>The two listeners\<close>







lemma example_bindable:
  "bindable example_env fam example_addr6" "bindable example_env fam example_addr4"
  by (simp_all add: bindable_def example_env_fields)

lemma example_listener_results:
  "fst (create_evlistener example_env AF_INET6 example_world) = Returned (Some (Evconnlistener 6))"
  "fst (create_evlistener example_env AF_INET example_world) = Returned (Some (Evconnlistener 4))"
  by (simp_all add: create_evlistener_result example_env_fields example_getaddrinfo_def
      listener_hints_def example_bindable)
     (simp_all add: example_addr6_def example_addr4_def)

subsection \<open>The TLS contexts\<close>

lemma create_ssl_context_cases:
  obtains (ok) "create_ssl_context_ok env k c"
      "create_ssl_context env k c w = (Returned (Server_ctx k c), emit (E_create_ssl_context k c) w)"
  | (failed) "\<not> create_ssl_context_ok env k c"
      "create_ssl_context env k c w = (Exited EXIT_FAILURE, emit (E_create_ssl_context k c) w)"
  by (cases "create_ssl_context_ok env k c") (simp_all add: create_ssl_context_def)

lemma add_cert_cases:
  obtains (inserted) "cert_lookup_tree_add_res env ctx c \<noteq> -1"
      "cert_lookup_tree_add_cert_from_file env ctx c w =
         (cert_lookup_tree_add_res env ctx c,
          (emit (E_cert_lookup_tree_add ctx c) w)
            \<lparr>cfg := (cfg w)\<lparr>cert_tree := map_option (\<lambda>t. t @ [(ctx, c)]) (cert_tree (cfg w))\<rparr>\<rparr>)"
  | (failed) "cert_lookup_tree_add_res env ctx c = -1"
      "cert_lookup_tree_add_cert_from_file env ctx c w = (-1, emit (E_cert_lookup_tree_add ctx c) w)"
  by (cases "cert_lookup_tree_add_res env ctx c = -1")
     (simp_all add: cert_lookup_tree_add_cert_from_file_def)

lemma add_subcerts_from:
  assumes "extends w0 w" and "list_all is_tls_setup (new_events w0 w)"
  shows "extends w0 (snd (add_subcerts env kcs w)) \<and>
         list_all is_tls_setup (new_events w0 (snd (add_subcerts env kcs w)))"
  using assms
proof (induction kcs arbitrary: w)
  case Nil
  then show ?case by simp
next
  case (Cons kc kcs)
  show ?case
  proof (cases env "fst kc" "snd kc" w rule: create_ssl_context_cases)
    case failed
    then show ?thesis using Cons.prems by simp
  next
    case ok
    let ?w1 = "emit (E_create_ssl_context (fst kc) (snd kc)) w"
    show ?thesis
    proof (cases env "Server_ctx (fst kc) (snd kc)" "snd kc" ?w1 rule: add_cert_cases)
      case failed
      then show ?thesis using ok Cons.prems by simp
    next
      case inserted
      let ?w2 = "(emit (E_cert_lookup_tree_add (Server_ctx (fst kc) (snd kc)) (snd kc)) ?w1)
        \<lparr>cfg := (cfg ?w1)\<lparr>cert_tree := map_option (\<lambda>t. t @ [(Server_ctx (fst kc) (snd kc), snd kc)])
             (cert_tree (cfg ?w1))\<rparr>\<rparr>"
      have e: "extends w0 ?w2" "list_all is_tls_setup (new_events w0 ?w2)"
        using Cons.prems by simp_all
      have step: "add_subcerts env (kc # kcs) w = add_subcerts env kcs ?w2"
        using ok inserted by simp
      show ?thesis unfolding step by (rule Cons.IH [OF e])
    qed
  qed
qed

text \<open>
  The loop changes nothing but \<^verbatim>\<open>cert_tree\<close>: whatever does not read that field keeps
  its value.
\<close>

lemma add_subcerts_keeps:
  assumes "\<And>c t. f (c\<lparr>cert_tree := t\<rparr>) = f c"
  shows "f (cfg (snd (add_subcerts env kcs w))) = f (cfg w) \<and>
         pid (snd (add_subcerts env kcs w)) = pid w \<and>
         files (snd (add_subcerts env kcs w)) = files w"
proof (induction kcs arbitrary: w)
  case Nil
  then show ?case by simp
next
  case (Cons kc kcs)
  show ?case
  proof (cases env "fst kc" "snd kc" w rule: create_ssl_context_cases)
    case failed
    then show ?thesis by simp
  next
    case ok
    let ?w1 = "emit (E_create_ssl_context (fst kc) (snd kc)) w"
    show ?thesis
    proof (cases env "Server_ctx (fst kc) (snd kc)" "snd kc" ?w1 rule: add_cert_cases)
      case failed
      then show ?thesis using ok by simp
    next
      case inserted
      let ?w2 = "(emit (E_cert_lookup_tree_add (Server_ctx (fst kc) (snd kc)) (snd kc)) ?w1)
        \<lparr>cfg := (cfg ?w1)\<lparr>cert_tree := map_option (\<lambda>t. t @ [(Server_ctx (fst kc) (snd kc), snd kc)])
             (cert_tree (cfg ?w1))\<rparr>\<rparr>"
      have step: "add_subcerts env (kc # kcs) w = add_subcerts env kcs ?w2"
        using ok inserted by simp
      show ?thesis unfolding step using Cons.IH [of ?w2] by (simp add: assms)
    qed
  qed
qed

lemma add_subcerts_Returned:
  "add_subcerts env kcs w = (Returned u, w') \<Longrightarrow>
     cert_tree (cfg w') = map_option (\<lambda>t. t @ map subcert_entry kcs) (cert_tree (cfg w)) \<and>
     (\<forall>kc\<in>set kcs. create_ssl_context_ok env (fst kc) (snd kc) \<and>
        cert_lookup_tree_add_res env (Server_ctx (fst kc) (snd kc)) (snd kc) \<noteq> -1)"
proof (induction kcs arbitrary: w)
  case Nil
  then show ?case by (simp add: option.map_ident)
next
  case (Cons kc kcs)
  show ?case
  proof (cases env "fst kc" "snd kc" w rule: create_ssl_context_cases)
    case failed
    then show ?thesis using Cons.prems by simp
  next
    case ok
    let ?w1 = "emit (E_create_ssl_context (fst kc) (snd kc)) w"
    show ?thesis
    proof (cases env "Server_ctx (fst kc) (snd kc)" "snd kc" ?w1 rule: add_cert_cases)
      case failed
      then show ?thesis using ok Cons.prems by simp
    next
      case inserted
      let ?w2 = "(emit (E_cert_lookup_tree_add (Server_ctx (fst kc) (snd kc)) (snd kc)) ?w1)
        \<lparr>cfg := (cfg ?w1)\<lparr>cert_tree := map_option (\<lambda>t. t @ [(Server_ctx (fst kc) (snd kc), snd kc)])
             (cert_tree (cfg ?w1))\<rparr>\<rparr>"
      have step: "add_subcerts env kcs ?w2 = (Returned u, w')"
        using ok inserted Cons.prems by simp
      from Cons.IH [OF step] show ?thesis
        using ok(1) inserted(1)
        by (cases "cert_tree (cfg w)") (simp_all add: subcert_entry_def)
    qed
  qed
qed

lemma add_subcerts_Exited:
  "add_subcerts env kcs w = (Exited st, w') \<Longrightarrow> st = EXIT_FAILURE"
proof (induction kcs arbitrary: w)
  case Nil
  then show ?case by simp
next
  case (Cons kc kcs)
  show ?case
  proof (cases env "fst kc" "snd kc" w rule: create_ssl_context_cases)
    case failed
    then show ?thesis using Cons.prems by simp
  next
    case ok
    let ?w1 = "emit (E_create_ssl_context (fst kc) (snd kc)) w"
    show ?thesis
    proof (cases env "Server_ctx (fst kc) (snd kc)" "snd kc" ?w1 rule: add_cert_cases)
      case failed
      then show ?thesis using ok Cons.prems by simp
    next
      case inserted
      then show ?thesis using ok Cons.prems Cons.IH by simp
    qed
  qed
qed

lemma add_subcerts_tree_exists:
  "cert_tree (cfg w) \<noteq> None \<Longrightarrow> cert_tree (cfg (snd (add_subcerts env kcs w))) \<noteq> None"
proof (induction kcs arbitrary: w)
  case Nil
  then show ?case by simp
next
  case (Cons kc kcs)
  show ?case
  proof (cases env "fst kc" "snd kc" w rule: create_ssl_context_cases)
    case failed
    then show ?thesis using Cons.prems by simp
  next
    case ok
    let ?w1 = "emit (E_create_ssl_context (fst kc) (snd kc)) w"
    show ?thesis
    proof (cases env "Server_ctx (fst kc) (snd kc)" "snd kc" ?w1 rule: add_cert_cases)
      case failed
      then show ?thesis using ok Cons.prems by simp
    next
      case inserted
      then show ?thesis using ok Cons.prems Cons.IH by simp
    qed
  qed
qed

lemma add_default_cert_cases:
  obtains
    (absent) "primary_entries (cfg w) = []" "add_default_cert env w = (Returned (), w)"
  | (build_failed) cert private_key where
      "cert_file (cfg w) = Some cert" "private_key_file (cfg w) = Some private_key"
      "add_default_cert env w = (Exited EXIT_FAILURE, emit (E_create_ssl_context private_key cert) w)"
  | (no_tree) cert private_key where
      "cert_file (cfg w) = Some cert" "private_key_file (cfg w) = Some private_key"
      "cert_tree (cfg w) = None"
      "add_default_cert env w =
         (Returned (),
          (emit (E_create_ssl_context private_key cert) w)
            \<lparr>cfg := (cfg w)\<lparr>default_ssl_ctx := Some (Server_ctx private_key cert)\<rparr>\<rparr>)"
  | (insert_failed) cert private_key where
      "cert_file (cfg w) = Some cert" "private_key_file (cfg w) = Some private_key"
      "cert_tree (cfg w) \<noteq> None"
      "cert_lookup_tree_add_res env (Server_ctx private_key cert) cert = -1"
      "add_default_cert env w =
         (Exited EXIT_FAILURE,
          emit (E_cert_lookup_tree_add (Server_ctx private_key cert) cert)
            ((emit (E_create_ssl_context private_key cert) w)
               \<lparr>cfg := (cfg w)\<lparr>default_ssl_ctx := Some (Server_ctx private_key cert)\<rparr>\<rparr>))"
  | (inserted) cert private_key where
      "cert_file (cfg w) = Some cert" "private_key_file (cfg w) = Some private_key"
      "cert_tree (cfg w) \<noteq> None"
      "cert_lookup_tree_add_res env (Server_ctx private_key cert) cert \<noteq> -1"
      "add_default_cert env w =
         (Returned (),
          (emit (E_cert_lookup_tree_add (Server_ctx private_key cert) cert)
             (emit (E_create_ssl_context private_key cert) w))
            \<lparr>cfg := (cfg w)\<lparr>default_ssl_ctx := Some (Server_ctx private_key cert),
                 cert_tree := map_option (\<lambda>t. t @ [(Server_ctx private_key cert, cert)])
                                (cert_tree (cfg w))\<rparr>\<rparr>)"
proof (cases "cert_file (cfg w)")
  case None
  then show ?thesis using absent by (simp add: add_default_cert_def primary_entries_def)
next
  case (Some cert)
  note c = Some
  show ?thesis
  proof (cases "private_key_file (cfg w)")
    case None
    then show ?thesis using absent c by (simp add: add_default_cert_def primary_entries_def)
  next
    case (Some private_key)
    note k = Some
    show ?thesis
    proof (cases "create_ssl_context_ok env private_key cert")
      case False
      then show ?thesis using build_failed [OF c k]
        by (simp add: add_default_cert_def c k create_ssl_context_def)
    next
      case True
      note ok = True
      show ?thesis
      proof (cases "cert_tree (cfg w) = None")
        case True
        then show ?thesis using no_tree [OF c k True]
          by (simp add: add_default_cert_def c k create_ssl_context_def ok Let_def)
      next
        case False
        note tree = False
        show ?thesis
        proof (cases "cert_lookup_tree_add_res env (Server_ctx private_key cert) cert = -1")
          case True
          then show ?thesis using insert_failed [OF c k tree True] tree
            by (simp add: add_default_cert_def c k create_ssl_context_def ok Let_def
                cert_lookup_tree_add_cert_from_file_def)
        next
          case False
          then show ?thesis using inserted [OF c k tree False] tree
            by (simp add: add_default_cert_def c k create_ssl_context_def ok Let_def
                cert_lookup_tree_add_cert_from_file_def)
        qed
      qed
    qed
  qed
qed

lemma add_default_cert_from:
  assumes "extends w0 w" and "list_all is_tls_setup (new_events w0 w)"
  shows "extends w0 (snd (add_default_cert env w)) \<and>
         list_all is_tls_setup (new_events w0 (snd (add_default_cert env w)))"
  by (cases rule: add_default_cert_cases [where w=w and env=env]) (simp_all add: assms)

lemma add_default_cert_keeps:
  assumes "\<And>c t. f (c\<lparr>cert_tree := t\<rparr>) = f c" and "\<And>c d. f (c\<lparr>default_ssl_ctx := d\<rparr>) = f c"
  shows "f (cfg (snd (add_default_cert env w))) = f (cfg w) \<and>
         pid (snd (add_default_cert env w)) = pid w \<and>
         files (snd (add_default_cert env w)) = files w"
  by (cases rule: add_default_cert_cases [where w=w and env=env]) (simp_all add: assms)

lemma add_default_cert_Exited:
  "add_default_cert env w = (Exited st, w') \<Longrightarrow> st = EXIT_FAILURE"
  by (cases rule: add_default_cert_cases [where w=w and env=env]) simp_all

lemma add_default_cert_tree_exists:
  "(cert_tree (cfg (snd (add_default_cert env w))) = None) = (cert_tree (cfg w) = None)"
  by (cases rule: add_default_cert_cases [where w=w and env=env]) auto

lemma add_default_cert_Returned:
  assumes "add_default_cert env w = (Returned u, w')"
  shows "cert_tree (cfg w') = map_option (\<lambda>t. t @ primary_entries (cfg w)) (cert_tree (cfg w))"
    and "default_ssl_ctx (cfg w') =
           (case primary_entries (cfg w) of [] \<Rightarrow> default_ssl_ctx (cfg w) | e # es \<Rightarrow> Some (fst e))"
    and "cert_tree (cfg w) \<noteq> None \<Longrightarrow>
           \<forall>e\<in>set (primary_entries (cfg w)). cert_lookup_tree_add_res env (fst e) (snd e) \<noteq> -1"
proof -
  have "cert_tree (cfg w') = map_option (\<lambda>t. t @ primary_entries (cfg w)) (cert_tree (cfg w)) \<and>
        default_ssl_ctx (cfg w') =
           (case primary_entries (cfg w) of [] \<Rightarrow> default_ssl_ctx (cfg w) | e # es \<Rightarrow> Some (fst e)) \<and>
        (cert_tree (cfg w) \<noteq> None \<longrightarrow>
           (\<forall>e\<in>set (primary_entries (cfg w)). cert_lookup_tree_add_res env (fst e) (snd e) \<noteq> -1))"
  proof (cases rule: add_default_cert_cases [where w=w and env=env])
    case absent
    then show ?thesis using assms by (auto simp: option.map_ident)
  next
    case (build_failed cert private_key)
    then show ?thesis using assms by simp
  next
    case (no_tree cert private_key)
    then show ?thesis using assms by (auto simp: primary_entries_def)
  next
    case (insert_failed cert private_key)
    then show ?thesis using assms by simp
  next
    case (inserted cert private_key)
    then show ?thesis using assms by (auto simp: primary_entries_def)
  qed
  then show "cert_tree (cfg w') = map_option (\<lambda>t. t @ primary_entries (cfg w)) (cert_tree (cfg w))"
    and "default_ssl_ctx (cfg w') =
           (case primary_entries (cfg w) of [] \<Rightarrow> default_ssl_ctx (cfg w) | e # es \<Rightarrow> Some (fst e))"
    and "cert_tree (cfg w) \<noteq> None \<Longrightarrow>
           \<forall>e\<in>set (primary_entries (cfg w)). cert_lookup_tree_add_res env (fst e) (snd e) \<noteq> -1"
    by simp_all
qed

lemma cert_lookup_tree_new_run:
  "extends w (cert_lookup_tree_new w)"
  "new_events w (cert_lookup_tree_new w) = [E_cert_lookup_tree_new]"
  "cfg (cert_lookup_tree_new w) = (cfg w)\<lparr>cert_tree := Some []\<rparr>"
  "pid (cert_lookup_tree_new w) = pid w" "files (cert_lookup_tree_new w) = files w"
  by (simp_all add: cert_lookup_tree_new_def)

lemma new_cert_tree_run:
  "extends w (new_cert_tree w)"
  "list_all is_tls_setup (new_events w (new_cert_tree w))"
  "cfg (new_cert_tree w) = (if subcerts (cfg w) \<noteq> [] then (cfg w)\<lparr>cert_tree := Some []\<rparr> else cfg w)"
  "pid (new_cert_tree w) = pid w" "files (new_cert_tree w) = files w"
  by (simp_all add: new_cert_tree_def cert_lookup_tree_new_run)

lemma setup_tls_contexts_cases:
  obtains
    (subcert_failed) st w1 where
      "add_subcerts env (subcerts (cfg w)) (new_cert_tree w) = (Exited st, w1)"
      "setup_tls_contexts env w = (Exited st, w1)"
  | (subcerts_added) w1 where
      "add_subcerts env (subcerts (cfg w)) (new_cert_tree w) = (Returned (), w1)"
      "setup_tls_contexts env w = add_default_cert env w1"
proof -
  obtain r w1 where a: "add_subcerts env (subcerts (cfg w)) (new_cert_tree w) = (r, w1)"
    by (cases "add_subcerts env (subcerts (cfg w)) (new_cert_tree w)") blast
  show ?thesis
  proof (cases r)
    case (Exited st)
    then show ?thesis using subcert_failed a by (simp add: setup_tls_contexts_def)
  next
    case (Returned u)
    then show ?thesis using subcerts_added a by (simp add: setup_tls_contexts_def)
  qed
qed

lemma setup_tls_contexts_run:
  "extends w (snd (setup_tls_contexts env w))"
  "list_all is_tls_setup (new_events w (snd (setup_tls_contexts env w)))"
proof -
  have s: "extends w (snd (add_subcerts env (subcerts (cfg w)) (new_cert_tree w))) \<and>
      list_all is_tls_setup (new_events w (snd (add_subcerts env (subcerts (cfg w)) (new_cert_tree w))))"
    by (rule add_subcerts_from) (simp_all add: new_cert_tree_run)
  have "extends w (snd (setup_tls_contexts env w)) \<and>
        list_all is_tls_setup (new_events w (snd (setup_tls_contexts env w)))"
  proof (cases rule: setup_tls_contexts_cases [where env=env and w=w])
    case (subcert_failed st w1)
    then show ?thesis using s by simp
  next
    case (subcerts_added w1)
    have "extends w w1" "list_all is_tls_setup (new_events w w1)"
      using s subcerts_added(1) by simp_all
    then show ?thesis unfolding subcerts_added(2) by (rule add_default_cert_from)
  qed
  then show "extends w (snd (setup_tls_contexts env w))"
    "list_all is_tls_setup (new_events w (snd (setup_tls_contexts env w)))" by simp_all
qed

lemma setup_tls_contexts_keeps:
  assumes f: "\<And>c t. f (c\<lparr>cert_tree := t\<rparr>) = f c" "\<And>c d. f (c\<lparr>default_ssl_ctx := d\<rparr>) = f c"
  shows "f (cfg (snd (setup_tls_contexts env w))) = f (cfg w)"
    and "pid (snd (setup_tls_contexts env w)) = pid w"
    and "files (snd (setup_tls_contexts env w)) = files w"
proof -
  have s0: "f (cfg (new_cert_tree w)) = f (cfg w)" by (simp add: new_cert_tree_run f)
  note s = add_subcerts_keeps [where f=f and env=env and kcs="subcerts (cfg w)" and w="new_cert_tree w", OF f(1)]
  have "f (cfg (snd (setup_tls_contexts env w))) = f (cfg w) \<and>
        pid (snd (setup_tls_contexts env w)) = pid w \<and>
        files (snd (setup_tls_contexts env w)) = files w"
  proof (cases rule: setup_tls_contexts_cases [where env=env and w=w])
    case (subcert_failed st w1)
    then show ?thesis using s s0 by (simp add: new_cert_tree_run)
  next
    case (subcerts_added w1)
    have "f (cfg w1) = f (cfg w)" "pid w1 = pid w" "files w1 = files w"
      using s s0 subcerts_added(1) by (simp_all add: new_cert_tree_run)
    then show ?thesis unfolding subcerts_added(2)
      using add_default_cert_keeps [where f=f and env=env and w=w1, OF f] by simp
  qed
  then show "f (cfg (snd (setup_tls_contexts env w))) = f (cfg w)"
    and "pid (snd (setup_tls_contexts env w)) = pid w"
    and "files (snd (setup_tls_contexts env w)) = files w" by simp_all
qed

lemma setup_tls_contexts_Exited:
  "setup_tls_contexts env w = (Exited st, w') \<Longrightarrow> st = EXIT_FAILURE"
proof (cases rule: setup_tls_contexts_cases [where env=env and w=w])
  case (subcert_failed st1 w1)
  assume "setup_tls_contexts env w = (Exited st, w')"
  then show ?thesis using subcert_failed add_subcerts_Exited by fastforce
next
  case (subcerts_added w1)
  assume "setup_tls_contexts env w = (Exited st, w')"
  then show ?thesis using subcerts_added add_default_cert_Exited by metis
qed

lemma setup_tls_contexts_tree_exists:
  assumes "cert_tree (cfg w) = None"
  shows "(cert_tree (cfg (snd (setup_tls_contexts env w))) \<noteq> None) = (subcerts (cfg w) \<noteq> [])"
proof -
  have k: "cert_tree (cfg (snd (add_subcerts env [] (new_cert_tree w)))) = cert_tree (cfg (new_cert_tree w))"
    by simp
  have t: "(cert_tree (cfg (snd (add_subcerts env (subcerts (cfg w)) (new_cert_tree w)))) \<noteq> None) =
      (subcerts (cfg w) \<noteq> [])"
  proof (cases "subcerts (cfg w) = []")
    case True
    then show ?thesis using assms by (simp add: new_cert_tree_run)
  next
    case False
    then have "cert_tree (cfg (new_cert_tree w)) \<noteq> None" by (simp add: new_cert_tree_run)
    then show ?thesis using False add_subcerts_tree_exists by simp
  qed
  show ?thesis
  proof (cases rule: setup_tls_contexts_cases [where env=env and w=w])
    case (subcert_failed st w1)
    then show ?thesis using t by simp
  next
    case (subcerts_added w1)
    then show ?thesis using t add_default_cert_tree_exists [of env w1] by simp
  qed
qed

lemma primary_entries_keeps:
  "primary_entries (c\<lparr>cert_tree := t\<rparr>) = primary_entries c"
  "primary_entries (c\<lparr>default_ssl_ctx := d\<rparr>) = primary_entries c"
  by (simp_all add: primary_entries_def)

lemma setup_tls_contexts_Returned:
  assumes none: "cert_tree (cfg w) = None" and r: "setup_tls_contexts env w = (Returned u, w')"
  shows "cert_tree (cfg w') =
           (if subcerts (cfg w) = [] then None
            else Some (map subcert_entry (subcerts (cfg w)) @ primary_entries (cfg w)))"
    and "default_ssl_ctx (cfg w') =
           (case primary_entries (cfg w) of [] \<Rightarrow> default_ssl_ctx (cfg w) | e # es \<Rightarrow> Some (fst e))"
    and "\<forall>e\<in>set (map subcert_entry (subcerts (cfg w)) @
                  (if subcerts (cfg w) = [] then [] else primary_entries (cfg w))).
           cert_lookup_tree_add_res env (fst e) (snd e) \<noteq> -1"
proof -
  have "cert_tree (cfg w') =
           (if subcerts (cfg w) = [] then None
            else Some (map subcert_entry (subcerts (cfg w)) @ primary_entries (cfg w))) \<and>
        default_ssl_ctx (cfg w') =
           (case primary_entries (cfg w) of [] \<Rightarrow> default_ssl_ctx (cfg w) | e # es \<Rightarrow> Some (fst e)) \<and>
        (\<forall>e\<in>set (map subcert_entry (subcerts (cfg w)) @
                  (if subcerts (cfg w) = [] then [] else primary_entries (cfg w))).
           cert_lookup_tree_add_res env (fst e) (snd e) \<noteq> -1)"
  proof (cases rule: setup_tls_contexts_cases [where env=env and w=w])
    case (subcert_failed st w1)
    then show ?thesis using r by simp
  next
    case (subcerts_added w1)
    note a = add_subcerts_Returned [OF subcerts_added(1)]
    have d: "add_default_cert env w1 = (Returned u, w')" using r subcerts_added(2) by simp
    note da = add_default_cert_Returned [OF d]
    have w1: "w1 = snd (add_subcerts env (subcerts (cfg w)) (new_cert_tree w))"
      using subcerts_added(1) by simp
    have pe: "primary_entries (cfg w1) = primary_entries (cfg w)"
      unfolding w1
      using add_subcerts_keeps [where f=primary_entries and env=env and kcs="subcerts (cfg w)"
          and w="new_cert_tree w", OF primary_entries_keeps(1)]
      by (simp add: new_cert_tree_run primary_entries_keeps)
    have ds: "default_ssl_ctx (cfg w1) = default_ssl_ctx (cfg w)"
      unfolding w1
      using add_subcerts_keeps [where f=default_ssl_ctx and env=env and kcs="subcerts (cfg w)"
          and w="new_cert_tree w"]
      by (simp add: new_cert_tree_run)
    have t1: "cert_tree (cfg w1) =
        (if subcerts (cfg w) = [] then None else Some (map subcert_entry (subcerts (cfg w))))"
      using a none by (simp add: new_cert_tree_run)
    have ok: "\<forall>e\<in>set (map subcert_entry (subcerts (cfg w))).
        cert_lookup_tree_add_res env (fst e) (snd e) \<noteq> -1"
      using a by (auto simp: subcert_entry_def)
    have ok2: "subcerts (cfg w) \<noteq> [] \<Longrightarrow>
        \<forall>e\<in>set (primary_entries (cfg w)). cert_lookup_tree_add_res env (fst e) (snd e) \<noteq> -1"
      using da(3) t1 pe by simp
    show ?thesis using da(1,2) t1 pe ds ok ok2 by (auto split: list.splits)
  qed
  then show "cert_tree (cfg w') =
           (if subcerts (cfg w) = [] then None
            else Some (map subcert_entry (subcerts (cfg w)) @ primary_entries (cfg w)))"
    and "default_ssl_ctx (cfg w') =
           (case primary_entries (cfg w) of [] \<Rightarrow> default_ssl_ctx (cfg w) | e # es \<Rightarrow> Some (fst e))"
    and "\<forall>e\<in>set (map subcert_entry (subcerts (cfg w)) @
                  (if subcerts (cfg w) = [] then [] else primary_entries (cfg w))).
           cert_lookup_tree_add_res env (fst e) (snd e) \<noteq> -1"
    by simp_all
qed

lemma subcert_world_fields:
  "cfg subcert_world = (fill_default_config example_env)
       \<lparr>subcerts := [(''a.key'', ''a.crt''), (''b.key'', ''b.crt'')],
        private_key_file := Some ''server.key'', cert_file := Some ''server.crt''\<rparr>"
  "trace subcert_world = []"
  "pid subcert_world = 4242"
  "files subcert_world = Map.empty"
  by (simp_all add: subcert_world_def example_world_fields)

lemma subcert_world_setup:
  "fst (setup_tls_contexts example_env subcert_world) = Returned ()"
  by (simp add: setup_tls_contexts_def add_default_cert_def create_ssl_context_def
      cert_lookup_tree_add_cert_from_file_def cert_lookup_tree_new_def new_cert_tree_def Let_def
      subcert_world_fields example_env_fields default_config_fields)

text \<open>
  C8. Starting without a lookup structure, as \<^verbatim>\<open>fill_default_config\<close> leaves it: the
  structure exists after lines 1017--1044 if and only if \<^verbatim>\<open>subcerts\<close> is not empty. When
  the lines are passed, the structure holds one context per pair of \<^verbatim>\<open>subcerts\<close>, in
  their order and each under the certificate file of its pair, followed by the context
  of the primary pair when the key and the certificate of the primary pair are both
  configured; that context is the default context whether or not the structure exists.
  An insertion that returns -1, for a pair or for the primary pair, ends the process with
  a failure.
\<close>

theorem tls_contexts_and_lookup_tree:
  "cert_tree (cfg w) = None \<longrightarrow>
     ((cert_tree (cfg (snd (setup_tls_contexts env w))) \<noteq> None) = (subcerts (cfg w) \<noteq> [])) \<and>
     (fst (setup_tls_contexts env w) = Returned () \<longrightarrow>
        cert_tree (cfg (snd (setup_tls_contexts env w))) =
          (if subcerts (cfg w) = [] then None
           else Some (map subcert_entry (subcerts (cfg w)) @ primary_entries (cfg w))) \<and>
        default_ssl_ctx (cfg (snd (setup_tls_contexts env w))) =
          (case primary_entries (cfg w) of
             [] \<Rightarrow> default_ssl_ctx (cfg w)
           | e # es \<Rightarrow> Some (fst e))) \<and>
     ((\<exists>e\<in>set (map subcert_entry (subcerts (cfg w)) @
                 (if subcerts (cfg w) = [] then [] else primary_entries (cfg w))).
         cert_lookup_tree_add_res env (fst e) (snd e) = -1) \<longrightarrow>
        fst (setup_tls_contexts env w) = Exited EXIT_FAILURE)"
proof (intro impI conjI)
  assume none: "cert_tree (cfg w) = None"
  show "(cert_tree (cfg (snd (setup_tls_contexts env w))) \<noteq> None) = (subcerts (cfg w) \<noteq> [])"
    using none by (rule setup_tls_contexts_tree_exists)
  obtain r w' where s: "setup_tls_contexts env w = (r, w')"
    by (cases "setup_tls_contexts env w") blast
  {
    assume "fst (setup_tls_contexts env w) = Returned ()"
    then have r: "setup_tls_contexts env w = (Returned (), w')" using s by simp
    note R = setup_tls_contexts_Returned [OF none r]
    show "cert_tree (cfg (snd (setup_tls_contexts env w))) =
          (if subcerts (cfg w) = [] then None
           else Some (map subcert_entry (subcerts (cfg w)) @ primary_entries (cfg w)))"
      using R(1) r by simp
    show "default_ssl_ctx (cfg (snd (setup_tls_contexts env w))) =
          (case primary_entries (cfg w) of
             [] \<Rightarrow> default_ssl_ctx (cfg w)
           | e # es \<Rightarrow> Some (fst e))"
      using R(2) r by simp
  }
  assume bad: "\<exists>e\<in>set (map subcert_entry (subcerts (cfg w)) @
                 (if subcerts (cfg w) = [] then [] else primary_entries (cfg w))).
         cert_lookup_tree_add_res env (fst e) (snd e) = -1"
  show "fst (setup_tls_contexts env w) = Exited EXIT_FAILURE"
  proof (cases r)
    case (Returned u)
    with s have "setup_tls_contexts env w = (Returned u, w')" by simp
    from setup_tls_contexts_Returned(3) [OF none this] bad show ?thesis by blast
  next
    case (Exited st)
    with s setup_tls_contexts_Exited [of env w st w'] show ?thesis by simp
  qed
qed

theorem tls_contexts_and_lookup_tree_witness:
  "cert_tree (cfg subcert_world) = None \<and>
   subcerts (cfg subcert_world) = [(''a.key'', ''a.crt''), (''b.key'', ''b.crt'')] \<and>
   fst (setup_tls_contexts example_env subcert_world) = Returned () \<and>
   cert_tree (cfg (snd (setup_tls_contexts example_env subcert_world))) =
     Some [(Server_ctx ''a.key'' ''a.crt'', ''a.crt''), (Server_ctx ''b.key'' ''b.crt'', ''b.crt''),
           (Server_ctx ''server.key'' ''server.crt'', ''server.crt'')] \<and>
   default_ssl_ctx (cfg (snd (setup_tls_contexts example_env subcert_world))) =
     Some (Server_ctx ''server.key'' ''server.crt'')"
proof -
  have a: "cert_tree (cfg subcert_world) = None"
    "subcerts (cfg subcert_world) = [(''a.key'', ''a.crt''), (''b.key'', ''b.crt'')]"
    "primary_entries (cfg subcert_world) = [(Server_ctx ''server.key'' ''server.crt'', ''server.crt'')]"
    by (simp_all add: subcert_world_fields default_config_fields primary_entries_def)
  show ?thesis
    using tls_contexts_and_lookup_tree [where w=subcert_world and env=example_env]
      a subcert_world_setup
    by (simp add: subcert_entry_def)
qed

subsection \<open>The two listeners, one attempt for each family\<close>















subsection \<open>The address resolver\<close>




subsection \<open>The stages of main after the merge\<close>

lemma default_npn_list_run:
  "trace (default_npn_list env w) = trace w"
  "pid (default_npn_list env w) = pid w"
  "files (default_npn_list env w) = files w"
  by (simp_all add: default_npn_list_def)

lemma default_npn_list_keeps:
  assumes "\<And>c t. f (c\<lparr>npn_list := t\<rparr>) = f c"
  shows "f (cfg (default_npn_list env w)) = f (cfg w)"
  by (simp add: default_npn_list_def assms)




lemma validate_config_modes:
  "1 < mode_flag_sum (cfg w) \<Longrightarrow> validate_config w = (Exited EXIT_FAILURE, w)"
  by (simp add: validate_config_def)








lemma resolve_backend_http_proxy_unfold:
  obtains
    (no_proxy) "resolve_backend_http_proxy env w = (Returned (), w)"
  | (proxy) ph rv addr addrlen w1 where
    "resolve_hostname env (downstream_http_proxy_addr (cfg w))
       (downstream_http_proxy_addrlen (cfg w)) ph
       (downstream_http_proxy_port (cfg w)) AF_UNSPEC w = ((rv, addr, addrlen), w1)"
    "resolve_backend_http_proxy env w =
       (if rv = -1 then Exited EXIT_FAILURE else Returned (),
        w1\<lparr>cfg := (cfg w1)\<lparr>downstream_http_proxy_addr := addr,
                            downstream_http_proxy_addrlen := addrlen\<rparr>\<rparr>)"
proof (cases "downstream_http_proxy_host (cfg w)")
  case None
  then show ?thesis using no_proxy by (simp add: resolve_backend_http_proxy_def)
next
  case (Some ph)
  obtain rv addr addrlen w1 where r:
    "resolve_hostname env (downstream_http_proxy_addr (cfg w))
       (downstream_http_proxy_addrlen (cfg w)) ph
       (downstream_http_proxy_port (cfg w)) AF_UNSPEC w = ((rv, addr, addrlen), w1)"
    by (metis prod.exhaust)
  show ?thesis by (rule proxy [OF r]) (simp add: resolve_backend_http_proxy_def Some r Let_def)
qed



lemma resolve_backend_http_proxy_Exited:
  "resolve_backend_http_proxy env w = (Exited st, w') \<Longrightarrow> st = EXIT_FAILURE"
  by (cases rule: resolve_backend_http_proxy_unfold [where env=env and w=w])
    (simp_all split: if_splits)





text \<open>Facts about one stage, from the equation that names its result.\<close>

lemma setup_tls_contexts_facts:
  assumes "setup_tls_contexts env w = (r, w')"
  shows "extends w w'" "list_all is_tls_setup (new_events w w')"
  using setup_tls_contexts_run [where w=w and env=env] assms by simp_all




lemma extends_same_trace: "trace w1 = trace w \<Longrightarrow> extends w1 w' \<Longrightarrow> extends w w'"
  by (simp add: extends_def)

lemma new_events_same_trace: "trace w1 = trace w \<Longrightarrow> new_events w1 w' = new_events w w'"
  by (simp add: new_events_def)



subsection \<open>The merge\<close>

lemma parse_config_run:
  "trace (snd (parse_config env k v w)) = trace w"
  "pid (snd (parse_config env k v w)) = pid w"
  "files (snd (parse_config env k v w)) = files w"
  by (simp_all add: parse_config_def split: option.splits)

lemma load_entries_run:
  "trace (snd (load_entries env kvs w)) = trace w \<and>
   pid (snd (load_entries env kvs w)) = pid w \<and>
   files (snd (load_entries env kvs w)) = files w"
proof (induction kvs arbitrary: w)
  case Nil
  show ?case by simp
next
  case (Cons kv kvs)
  obtain rv w' where p: "parse_config env (fst kv) (snd kv) w = (rv, w')"
    by (cases "parse_config env (fst kv) (snd kv) w") blast
  have "trace w' = trace w" "pid w' = pid w" "files w' = files w"
    using parse_config_run [of env "fst kv" "snd kv" w] p by simp_all
  then show ?case using Cons [of w'] p by simp
qed

lemma parse_cmdcfgs_run:
  "trace (snd (parse_cmdcfgs env kvs w)) = trace w \<and>
   pid (snd (parse_cmdcfgs env kvs w)) = pid w \<and>
   files (snd (parse_cmdcfgs env kvs w)) = files w"
proof (induction kvs arbitrary: w)
  case Nil
  show ?case by simp
next
  case (Cons kv kvs)
  obtain rv w' where p: "parse_config env (fst kv) (snd kv) w = (rv, w')"
    by (cases "parse_config env (fst kv) (snd kv) w") blast
  have "trace w' = trace w" "pid w' = pid w" "files w' = files w"
    using parse_config_run [of env "fst kv" "snd kv" w] p by simp_all
  then show ?case using Cons [of w'] p by simp
qed

lemma parse_cmdcfgs_Exited:
  "parse_cmdcfgs env kvs w = (Exited st, w') \<Longrightarrow> st = EXIT_FAILURE"
proof (induction kvs arbitrary: w)
  case Nil
  then show ?case by simp
next
  case (Cons kv kvs)
  obtain rv w1 where p: "parse_config env (fst kv) (snd kv) w = (rv, w1)"
    by (cases "parse_config env (fst kv) (snd kv) w") blast
  show ?case using Cons.prems Cons.IH [of w1] p by (simp split: if_splits)
qed

lemma load_config_run:
  "trace (snd (load_config env path w)) = trace w @ [E_load_config path]"
  "pid (snd (load_config env path w)) = pid w"
  "files (snd (load_config env path w)) = files w"
  using load_entries_run [of env _ "emit (E_load_config path) w"]
  by (simp_all add: load_config_def split: option.splits)

lemma load_conf_file_trace:
  "trace (snd (load_conf_file env w)) =
     trace w @ (if conf_exists env (conf_path (cfg w)) then [E_load_config (conf_path (cfg w))] else [])"
  "pid (snd (load_conf_file env w)) = pid w"
  "files (snd (load_conf_file env w)) = files w"
proof -
  obtain rv w' where l: "load_config env (conf_path (cfg w)) w = (rv, w')"
    by (cases "load_config env (conf_path (cfg w)) w") blast
  note r = load_config_run [of env "conf_path (cfg w)" w, unfolded l snd_conv]
  show "trace (snd (load_conf_file env w)) =
     trace w @ (if conf_exists env (conf_path (cfg w)) then [E_load_config (conf_path (cfg w))] else [])"
    "pid (snd (load_conf_file env w)) = pid w"
    "files (snd (load_conf_file env w)) = files w"
    using r by (simp_all add: load_conf_file_def l)
qed

lemma load_conf_file_run:
  "extends w (snd (load_conf_file env w))"
  "list_all is_merge_event (new_events w (snd (load_conf_file env w)))"
  by (simp_all add: extends_def new_events_def load_conf_file_trace)

lemma load_conf_file_Exited:
  "load_conf_file env w = (Exited st, w') \<Longrightarrow> st = EXIT_FAILURE"
  by (auto simp: load_conf_file_def split: if_splits prod.splits)

lemma handle_option_run:
  "extends w (snd (handle_option r cm w))"
  "list_all is_merge_event (new_events w (snd (handle_option r cm w)))"
  "pid (snd (handle_option r cm w)) = pid w"
  "files (snd (handle_option r cm w)) = files w"
  by (simp_all add: handle_option_def split: option.splits)


lemma getopt_loop_from:
  "extends w0 w \<Longrightarrow> list_all is_merge_event (new_events w0 w) \<Longrightarrow>
     extends w0 (snd (getopt_loop rs cm w)) \<and>
     list_all is_merge_event (new_events w0 (snd (getopt_loop rs cm w)))"
proof (induction rs arbitrary: cm w)
  case Nil
  then show ?case by simp
next
  case (Cons r rs)
  obtain o1 w1 where h: "handle_option r cm w = (o1, w1)"
    by (cases "handle_option r cm w") blast
  have e1: "extends w w1" and l1: "list_all is_merge_event (new_events w w1)"
    using handle_option_run(1,2) [of w r cm] h by simp_all
  have e01: "extends w0 w1" using Cons.prems(1) e1 by (rule extends_trans)
  have l01: "list_all is_merge_event (new_events w0 w1)"
    using new_events_trans [OF Cons.prems(1) e1] Cons.prems(2) l1 by simp
  show ?case
  proof (cases "ret r = -1")
    case True
    then show ?thesis using Cons.prems by simp
  next
    case False
    show ?thesis
    proof (cases o1)
      case (Returned cm')
      then show ?thesis using False h Cons.IH [OF e01 l01, of cm'] by simp
    next
      case (Exited st)
      then show ?thesis using False h e01 l01 by simp
    qed
  qed
qed


lemma main_merge_cases:
  obtains
    (cmdline_exit) st w1 where
      "getopt_loop (getopt_results cl) [] (w\<lparr>cfg := fill_default_config env\<rparr>) = (Exited st, w1)"
      "main_merge env cl w = (Exited st, w1)"
  | (conf_failed) cmdcfgs w1 st w2 where
      "getopt_loop (getopt_results cl) [] (w\<lparr>cfg := fill_default_config env\<rparr>) = (Returned cmdcfgs, w1)"
      "load_conf_file env (emit E_setup_ssl_lock (emit E_ssl_library_init w1)) = (Exited st, w2)"
      "main_merge env cl w = (Exited st, w2)"
  | (conf_loaded) cmdcfgs w1 w2 where
      "getopt_loop (getopt_results cl) [] (w\<lparr>cfg := fill_default_config env\<rparr>) = (Returned cmdcfgs, w1)"
      "load_conf_file env (emit E_setup_ssl_lock (emit E_ssl_library_init w1)) = (Returned (), w2)"
      "main_merge env cl w = parse_cmdcfgs env (positional_cfgs (positionals cl) cmdcfgs) w2"
proof -
  obtain r1 w1 where g: "getopt_loop (getopt_results cl) [] (w\<lparr>cfg := fill_default_config env\<rparr>) = (r1, w1)"
    by (cases "getopt_loop (getopt_results cl) [] (w\<lparr>cfg := fill_default_config env\<rparr>)") blast
  show ?thesis
  proof (cases r1)
    case (Exited st)
    then show ?thesis using cmdline_exit g by (simp add: main_merge_def)
  next
    case (Returned cmdcfgs)
    with g have g': "getopt_loop (getopt_results cl) [] (w\<lparr>cfg := fill_default_config env\<rparr>) = (Returned cmdcfgs, w1)"
      by simp
    obtain r2 w2 where l: "load_conf_file env (emit E_setup_ssl_lock (emit E_ssl_library_init w1)) = (r2, w2)"
      by (cases "load_conf_file env (emit E_setup_ssl_lock (emit E_ssl_library_init w1))") blast
    show ?thesis
    proof (cases r2)
      case (Exited st)
      then show ?thesis using conf_failed [OF g'] l g' by (simp add: main_merge_def)
    next
      case (Returned u)
      then show ?thesis using conf_loaded [OF g'] l g' by (simp add: main_merge_def)
    qed
  qed
qed

lemma main_merge_run:
  "extends w (snd (main_merge env cl w))"
  "list_all is_merge_event (new_events w (snd (main_merge env cl w)))"
proof -
  let ?w0 = "w\<lparr>cfg := fill_default_config env\<rparr>"
  have g: "extends w (snd (getopt_loop (getopt_results cl) [] ?w0)) \<and>
      list_all is_merge_event (new_events w (snd (getopt_loop (getopt_results cl) [] ?w0)))"
    by (rule getopt_loop_from) simp_all
  have "extends w (snd (main_merge env cl w)) \<and>
        list_all is_merge_event (new_events w (snd (main_merge env cl w)))"
  proof (cases rule: main_merge_cases [where env=env and cl=cl and w=w])
    case (cmdline_exit st w1)
    then show ?thesis using g by simp
  next
    case (conf_failed cmdcfgs w1 st w2)
    have e1: "extends w w1" and l1: "list_all is_merge_event (new_events w w1)"
      using g conf_failed(1) by simp_all
    let ?w1' = "emit E_setup_ssl_lock (emit E_ssl_library_init w1)"
    have e1': "extends w ?w1'" and l1': "list_all is_merge_event (new_events w ?w1')"
      using e1 l1 by simp_all
    have e2: "extends ?w1' w2" and l2: "list_all is_merge_event (new_events ?w1' w2)"
      using load_conf_file_run [of ?w1' env] conf_failed(2) by simp_all
    have "extends w w2" using e1' e2 by (rule extends_trans)
    moreover have "list_all is_merge_event (new_events w w2)"
      using new_events_trans [OF e1' e2] l1' l2 by simp
    ultimately show ?thesis using conf_failed(3) by simp
  next
    case (conf_loaded cmdcfgs w1 w2)
    have e1: "extends w w1" and l1: "list_all is_merge_event (new_events w w1)"
      using g conf_loaded(1) by simp_all
    let ?w1' = "emit E_setup_ssl_lock (emit E_ssl_library_init w1)"
    have e1': "extends w ?w1'" and l1': "list_all is_merge_event (new_events w ?w1')"
      using e1 l1 by simp_all
    have e2: "extends ?w1' w2" and l2: "list_all is_merge_event (new_events ?w1' w2)"
      using load_conf_file_run [of ?w1' env] conf_loaded(2) by simp_all
    have e02: "extends w w2" using e1' e2 by (rule extends_trans)
    have l02: "list_all is_merge_event (new_events w w2)"
      using new_events_trans [OF e1' e2] l1' l2 by simp
    have t: "trace (snd (main_merge env cl w)) = trace w2"
      unfolding conf_loaded(3) using parse_cmdcfgs_run by simp
    show ?thesis using e02 l02 t by (simp add: extends_def new_events_def)
  qed
  then show "extends w (snd (main_merge env cl w))"
    "list_all is_merge_event (new_events w (snd (main_merge env cl w)))" by simp_all
qed


lemma merge_event_class:
  "is_merge_event e \<Longrightarrow> \<not> is_network e \<and> \<not> is_lifecycle e \<and> \<not> is_token_bucket_cfg_new e"
  by (cases e) simp_all

lemma tls_setup_class:
  "is_tls_setup e \<Longrightarrow> \<not> is_network e \<and> \<not> is_lifecycle e \<and> \<not> is_token_bucket_cfg_new e"
  by (cases e) simp_all

subsection \<open>The mode flags\<close>

lemma mode_flag_sum_keeps:
  "mode_flag_sum (c\<lparr>npn_list := n\<rparr>) = mode_flag_sum c"
  "mode_flag_sum (c\<lparr>cert_tree := t\<rparr>) = mode_flag_sum c"
  "mode_flag_sum (c\<lparr>default_ssl_ctx := d\<rparr>) = mode_flag_sum c"
  by (simp_all add: mode_flag_sum_def)

lemma bootstrap_rejects_modes:
  assumes "1 < mode_flag_sum (cfg w)"
  shows "fst (main_bootstrap env w) = Exited EXIT_FAILURE"
    and "extends w (snd (main_bootstrap env w))"
    and "list_all is_tls_setup (new_events w (snd (main_bootstrap env w)))"
proof -
  let ?w0 = "default_npn_list env w"
  obtain r1 w1 where s: "setup_tls_contexts env ?w0 = (r1, w1)"
    by (cases "setup_tls_contexts env ?w0") blast
  note t = setup_tls_contexts_facts [OF s]
  have e: "extends w w1" using t(1) default_npn_list_run(1) extends_same_trace by blast
  have l: "list_all is_tls_setup (new_events w w1)"
    using t(2) new_events_same_trace [OF default_npn_list_run(1)] by simp
  have m: "mode_flag_sum (cfg w1) = mode_flag_sum (cfg w)"
    using setup_tls_contexts_keeps(1) [where f=mode_flag_sum and env=env and w="?w0"]
      default_npn_list_keeps [where f=mode_flag_sum and env=env and w=w] s
    by (simp add: mode_flag_sum_keeps)
  have "main_bootstrap env w = (Exited EXIT_FAILURE, w1)"
  proof (cases r1)
    case (Exited st)
    then have "st = EXIT_FAILURE" using s setup_tls_contexts_Exited by blast
    then show ?thesis using s Exited by (simp add: main_bootstrap_def)
  next
    case (Returned u)
    have "validate_config w1 = (Exited EXIT_FAILURE, w1)"
      using validate_config_modes m assms by simp
    then show ?thesis using s Returned by (simp add: main_bootstrap_def)
  qed
  then show "fst (main_bootstrap env w) = Exited EXIT_FAILURE"
    and "extends w (snd (main_bootstrap env w))"
    and "list_all is_tls_setup (new_events w (snd (main_bootstrap env w)))"
    using e l by simp_all
qed

text \<open>
  C5. Line 1052 adds the four mode flags \<^verbatim>\<open>http2_proxy\<close>, \<^verbatim>\<open>http2_bridge\<close>,
  \<^verbatim>\<open>client_proxy\<close> and \<^verbatim>\<open>client\<close>. When the merge has returned and left more than one of
  them set, \<^verbatim>\<open>main\<close> ends the process with \<^verbatim>\<open>EXIT_FAILURE\<close>, and the run as a whole, from
  the first action of \<^verbatim>\<open>main\<close> to the exit, contains no network action (address
  resolution, socket, socket option, bind, listen) and no privilege or process-lifecycle
  action (\<^verbatim>\<open>daemon\<close>, the PID file, \<^verbatim>\<open>setgid\<close>, \<^verbatim>\<open>setuid\<close>).
\<close>

theorem mode_flags_rejected_first:
  assumes "fst (main_merge env cl w) = Returned ()"
    and "1 < mode_flag_sum (cfg (snd (main_merge env cl w)))"
  shows "fst (main env cl w) = Exited EXIT_FAILURE \<and>
    list_all (\<lambda>e. \<not> is_network e \<and> \<not> is_lifecycle e) (new_events w (snd (main env cl w)))"
proof -
  let ?w1 = "snd (main_merge env cl w)"
  have m: "main env cl w = main_bootstrap env ?w1"
    using assms(1) by (cases "main_merge env cl w") (simp add: main_def)
  note b = bootstrap_rejects_modes [where env=env and w="?w1", OF assms(2)]
  note mr = main_merge_run [where env=env and cl=cl and w=w]
  have T: "new_events w (snd (main env cl w)) =
      new_events w ?w1 @ new_events ?w1 (snd (main_bootstrap env ?w1))"
    unfolding m using new_events_trans [OF mr(1) b(2)] .
  have 1: "list_all (\<lambda>e. \<not> is_network e \<and> \<not> is_lifecycle e) (new_events w ?w1)"
    using mr(2) merge_event_class by (auto simp: list_all_iff)
  have 2: "list_all (\<lambda>e. \<not> is_network e \<and> \<not> is_lifecycle e)
      (new_events ?w1 (snd (main_bootstrap env ?w1)))"
    using b(3) tls_setup_class by (auto simp: list_all_iff)
  show ?thesis unfolding T using 1 2 b(1) m by simp
qed

lemma example_conf_file:
  "conf_exists example_env ''/etc/nghttpx/nghttpx.conf''"
  "conf_file example_env ''/etc/nghttpx/nghttpx.conf'' =
     Some [(SHRPX_OPT_PRIVATE_KEY_FILE, ''file.key''), (SHRPX_OPT_CERTIFICATE_FILE, ''file.crt'')]"
  by (simp_all add: conf_exists_def example_env_def S_IFREG_def S_IFLNK_def)

lemmas merge_example_defs =
  main_merge_def handle_option_def chr_code_def short_opt_cfg_def long_flag_cfg_def push_back_def
  load_conf_file_def load_config_def parse_config_def example_parse_config_def positional_cfgs_def
  example_conf_file example_env_fields default_config_fields example_world_fields

lemma two_modes_merge:
  "fst (main_merge example_env two_modes_cmdline example_world) = Returned ()"
  "mode_flag_sum (cfg (snd (main_merge example_env two_modes_cmdline example_world))) = 2"
  by (simp_all add: merge_example_defs two_modes_cmdline_def mode_flag_sum_def)

theorem mode_flags_rejected_first_witness:
  "fst (main_merge example_env two_modes_cmdline example_world) = Returned () \<and>
   mode_flag_sum (cfg (snd (main_merge example_env two_modes_cmdline example_world))) = 2 \<and>
   fst (main example_env two_modes_cmdline example_world) = Exited EXIT_FAILURE \<and>
   list_all (\<lambda>e. \<not> is_network e \<and> \<not> is_lifecycle e)
     (new_events example_world (snd (main example_env two_modes_cmdline example_world)))"
  using mode_flags_rejected_first [where env=example_env and cl=two_modes_cmdline and w=example_world]
    two_modes_merge
  by simp

subsection \<open>The rate-limit descriptor\<close>







lemmas bootstrap_example_defs =
  main_def main_bootstrap_def default_npn_list_def setup_tls_contexts_def new_cert_tree_def
  add_default_cert_def create_ssl_context_def cert_lookup_tree_add_cert_from_file_def
  validate_config_def mode_flag_sum_def set_downstream_hostport_def is_ipv6_numeric_addr_def
  resolve_backend_def resolve_backend_http_proxy_def resolve_hostname_def backend_family_def
  before_loop_def init_syslog_def build_rate_limit_cfg_def


lemma no_arguments_run:
  "fst (main example_env no_arguments example_world) = Returned 0"
  by (simp add: bootstrap_example_defs merge_example_defs no_arguments_def run_example_defs
      decimal_examples emit_def)




subsection \<open>The address resolver and the backend\<close>








subsection \<open>The order of the sources\<close>









lemma override_cmdline_merge:
  "fst (main_merge example_env override_cmdline example_world) = Returned ()"
  by (simp add: merge_example_defs override_cmdline_def)




subsection \<open>The positional arguments\<close>

lemma parse_cmdcfgs_append:
  "parse_cmdcfgs env (xs @ ys) w =
     and_then (parse_cmdcfgs env xs w) (\<lambda>_ w1. parse_cmdcfgs env ys w1)"
proof (induction xs arbitrary: w)
  case Nil
  show ?case by simp
next
  case (Cons kv xs)
  obtain rv w1 where p: "parse_config env (fst kv) (snd kv) w = (rv, w1)"
    by (cases "parse_config env (fst kv) (snd kv) w") blast
  show ?case using Cons [of w1] p by simp
qed

lemma positional_cfgs_cases:
  "positional_cfgs [] cmdcfgs = cmdcfgs"
  "positional_cfgs [a] cmdcfgs = cmdcfgs"
  "positional_cfgs (a # b # rest) cmdcfgs =
     cmdcfgs @ [(SHRPX_OPT_PRIVATE_KEY_FILE, a), (SHRPX_OPT_CERTIFICATE_FILE, b)]"
  by (simp_all add: positional_cfgs_def push_back_def)

lemma main_positionals:
  assumes "getopt_results cl' = getopt_results cl"
    and "\<And>cmdcfgs. positional_cfgs (positionals cl') cmdcfgs =
                     positional_cfgs (positionals cl) cmdcfgs"
  shows "main env cl' w = main env cl w"
  by (simp add: main_def main_merge_def assms)

lemma key_cert_parsed_last:
  assumes k: "\<And>c c'. parse_config_res env SHRPX_OPT_PRIVATE_KEY_FILE a c = Some c' \<Longrightarrow>
      private_key_file c' = Some a"
    and c: "\<And>c c'. parse_config_res env SHRPX_OPT_CERTIFICATE_FILE b c = Some c' \<Longrightarrow>
      cert_file c' = Some b \<and> private_key_file c' = private_key_file c"
    and p: "parse_cmdcfgs env
       (cmdcfgs @ [(SHRPX_OPT_PRIVATE_KEY_FILE, a), (SHRPX_OPT_CERTIFICATE_FILE, b)]) w =
       (Returned (), w')"
  shows "private_key_file (cfg w') = Some a \<and> cert_file (cfg w') = Some b"
proof -
  obtain r1 wa where x: "parse_cmdcfgs env cmdcfgs w = (r1, wa)"
    by (cases "parse_cmdcfgs env cmdcfgs w") blast
  have y: "parse_cmdcfgs env [(SHRPX_OPT_PRIVATE_KEY_FILE, a), (SHRPX_OPT_CERTIFICATE_FILE, b)] wa =
      (Returned (), w')"
    using p x unfolding parse_cmdcfgs_append by (cases r1) simp_all
  obtain ck where ck: "parse_config_res env SHRPX_OPT_PRIVATE_KEY_FILE a (cfg wa) = Some ck"
    using y by (cases "parse_config_res env SHRPX_OPT_PRIVATE_KEY_FILE a (cfg wa)")
      (simp_all add: parse_config_def)
  obtain cc where cc: "parse_config_res env SHRPX_OPT_CERTIFICATE_FILE b ck = Some cc"
    using y ck by (cases "parse_config_res env SHRPX_OPT_CERTIFICATE_FILE b ck")
      (simp_all add: parse_config_def)
  have "cfg w' = cc" using y ck cc by (auto simp: parse_config_def)
  then show ?thesis using k [OF ck] c [OF cc] by simp
qed

text \<open>
  C10. With one positional argument \<^verbatim>\<open>main\<close> does what it does with none: the outcome
  and all actions are the same. With two or more it does what it does with the first two
  alone. The first two are appended to \<^verbatim>\<open>cmdcfgs\<close> as the private key file and the
  certificate file, after every entry that the options have put there, and the entries
  of \<^verbatim>\<open>cmdcfgs\<close> are parsed in that order after the configuration file. \<^verbatim>\<open>parse_config\<close>
  belongs to \<^verbatim>\<open>shrpx_config.cc\<close>, which is not among the sources; provided that it stores
  the key under \<^verbatim>\<open>private_key_file\<close> and the certificate under \<^verbatim>\<open>cert_file\<close>, and that the
  latter leaves the key alone, the store holds the two positional arguments when the
  merge returns, whatever the options and the file have set.
\<close>

theorem positional_arguments:
  "(positionals cl = [a] \<longrightarrow> main env cl w = main env (cl\<lparr>positionals := []\<rparr>) w) \<and>
   (positionals cl = a # b # rest \<longrightarrow>
      main env cl w = main env (cl\<lparr>positionals := [a, b]\<rparr>) w) \<and>
   positional_cfgs [] cmdcfgs = cmdcfgs \<and>
   positional_cfgs [a] cmdcfgs = cmdcfgs \<and>
   positional_cfgs (a # b # rest) cmdcfgs =
     cmdcfgs @ [(SHRPX_OPT_PRIVATE_KEY_FILE, a), (SHRPX_OPT_CERTIFICATE_FILE, b)] \<and>
   (getopt_loop (getopt_results cl) [] (w\<lparr>cfg := fill_default_config env\<rparr>) =
      (Returned cmdcfgs, w1) \<and>
    load_conf_file env (emit E_setup_ssl_lock (emit E_ssl_library_init w1)) = (Returned (), w2) \<longrightarrow>
      main_merge env cl w = parse_cmdcfgs env (positional_cfgs (positionals cl) cmdcfgs) w2) \<and>
   ((\<forall>c c'. parse_config_res env SHRPX_OPT_PRIVATE_KEY_FILE a c = Some c' \<longrightarrow>
       private_key_file c' = Some a) \<and>
    (\<forall>c c'. parse_config_res env SHRPX_OPT_CERTIFICATE_FILE b c = Some c' \<longrightarrow>
       cert_file c' = Some b \<and> private_key_file c' = private_key_file c) \<and>
    positionals cl = a # b # rest \<and> fst (main_merge env cl w) = Returned () \<longrightarrow>
      private_key_file (cfg (snd (main_merge env cl w))) = Some a \<and>
      cert_file (cfg (snd (main_merge env cl w))) = Some b)"
proof -
  have 1: "positionals cl = [a] \<longrightarrow> main env cl w = main env (cl\<lparr>positionals := []\<rparr>) w"
  proof
    assume p: "positionals cl = [a]"
    show "main env cl w = main env (cl\<lparr>positionals := []\<rparr>) w"
      by (rule main_positionals [symmetric]) (simp_all add: p positional_cfgs_cases)
  qed
  have 2: "positionals cl = a # b # rest \<longrightarrow>
      main env cl w = main env (cl\<lparr>positionals := [a, b]\<rparr>) w"
  proof
    assume p: "positionals cl = a # b # rest"
    show "main env cl w = main env (cl\<lparr>positionals := [a, b]\<rparr>) w"
      by (rule main_positionals [symmetric]) (simp_all add: p positional_cfgs_cases)
  qed
  have 3: "getopt_loop (getopt_results cl) [] (w\<lparr>cfg := fill_default_config env\<rparr>) =
      (Returned cmdcfgs, w1) \<and>
    load_conf_file env (emit E_setup_ssl_lock (emit E_ssl_library_init w1)) = (Returned (), w2) \<longrightarrow>
      main_merge env cl w = parse_cmdcfgs env (positional_cfgs (positionals cl) cmdcfgs) w2"
    by (simp add: main_merge_def)
  have 4: "(\<forall>c c'. parse_config_res env SHRPX_OPT_PRIVATE_KEY_FILE a c = Some c' \<longrightarrow>
       private_key_file c' = Some a) \<and>
    (\<forall>c c'. parse_config_res env SHRPX_OPT_CERTIFICATE_FILE b c = Some c' \<longrightarrow>
       cert_file c' = Some b \<and> private_key_file c' = private_key_file c) \<and>
    positionals cl = a # b # rest \<and> fst (main_merge env cl w) = Returned () \<longrightarrow>
      private_key_file (cfg (snd (main_merge env cl w))) = Some a \<and>
      cert_file (cfg (snd (main_merge env cl w))) = Some b"
  proof (intro impI, elim conjE)
    assume k: "\<forall>c c'. parse_config_res env SHRPX_OPT_PRIVATE_KEY_FILE a c = Some c' \<longrightarrow>
       private_key_file c' = Some a"
      and c: "\<forall>c c'. parse_config_res env SHRPX_OPT_CERTIFICATE_FILE b c = Some c' \<longrightarrow>
       cert_file c' = Some b \<and> private_key_file c' = private_key_file c"
      and ps: "positionals cl = a # b # rest"
      and m: "fst (main_merge env cl w) = Returned ()"
    show "private_key_file (cfg (snd (main_merge env cl w))) = Some a \<and>
      cert_file (cfg (snd (main_merge env cl w))) = Some b"
    proof (cases rule: main_merge_cases [where env=env and cl=cl and w=w])
      case (cmdline_exit st w1)
      then show ?thesis using m by simp
    next
      case (conf_failed cm w1 st w2)
      then show ?thesis using m by simp
    next
      case (conf_loaded cm wa wb)
      have e: "parse_cmdcfgs env
          (cm @ [(SHRPX_OPT_PRIVATE_KEY_FILE, a), (SHRPX_OPT_CERTIFICATE_FILE, b)]) wb =
          main_merge env cl w"
        unfolding conf_loaded(3) by (simp add: ps positional_cfgs_cases)
      have "main_merge env cl w = (fst (main_merge env cl w), snd (main_merge env cl w))"
        by simp
      then have "main_merge env cl w = (Returned (), snd (main_merge env cl w))"
        unfolding m .
      with e have p: "parse_cmdcfgs env
          (cm @ [(SHRPX_OPT_PRIVATE_KEY_FILE, a), (SHRPX_OPT_CERTIFICATE_FILE, b)]) wb =
          (Returned (), snd (main_merge env cl w))"
        by (rule trans)
      have k': "\<And>c c'. parse_config_res env SHRPX_OPT_PRIVATE_KEY_FILE a c = Some c' \<Longrightarrow>
          private_key_file c' = Some a"
        using k by blast
      have c': "\<And>c c'. parse_config_res env SHRPX_OPT_CERTIFICATE_FILE b c = Some c' \<Longrightarrow>
          cert_file c' = Some b \<and> private_key_file c' = private_key_file c"
        using c by blast
      show ?thesis by (rule key_cert_parsed_last [OF k' c' p])
    qed
  qed
  have 5: "positional_cfgs [] cmdcfgs = cmdcfgs" "positional_cfgs [a] cmdcfgs = cmdcfgs"
    "positional_cfgs (a # b # rest) cmdcfgs =
       cmdcfgs @ [(SHRPX_OPT_PRIVATE_KEY_FILE, a), (SHRPX_OPT_CERTIFICATE_FILE, b)]"
    by (simp_all add: positional_cfgs_cases)
  show ?thesis
    using 1 2 5 3 4 by (intro conjI) assumption+
qed

theorem positional_arguments_witness:
  "main example_env one_positional_cmdline example_world =
     main example_env no_arguments example_world \<and>
   fst (main example_env one_positional_cmdline example_world) = Returned 0 \<and>
   fst (main_merge example_env override_cmdline example_world) = Returned () \<and>
   private_key_file (cfg (snd (main_merge example_env override_cmdline example_world))) =
     Some ''cli.key'' \<and>
   cert_file (cfg (snd (main_merge example_env override_cmdline example_world))) =
     Some ''cli.crt''"
proof -
  note a = positional_arguments [where env=example_env and cl=one_positional_cmdline
      and w=example_world and a="''cli.key''"]
  note b = positional_arguments [where env=example_env and cl=override_cmdline
      and w=example_world and a="''cli.key''" and b="''cli.crt''" and rest="[''extra'']"]
  have p: "positionals one_positional_cmdline = [''cli.key'']"
    "one_positional_cmdline\<lparr>positionals := []\<rparr> = no_arguments"
    "positionals override_cmdline = [''cli.key'', ''cli.crt'', ''extra'']"
    by (simp_all add: one_positional_cmdline_def no_arguments_def override_cmdline_def)
  have 1: "main example_env one_positional_cmdline example_world =
     main example_env no_arguments example_world"
    using a [THEN conjunct1, THEN mp, OF p(1)] unfolding p(2) .
  have k: "\<forall>c c'. parse_config_res example_env SHRPX_OPT_PRIVATE_KEY_FILE ''cli.key'' c = Some c' \<longrightarrow>
       private_key_file c' = Some ''cli.key''"
    and c: "\<forall>c c'. parse_config_res example_env SHRPX_OPT_CERTIFICATE_FILE ''cli.crt'' c = Some c' \<longrightarrow>
       cert_file c' = Some ''cli.crt'' \<and> private_key_file c' = private_key_file c"
    by (auto simp: example_env_fields example_parse_config_def)
  have 2: "private_key_file (cfg (snd (main_merge example_env override_cmdline example_world))) =
     Some ''cli.key'' \<and>
   cert_file (cfg (snd (main_merge example_env override_cmdline example_world))) =
     Some ''cli.crt''"
    by (rule b [THEN conjunct2, THEN conjunct2, THEN conjunct2, THEN conjunct2, THEN conjunct2,
        THEN conjunct2, THEN mp]) (intro conjI k c p(3) override_cmdline_merge)
  show ?thesis using 1 2 no_arguments_run override_cmdline_merge by simp
qed

end
